theory Spec2Isabelle
  imports Main
begin

section \<open>Python string operations used by the handlers\<close>

text \<open>
  Strings are lists of characters.  The operations below are those whose result the
  handlers depend on; \<open>str.lower\<close>, which follows the Unicode case mapping, is taken from
  the environment (\<open>str_lower\<close> below).
\<close>

definition startswith :: "string \<Rightarrow> string \<Rightarrow> bool" where
  "startswith s p = (take (length p) s = p)"

definition endswith :: "string \<Rightarrow> string \<Rightarrow> bool" where
  "endswith s p = (length p \<le> length s \<and> drop (length s - length p) s = p)"

text \<open>\<open>s.split(c)\<close> for a one-character separator: one more piece than separators.\<close>

fun split :: "char \<Rightarrow> string \<Rightarrow> string list" where
  "split c [] = [[]]"
| "split c (x # xs) =
     (if x = c then [] # split c xs
      else (case split c xs of
              [] \<Rightarrow> [[x]]
            | p # ps \<Rightarrow> (x # p) # ps))"

text \<open>\<open>s.split(c, 1)\<close>: cut at the first separator only.\<close>

definition split1 :: "char \<Rightarrow> string \<Rightarrow> string list" where
  "split1 c s =
     (if c \<in> set s then [takeWhile (\<lambda>x. x \<noteq> c) s, tl (dropWhile (\<lambda>x. x \<noteq> c) s)]
      else [s])"

text \<open>\<open>s.replace(old, new)\<close> for a non-empty \<open>old\<close>, scanning from the left.\<close>

function replace :: "string \<Rightarrow> string \<Rightarrow> string \<Rightarrow> string" where
  "replace old new [] = []"
| "replace old new (x # xs) =
     (if old \<noteq> [] \<and> startswith (x # xs) old
      then new @ replace old new (drop (length old) (x # xs))
      else x # replace old new xs)"
  by pat_completeness auto
termination
  by (relation "measure (\<lambda>(old, new, s). length s)") auto

text \<open>\<open>os.path.basename\<close>, \<open>os.path.dirname\<close> and \<open>os.path.splitext\<close> of \<open>posixpath\<close>.\<close>

definition basename :: "string \<Rightarrow> string" where
  "basename p = rev (takeWhile (\<lambda>x. x \<noteq> CHR ''/'') (rev p))"

definition rstrip_slash :: "string \<Rightarrow> string" where
  "rstrip_slash s = rev (dropWhile (\<lambda>x. x = CHR ''/'') (rev s))"

definition dirname :: "string \<Rightarrow> string" where
  "dirname p =
     (let head = take (length p - length (basename p)) p
      in if head \<noteq> [] \<and> \<not> list_all (\<lambda>x. x = CHR ''/'') head then rstrip_slash head else head)"

text \<open>
  \<open>splitext\<close> is only ever applied to a base name, which holds no \<open>/\<close>: the extension
  starts at the last dot, unless only dots come before it.
\<close>

definition splitext :: "string \<Rightarrow> string \<times> string" where
  "splitext p =
     (let ext = rev (takeWhile (\<lambda>x. x \<noteq> CHR ''.'') (rev p));
          root = take (length p - length ext - 1) p
      in if CHR ''.'' \<in> set p \<and> \<not> list_all (\<lambda>x. x = CHR ''.'') root
         then (root, CHR ''.'' # ext)
         else (p, []))"

text \<open>\<open>p in s\<close> for strings: \<open>p\<close> occurs in \<open>s\<close>.\<close>

fun is_substring :: "string \<Rightarrow> string \<Rightarrow> bool" where
  "is_substring p [] = (p = [])"
| "is_substring p (x # xs) = (startswith (x # xs) p \<or> is_substring p xs)"

text \<open>\<open>str(i)\<close> for a natural number.\<close>

definition digit_char :: "nat \<Rightarrow> char" where
  "digit_char d = ''0123456789'' ! (d mod 10)"

fun str_nat :: "nat \<Rightarrow> string" where
  "str_nat n = (if n < 10 then [digit_char n] else str_nat (n div 10) @ [digit_char (n mod 10)])"

declare str_nat.simps [simp del]


section \<open>Data model\<close>

text \<open>Parsed JSON, as \<open>json.loads\<close> returns it; a float is kept as its decimal literal.\<close>

datatype json =
    JNull
  | JBool bool
  | JNum int
  | JFloat string
  | JStr string
  | JArr "json list"
  | JObj "(string \<times> json) list"

text \<open>
  An item of the metadata table.  The table's key \<open>id\<close> is present in every item; every
  other attribute is optional.  \<open>dataType\<close>, \<open>source\<close> and \<open>owner\<close> are strings and
  \<open>tags\<close> is a list of strings, as the ingest handler's callers send them.
\<close>

record metadata =
  md_id :: string
  timestamp :: "string option"
  dataType :: "string option"
  source :: "string option"
  owner :: "string option"
  s3Location :: "string option"
  sizeBytes :: "nat option"
  status :: "string option"
  tags :: "string list option"
  description :: "string option"
  indexed :: "bool option"
  indexedAt :: "string option"

text \<open>The item that holds nothing but its key.\<close>

definition item_of_id :: "string \<Rightarrow> metadata" where
  "item_of_id i =
     \<lparr>md_id = i, timestamp = None, dataType = None, source = None, owner = None,
      s3Location = None, sizeBytes = None, status = None, tags = None, description = None,
      indexed = None, indexedAt = None\<rparr>"

text \<open>
  Documents of the search index: the merged document of the record indexer
  (\<open>metadata\<close>, \<open>content\<close>, \<open>indexed_at\<close>), a bare metadata document, or one row of a
  tabular file.
\<close>

datatype document =
    DataDoc metadata json string
  | MetaDoc metadata
  | RowDoc "(string \<times> json) list"

text \<open>Exceptions, by class; the argument is the key, the operation or the message.\<close>

datatype error =
    KeyError string
  | IndexError
  | TypeError
  | AttributeError
  | ValueError string
  | JSONDecodeError
  | UnicodeDecodeError
  | ClientError string
  | ParamValidationError string
  | ConnectionError
  | Exception string

datatype level = INFO | WARNING | ERROR

text \<open>
  A log line: its level, its text up to the interpolated exception, and that exception
  when the line carries one.
\<close>

datatype log_entry = Log level string "error option"

text \<open>The writes that the outside services have completed, oldest first.\<close>

datatype effect =
    S3Put string string
  | TablePut string
  | IndexPut string string
  | IndexCreate string

text \<open>A table read from a file: rows of named cells; a cell may be a missing value.\<close>

datatype cell = NaN | Val json

type_synonym row = "(string \<times> cell) list"

text \<open>
  The bytes of a stored object: the UTF-8 encoding of a text, or bytes that are no UTF-8
  encoding of any text.  \<open>decode\<close> is \<open>bytes.decode('utf-8')\<close>.
\<close>

datatype blob = Text string | Binary string

definition decode :: "blob \<Rightarrow> error + string" where
  "decode body = (case body of Text s \<Rightarrow> Inr s | Binary _ \<Rightarrow> Inl UnicodeDecodeError)"

text \<open>
  The state the handlers share: the blob store, the metadata table, the documents of the
  search index (keyed by index name and document id), the indices created explicitly,
  the writes completed so far, and the log.
\<close>

record world =
  s3 :: "((string \<times> string) \<times> blob) list"
  table :: "metadata list"
  es :: "((string \<times> string) \<times> document) list"
  indices :: "string list"
  writes :: "effect list"
  logs :: "log_entry list"

text \<open>
  Configuration read from the process environment, and the behaviour of the libraries and
  services outside the repository: \<open>str.lower\<close>, the JSON codec, the clock and the
  identifier source, the blob store client's validation of a bucket name and key before
  any request is sent, whether a write is accepted by the blob store and whether
  \<open>put_item\<close> is accepted by the table, the HTTP status the search service answers to
  the write of a document (\<open>None\<close>: the request raises before any answer, the service
  being out of reach or the document not serialisable), the size of a scan's response
  page, the query engine, the search domain's lookup, URL decoding, and the readers and
  writers of tabular files.
\<close>

record env =
  S3_BUCKET :: "string option"
  DYNAMODB_TABLE :: "string option"
  ES_ENDPOINT :: "string option"
  AWS_REGION :: "string option"
  ENVIRONMENT :: "string option"
  str_lower :: "string \<Rightarrow> string"
  loads :: "string \<Rightarrow> json option"
  dumps :: "json \<Rightarrow> string"
  now :: string
  uuid4 :: string
  sample_uuid_hex :: string
  s3_params_valid :: "string \<Rightarrow> string \<Rightarrow> bool"
  s3_put_ok :: "string \<Rightarrow> string \<Rightarrow> bool"
  ddb_write_ok :: "string \<Rightarrow> bool"
  es_put_status :: "string \<Rightarrow> string \<Rightarrow> nat option"
  scan_page :: nat
  start_query_execution :: "string \<Rightarrow> string \<Rightarrow> string option"
  describe_domain :: "string \<Rightarrow> string option"
  opensearch_up :: bool
  unquote_plus :: "string \<Rightarrow> string"
  read_table :: "string \<Rightarrow> string \<Rightarrow> row list option"
  read_parquet :: "blob \<Rightarrow> row list option"
  write_table :: "string \<Rightarrow> row list \<Rightarrow> string"
  write_parquet :: "row list \<Rightarrow> blob"

section \<open>The external collaborators\<close>

definition log :: "level \<Rightarrow> string \<Rightarrow> world \<Rightarrow> world" where
  "log l msg w = w\<lparr>logs := logs w @ [Log l msg None]\<rparr>"

definition log_exc :: "level \<Rightarrow> string \<Rightarrow> error \<Rightarrow> world \<Rightarrow> world" where
  "log_exc l msg e w = w\<lparr>logs := logs w @ [Log l msg (Some e)]\<rparr>"

text \<open>A keyed store holds one value per key: a write replaces the value of its key.\<close>

definition upsert :: "'k \<Rightarrow> 'v \<Rightarrow> ('k \<times> 'v) list \<Rightarrow> ('k \<times> 'v) list" where
  "upsert k v kvs = (k, v) # filter (\<lambda>p. fst p \<noteq> k) kvs"

text \<open>
  Blob store: the client validates the bucket name and the key and raises before any
  request is sent when they are not valid; \<open>get_object\<close> raises the service's error when
  the key is absent.
\<close>

definition get_object :: "env \<Rightarrow> string \<Rightarrow> string \<Rightarrow> world \<Rightarrow> error + blob" where
  "get_object ev bucket key w =
     (if \<not> s3_params_valid ev bucket key then Inl (ParamValidationError ''Bucket'')
      else (case map_of (s3 w) (bucket, key) of
              None \<Rightarrow> Inl (ClientError ''NoSuchKey'')
            | Some body \<Rightarrow> Inr body))"

text \<open>
  \<open>put_object\<close>: the client's check of the bucket name raises on a bucket that is not a
  string (an unset variable), the validation refuses a bucket name or key that is not
  valid, and the service may refuse the write.
\<close>

definition put_object :: "env \<Rightarrow> string option \<Rightarrow> string \<Rightarrow> blob \<Rightarrow> world \<Rightarrow> (error + unit) \<times> world" where
  "put_object ev bucket key content w =
     (case bucket of
        None \<Rightarrow> (Inl TypeError, w)
      | Some b \<Rightarrow>
          if \<not> s3_params_valid ev b key then (Inl (ParamValidationError ''Bucket''), w)
          else if s3_put_ok ev b key
          then (Inr (), w\<lparr>s3 := upsert (b, key) content (s3 w), writes := writes w @ [S3Put b key]\<rparr>)
          else (Inl (ClientError ''PutObject''), w))"



text \<open>
  The item that the table holds under a key, and the point lookup \<open>get_item\<close>: the table
  refuses an empty key.
\<close>

definition table_item :: "string \<Rightarrow> world \<Rightarrow> metadata option" where
  "table_item i w = find (\<lambda>m. md_id m = i) (table w)"

definition get_item :: "string \<Rightarrow> world \<Rightarrow> error + metadata option" where
  "get_item i w =
     (if i = [] then Inl (ClientError ''ValidationException'') else Inr (table_item i w))"

definition put_item :: "env \<Rightarrow> metadata \<Rightarrow> world \<Rightarrow> (error + unit) \<times> world" where
  "put_item ev item w =
     (if ddb_write_ok ev (md_id item)
      then (Inr (), w\<lparr>table := item # filter (\<lambda>m. md_id m \<noteq> md_id item) (table w),
                      writes := writes w @ [TablePut (md_id item)]\<rparr>)
      else (Inl (ClientError ''PutItem''), w))"

text \<open>
  \<open>update_item\<close>, as all four index paths call it: with the update expression
  \<open>SET indexed = :indexed, indexedAt = :indexedAt\<close> and no expression attribute names.
  \<open>INDEXED\<close> is a reserved word of the table's expression language, so the table refuses
  the request whatever the key: the call raises and the item is left as it was.
\<close>

definition update_item :: "string \<Rightarrow> world \<Rightarrow> (error + unit) \<times> world" where
  "update_item i w = (Inl (ClientError ''ValidationException''), w)"

text \<open>
  \<open>scan\<close>: one response page, the first \<open>scan_page\<close> items of the table; a \<open>Limit\<close> bounds
  the items examined, and the filter is applied to the items examined.
\<close>

definition scan :: "env \<Rightarrow> (metadata \<Rightarrow> bool) \<Rightarrow> nat option \<Rightarrow> world \<Rightarrow> metadata list" where
  "scan ev flt limit w =
     filter flt (take (case limit of None \<Rightarrow> scan_page ev | Some n \<Rightarrow> min n (scan_page ev)) (table w))"

text \<open>Sequencing of steps that may raise: the first exception ends the sequence.\<close>

definition thenE :: "(world \<Rightarrow> (error + 'a) \<times> world) \<Rightarrow> ('a \<Rightarrow> world \<Rightarrow> (error + 'b) \<times> world)
    \<Rightarrow> world \<Rightarrow> (error + 'b) \<times> world" where
  "thenE m f w = (case m w of (Inl e, w') \<Rightarrow> (Inl e, w') | (Inr x, w') \<Rightarrow> f x w')"

definition lift :: "(world \<Rightarrow> error + 'a) \<Rightarrow> world \<Rightarrow> (error + 'a) \<times> world" where
  "lift f w = (f w, w)"

section \<open>The record indexer (index-data-lambda.py)\<close>

record response =
  statusCode :: nat
  success :: bool
  message :: string
  detail :: "error option"
  totalItems :: "nat option"
  indexedItems :: "nat option"
  dataTypes :: "string list option"

definition reply :: "nat \<Rightarrow> bool \<Rightarrow> string \<Rightarrow> response" where
  "reply code ok msg =
     \<lparr>statusCode = code, success = ok, message = msg, detail = None, totalItems = None,
      indexedItems = None, dataTypes = None\<rparr>"

text \<open>\<open>not ES_ENDPOINT\<close>: unset, or set to the empty string.\<close>

definition es_unset :: "env \<Rightarrow> bool" where
  "es_unset ev = (ES_ENDPOINT ev = None \<or> ES_ENDPOINT ev = Some [])"

definition index_in_elasticsearch :: "env \<Rightarrow> string \<Rightarrow> string \<Rightarrow> document \<Rightarrow> world \<Rightarrow> (error + unit) \<times> world" where
  "index_in_elasticsearch ev index_name document_id doc w =
     (if es_unset ev
      then (Inr (), log WARNING ''ES_ENDPOINT environment variable not set, skipping indexing'' w)
      else
        let index_name = str_lower ev index_name in
        (case es_put_status ev index_name document_id of
           None \<Rightarrow> (Inl ConnectionError, w)
         | Some code \<Rightarrow>
             if 200 \<le> code \<and> code < 300
             then (Inr (),
                   log INFO (''Successfully indexed document '' @ document_id @ '' in '' @ index_name)
                     (w\<lparr>es := upsert (index_name, document_id) doc (es w),
                        writes := writes w @ [IndexPut index_name document_id]\<rparr>))
             else (Inl (Exception ''Elasticsearch indexing failed''),
                   log ERROR ''Error indexing document'' w)))"

text \<open>\<open>metadata.get('dataType', 'unknown')\<close>\<close>

definition data_type_of :: "metadata \<Rightarrow> string" where
  "data_type_of m = (case dataType m of None \<Rightarrow> ''unknown'' | Some t \<Rightarrow> t)"

text \<open>
  The parse of a stored location that \<open>index_by_id\<close>, both batch loops and \<open>get_content\<close>
  spell out: the key \<open>s3Location\<close> must be there, a leading \<open>s3://\<close> is dropped, and the
  rest is cut at its first \<open>/\<close>; \<open>parts[1]\<close> raises when there is none.
\<close>

definition parse_s3_location :: "metadata \<Rightarrow> error + (string \<times> string)" where
  "parse_s3_location m =
     (case s3Location m of
        None \<Rightarrow> Inl (KeyError ''s3Location'')
      | Some loc \<Rightarrow>
          let s3_location = (if startswith loc ''s3://'' then drop 5 loc else loc);
              parts = split1 CHR ''/'' s3_location
          in (case parts of
                bucket # key # _ \<Rightarrow> Inr (bucket, key)
              | _ \<Rightarrow> Inl IndexError))"

definition json_loads :: "env \<Rightarrow> string \<Rightarrow> error + json" where
  "json_loads ev content = (case loads ev content of None \<Rightarrow> Inl JSONDecodeError | Some j \<Rightarrow> Inr j)"

text \<open>
  The blob-event path.  The object is fetched and decoded before the \<open>try\<close> that guards
  the JSON parse, so that only a \<open>JSONDecodeError\<close> is turned into a skip.
\<close>

definition index_s3_object :: "env \<Rightarrow> string \<Rightarrow> string \<Rightarrow> world \<Rightarrow> (error + unit) \<times> world" where
  "index_s3_object ev bucket key w0 =
     (let w = log INFO (''Indexing S3 object: '' @ bucket @ ''/'' @ key) w0 in
      case get_object ev bucket key w of
        Inl e \<Rightarrow> (Inl e, w)
      | Inr body \<Rightarrow>
          (case decode body of
             Inl e \<Rightarrow> (Inl e, w)
           | Inr content \<Rightarrow>
               (case loads ev content of
                  None \<Rightarrow> (Inr (), log WARNING (''Object is not JSON, skipping indexing: '' @ bucket @ ''/'' @ key) w)
                | Some data \<Rightarrow>
                    let file_name = basename key;
                        data_id = fst (splitext file_name)
                    in (case get_item data_id w of
                          Inl e \<Rightarrow> (Inl e, w)
                        | Inr metadata_response \<Rightarrow>
                            let (metadata, w1) =
                                  (case metadata_response of
                                     None \<Rightarrow>
                                       ((item_of_id data_id)\<lparr>s3Location := Some (''s3://'' @ bucket @ ''/'' @ key)\<rparr>,
                                        log WARNING (''No metadata found for ID: '' @ data_id) w)
                                   | Some item \<Rightarrow> (item, w));
                                index_data = DataDoc metadata data (now ev);
                                data_type = data_type_of metadata;
                                index_name = ''data-'' @ data_type
                            in thenE (index_in_elasticsearch ev index_name data_id index_data)
                                 (\<lambda>_. thenE (update_item data_id)
                                   (\<lambda>_ w'. (Inr (), log INFO (''Successfully indexed S3 object: '' @ bucket @ ''/'' @ key) w')))
                                 w1))))"

definition index_metadata :: "env \<Rightarrow> metadata \<Rightarrow> world \<Rightarrow> (error + unit) \<times> world" where
  "index_metadata ev metadata w0 =
     (let w = log INFO (''Indexing metadata for ID: '' @ md_id metadata) w0;
          data_type = data_type_of metadata;
          index_name = ''metadata-'' @ data_type
      in thenE (index_in_elasticsearch ev index_name (md_id metadata) (MetaDoc metadata))
           (\<lambda>_ w'. (Inr (), log INFO (''Successfully indexed metadata for ID: '' @ md_id metadata) w'))
           w)"

definition index_by_id :: "env \<Rightarrow> string \<Rightarrow> world \<Rightarrow> (error + response) \<times> world" where
  "index_by_id ev data_id w0 =
     (let w = log INFO (''Indexing data for ID: '' @ data_id) w0 in
      case get_item data_id w of
        Inl e \<Rightarrow> (Inl e, w)
      | Inr None \<Rightarrow> (Inr (reply 404 False (''No item found with ID: '' @ data_id)), w)
      | Inr (Some metadata) \<Rightarrow>
          thenE (lift (\<lambda>_. parse_s3_location metadata))
            (\<lambda>(bucket, key). thenE (lift (get_object ev bucket key))
              (\<lambda>body. thenE (lift (\<lambda>_. decode body))
                (\<lambda>content. thenE (lift (\<lambda>_. json_loads ev content))
                  (\<lambda>data.
                     let index_data = DataDoc metadata data (now ev);
                         data_type = data_type_of metadata;
                         index_name = ''data-'' @ data_type
                     in thenE (index_in_elasticsearch ev index_name data_id index_data)
                          (\<lambda>_. thenE (update_item data_id)
                            (\<lambda>_ w'. (Inr (reply 200 True (''Successfully indexed data for ID: '' @ data_id)), w')))))))
            w)"


text \<open>
  The body of the \<open>try\<close> block of both batch loops (the two loops spell out the same
  statements): parse the location, fetch, decode and parse the blob, write the document
  under \<open>data-\<close> followed by the batch's data type, and call \<open>update_item\<close>; the count of
  the loop is raised after that call.
\<close>

definition index_item :: "env \<Rightarrow> string \<Rightarrow> metadata \<Rightarrow> world \<Rightarrow> (error + unit) \<times> world" where
  "index_item ev data_type metadata w =
     thenE (lift (\<lambda>_. parse_s3_location metadata))
       (\<lambda>(bucket, key). thenE (lift (get_object ev bucket key))
         (\<lambda>body. thenE (lift (\<lambda>_. decode body))
           (\<lambda>content. thenE (lift (\<lambda>_. json_loads ev content))
             (\<lambda>data.
                let index_data = DataDoc metadata data (now ev);
                    index_name = ''data-'' @ data_type
                in thenE (index_in_elasticsearch ev index_name (md_id metadata) index_data)
                     (\<lambda>_. update_item (md_id metadata))))))
       w"

text \<open>
  \<open>for metadata in items: try: ... indexed_count += 1 except Exception as e: logger.error(...)\<close>
\<close>

fun index_items :: "env \<Rightarrow> string \<Rightarrow> metadata list \<Rightarrow> nat \<Rightarrow> world \<Rightarrow> nat \<times> world" where
  "index_items ev data_type [] indexed_count w = (indexed_count, w)"
| "index_items ev data_type (metadata # items) indexed_count w =
     (case index_item ev data_type metadata w of
        (Inr _, w') \<Rightarrow> index_items ev data_type items (indexed_count + 1) w'
      | (Inl e, w') \<Rightarrow>
          index_items ev data_type items indexed_count
            (log_exc ERROR (''Error indexing item '' @ md_id metadata) e w'))"

definition bulk_index_by_type :: "env \<Rightarrow> string \<Rightarrow> world \<Rightarrow> (error + response) \<times> world" where
  "bulk_index_by_type ev data_type w0 =
     (let w = log INFO (''Bulk indexing data of type: '' @ data_type) w0;
          items = scan ev (\<lambda>m. dataType m = Some data_type) None w;
          (indexed_count, w') = index_items ev data_type items 0 w
      in (Inr ((reply 200 True ''Bulk indexing completed'')
                 \<lparr>totalItems := Some (length items), indexedItems := Some indexed_count\<rparr>), w'))"

text \<open>
  \<open>reindex_all\<close> groups the scanned items by data type, in the order the types first
  appear, and runs the same loop body over every group.
\<close>

fun add_to_group :: "string \<Rightarrow> metadata \<Rightarrow> (string \<times> metadata list) list \<Rightarrow> (string \<times> metadata list) list" where
  "add_to_group data_type metadata [] = [(data_type, [metadata])]"
| "add_to_group data_type metadata ((k, ms) # gs) =
     (if k = data_type then (k, ms @ [metadata]) # gs
      else (k, ms) # add_to_group data_type metadata gs)"

definition group_by_type :: "metadata list \<Rightarrow> (string \<times> metadata list) list" where
  "group_by_type items = foldl (\<lambda>data_types m. add_to_group (data_type_of m) m data_types) [] items"

fun reindex_groups :: "env \<Rightarrow> (string \<times> metadata list) list \<Rightarrow> nat \<Rightarrow> world \<Rightarrow> nat \<times> world" where
  "reindex_groups ev [] indexed_count w = (indexed_count, w)"
| "reindex_groups ev ((data_type, type_items) # gs) indexed_count w =
     (let w1 = log INFO (''Reindexing '' @ str_nat (length type_items) @ '' items of type: '' @ data_type) w;
          (n, w2) = index_items ev data_type type_items indexed_count w1
      in reindex_groups ev gs n w2)"

definition reindex_all :: "env \<Rightarrow> world \<Rightarrow> (error + response) \<times> world" where
  "reindex_all ev w0 =
     (let w = log INFO ''Starting full reindexing of all data'' w0;
          items = scan ev (\<lambda>_. True) None w;
          data_types = group_by_type items;
          (indexed_count, w') = reindex_groups ev data_types 0 w
      in (Inr ((reply 200 True ''Full reindexing completed'')
                 \<lparr>totalItems := Some (length items), indexedItems := Some indexed_count,
                  dataTypes := Some (map fst data_types)\<rparr>), w'))"

text \<open>
  The event of the indexer's handler.  A record of \<open>Records\<close> is a blob-store event
  (bucket, key), a table-stream event (its new image, already converted to an item, when
  it has one), or neither.  A direct API call carries a body, which after \<open>json.loads\<close>
  is an object with a string \<open>id\<close>, or else an object with a string \<open>dataType\<close>, or a
  body that makes the \<open>try\<close> block raise before any indexing: it does not parse
  (\<open>JSONDecodeError\<close>), no member can be looked up in it (\<open>TypeError\<close>), or it holds
  neither member (\<open>ValueError\<close>).  A direct invocation carries \<open>id\<close>, \<open>dataType\<close> or
  \<open>reindexAll\<close>.
\<close>

datatype event_record =
    S3Event string string
  | DynamoDBEvent "metadata option"
  | OtherEvent

datatype api_body =
    WithId string
  | WithType string
  | Unusable error

record index_event =
  Records :: "event_record list option"
  ev_body :: "api_body option"
  ev_id :: "string option"
  ev_dataType :: "string option"
  reindexAll :: "bool option"

fun index_records :: "env \<Rightarrow> event_record list \<Rightarrow> world \<Rightarrow> (error + unit) \<times> world" where
  "index_records ev [] w = (Inr (), w)"
| "index_records ev (S3Event bucket key # rs) w =
     thenE (index_s3_object ev bucket key) (\<lambda>_. index_records ev rs) w"
| "index_records ev (DynamoDBEvent (Some item) # rs) w =
     thenE (index_metadata ev item) (\<lambda>_. index_records ev rs) w"
| "index_records ev (_ # rs) w = index_records ev rs w"

text \<open>The \<open>try\<close> block of the direct API call.\<close>

definition index_api_call :: "env \<Rightarrow> api_body \<Rightarrow> world \<Rightarrow> (error + response) \<times> world" where
  "index_api_call ev body w =
     (case body of
        WithId data_id \<Rightarrow> index_by_id ev data_id w
      | WithType data_type \<Rightarrow> bulk_index_by_type ev data_type w
      | Unusable e \<Rightarrow> (Inl e, w))"

definition lambda_handler_index :: "env \<Rightarrow> index_event \<Rightarrow> world \<Rightarrow> response \<times> world" where
  "lambda_handler_index ev event w0 =
     (let w = log INFO ''Received event'' w0;
          result =
            (case Records event of
               Some records \<Rightarrow>
                 thenE (index_records ev records)
                   (\<lambda>_ w'. (Inr (reply 200 True ''Indexing completed successfully''), w')) w
             | None \<Rightarrow>
                 (case ev_body event of
                    Some b \<Rightarrow>
                      (case index_api_call ev b w of
                         (Inr r, w') \<Rightarrow> (Inr r, w')
                       | (Inl e, w') \<Rightarrow>
                           (Inr ((reply 400 False ''Invalid request: '')\<lparr>detail := Some e\<rparr>),
                            log_exc ERROR ''Error processing API request: '' e w'))
                  | None \<Rightarrow>
                      (case ev_id event of
                         Some data_id \<Rightarrow> index_by_id ev data_id w
                       | None \<Rightarrow>
                           (case ev_dataType event of
                              Some data_type \<Rightarrow> bulk_index_by_type ev data_type w
                            | None \<Rightarrow>
                                if reindexAll event = Some True then reindex_all ev w
                                else (Inl (ValueError ''Event must include 'id', 'dataType', or 'reindexAll' ''), w)))))
      in case result of
           (Inr r, w') \<Rightarrow> (r, w')
         | (Inl e, w') \<Rightarrow>
             ((reply 500 False ''Indexing error: '')\<lparr>detail := Some e\<rparr>,
              log_exc ERROR ''Error during indexing: '' e w'))"


section \<open>The record query service (query-data-lambda.py)\<close>

text \<open>The recognised keys of the query parameters.\<close>

record query_params =
  p_type :: "string option"
  p_id :: "string option"
  p_sql :: "string option"
  p_dataType :: "string option"
  p_owner :: "string option"
  p_source :: "string option"
  fromDate :: "string option"
  toDate :: "string option"
  p_tags :: "string list option"

definition no_params :: query_params where
  "no_params =
     \<lparr>p_type = None, p_id = None, p_sql = None, p_dataType = None, p_owner = None,
      p_source = None, fromDate = None, toDate = None, p_tags = None\<rparr>"

record query_result =
  q_success :: bool
  q_message :: "string option"
  q_detail :: "error option"
  q_metadata :: "metadata option"
  q_content :: "json option"
  q_count :: "nat option"
  q_items :: "metadata list option"
  queryExecutionId :: "string option"

definition result :: "bool \<Rightarrow> query_result" where
  "result ok =
     \<lparr>q_success = ok, q_message = None, q_detail = None, q_metadata = None, q_content = None,
      q_count = None, q_items = None, queryExecutionId = None\<rparr>"

text \<open>
  Filter expressions of the table, as \<open>search_metadata\<close> builds them: equality,
  \<open>between\<close> (inclusive, strings in byte order), \<open>contains\<close> (membership in a list,
  substring of a string) and conjunction.
\<close>

datatype condition =
    Eq string string
  | Between string string string
  | Contains string string
  | And condition condition

definition str_attr :: "string \<Rightarrow> metadata \<Rightarrow> string option" where
  "str_attr a m =
     (if a = ''id'' then Some (md_id m)
      else if a = ''timestamp'' then timestamp m
      else if a = ''dataType'' then dataType m
      else if a = ''source'' then source m
      else if a = ''owner'' then owner m
      else if a = ''s3Location'' then s3Location m
      else if a = ''status'' then status m
      else if a = ''description'' then description m
      else if a = ''indexedAt'' then indexedAt m
      else None)"

fun str_le :: "string \<Rightarrow> string \<Rightarrow> bool" where
  "str_le [] ys = True"
| "str_le (x # xs) [] = False"
| "str_le (x # xs) (y # ys) =
     ((of_char x :: nat) < of_char y \<or> (x = y \<and> str_le xs ys))"

fun holds :: "condition \<Rightarrow> metadata \<Rightarrow> bool" where
  "holds (Eq a v) m = (str_attr a m = Some v)"
| "holds (Between a lo hi) m =
     (case str_attr a m of None \<Rightarrow> False | Some x \<Rightarrow> str_le lo x \<and> str_le x hi)"
| "holds (Contains a v) m =
     (if a = ''tags'' then (case tags m of None \<Rightarrow> False | Some ts \<Rightarrow> v \<in> set ts)
      else (case str_attr a m of None \<Rightarrow> False | Some x \<Rightarrow> is_substring v x))"
| "holds (And c d) m = (holds c m \<and> holds d m)"

text \<open>\<open>not data_id\<close>: the parameter is missing or empty.\<close>

definition query_by_id :: "string option \<Rightarrow> world \<Rightarrow> error + query_result" where
  "query_by_id data_id w =
     (case data_id of
        None \<Rightarrow> Inl (ValueError ''ID parameter is required'')
      | Some i \<Rightarrow>
          if i = [] then Inl (ValueError ''ID parameter is required'')
          else (case get_item i w of
                  Inl e \<Rightarrow> Inl e
                | Inr None \<Rightarrow> Inr ((result False)\<lparr>q_message := Some (''No item found with ID: '' @ i)\<rparr>)
                | Inr (Some item) \<Rightarrow> Inr ((result True)\<lparr>q_metadata := Some item\<rparr>)))"

text \<open>\<open>expr if filter_expression is None else filter_expression & expr\<close>\<close>

definition and_also :: "condition option \<Rightarrow> condition \<Rightarrow> condition option" where
  "and_also filter_expression expr =
     (case filter_expression of None \<Rightarrow> Some expr | Some f \<Rightarrow> Some (And f expr))"

definition build_filter :: "query_params \<Rightarrow> condition option" where
  "build_filter params =
     (let f1 = (case p_dataType params of None \<Rightarrow> None | Some v \<Rightarrow> Some (Eq ''dataType'' v));
          f2 = (case p_owner params of None \<Rightarrow> f1 | Some v \<Rightarrow> and_also f1 (Eq ''owner'' v));
          f3 = (case p_source params of None \<Rightarrow> f2 | Some v \<Rightarrow> and_also f2 (Eq ''source'' v));
          f4 = (case (fromDate params, toDate params) of
                  (Some lo, Some hi) \<Rightarrow> and_also f3 (Between ''timestamp'' lo hi)
                | _ \<Rightarrow> f3)
      in (case p_tags params of
            None \<Rightarrow> f4
          | Some ts \<Rightarrow> foldl (\<lambda>f tag. and_also f (Contains ''tags'' tag)) f4 ts))"

definition search_metadata :: "env \<Rightarrow> query_params \<Rightarrow> world \<Rightarrow> query_result" where
  "search_metadata ev params w =
     (let items =
            (case build_filter params of
               Some filter_expression \<Rightarrow> scan ev (holds filter_expression) None w
             | None \<Rightarrow> scan ev (\<lambda>_. True) (Some 20) w)
      in (result True)\<lparr>q_count := Some (length items), q_items := Some items\<rparr>)"

definition get_content :: "env \<Rightarrow> string option \<Rightarrow> world \<Rightarrow> error + query_result" where
  "get_content ev data_id w =
     (case data_id of
        None \<Rightarrow> Inl (ValueError ''ID parameter is required'')
      | Some i \<Rightarrow>
          if i = [] then Inl (ValueError ''ID parameter is required'')
          else (case get_item i w of
                  Inl e \<Rightarrow> Inl e
                | Inr None \<Rightarrow> Inr ((result False)\<lparr>q_message := Some (''No item found with ID: '' @ i)\<rparr>)
                | Inr (Some metadata) \<Rightarrow>
                    (case parse_s3_location metadata of
                       Inl e \<Rightarrow> Inl e
                     | Inr (bucket, key) \<Rightarrow>
                         (case get_object ev bucket key w of
                            Inl e \<Rightarrow> Inl e
                          | Inr body \<Rightarrow>
                              (case decode body of
                                 Inl e \<Rightarrow> Inl e
                               | Inr content \<Rightarrow>
                                   (case json_loads ev content of
                                      Inl e \<Rightarrow> Inl e
                                    | Inr j \<Rightarrow>
                                        Inr ((result True)\<lparr>q_metadata := Some metadata,
                                                           q_content := Some j\<rparr>)))))))"

text \<open>An unset variable is formatted as \<open>None\<close> by an f-string.\<close>

definition str_opt :: "string option \<Rightarrow> string" where
  "str_opt v = (case v of None \<Rightarrow> ''None'' | Some x \<Rightarrow> x)"

definition execute_sql_query :: "env \<Rightarrow> string option \<Rightarrow> error + query_result" where
  "execute_sql_query ev sql_query =
     (case sql_query of
        None \<Rightarrow> Inl (ValueError ''SQL query is required'')
      | Some q \<Rightarrow>
          if q = [] then Inl (ValueError ''SQL query is required'')
          else (case start_query_execution ev q (''s3://'' @ str_opt (S3_BUCKET ev) @ ''/athena-results/'') of
                  None \<Rightarrow> Inl (ClientError ''StartQueryExecution'')
                | Some query_execution_id \<Rightarrow>
                    Inr ((result True)\<lparr>q_message := Some ''Query submitted to Athena'',
                                       queryExecutionId := Some query_execution_id\<rparr>)))"

text \<open>
  The handler's event carries its parameters in a non-empty query string, or in the
  \<open>query\<close> member of its JSON body.  \<open>q_body\<close> is what the handler's parse makes of a
  non-empty body: the parameters of the \<open>query\<close> member when that is an object (its
  members strings, \<open>tags\<close> a list of strings); no parameters when the body does not
  parse, is no object or has no \<open>query\<close> member; and a \<open>query\<close> member that is no object
  has no \<open>get\<close>, so that the first use of the parameters raises.
\<close>

datatype body_query = Query query_params | NoQuery | QueryNotObject

record query_event =
  queryStringParameters :: "query_params option"
  q_body :: "body_query option"

definition query_params_of :: "query_event \<Rightarrow> error + query_params" where
  "query_params_of event =
     (case queryStringParameters event of
        Some ps \<Rightarrow> Inr ps
      | None \<Rightarrow>
          (case q_body event of
             None \<Rightarrow> Inr no_params
           | Some NoQuery \<Rightarrow> Inr no_params
           | Some (Query ps) \<Rightarrow> Inr ps
           | Some QueryNotObject \<Rightarrow> Inl AttributeError))"

record query_response =
  q_statusCode :: nat
  q_result :: query_result

text \<open>
  \<open>json.dumps(result)\<close>: the numbers of an item read from the table are \<open>Decimal\<close>
  values, which the standard encoder refuses with a \<open>TypeError\<close>.  The one numeric
  attribute of an item is \<open>sizeBytes\<close>.
\<close>

definition serialisable :: "query_result \<Rightarrow> bool" where
  "serialisable r =
     ((case q_metadata r of None \<Rightarrow> True | Some m \<Rightarrow> sizeBytes m = None)
      \<and> (case q_items r of None \<Rightarrow> True | Some ms \<Rightarrow> list_all (\<lambda>m. sizeBytes m = None) ms))"

text \<open>
  The handler answers 200 with the serialised result of the query; an exception of the
  blob store, the table or the query engine is answered as an AWS error, any other
  exception as an error of the query.
\<close>

definition is_ClientError :: "error \<Rightarrow> bool" where
  "is_ClientError e = (case e of ClientError _ \<Rightarrow> True | _ \<Rightarrow> False)"

definition lambda_handler_query :: "env \<Rightarrow> query_event \<Rightarrow> world \<Rightarrow> query_response \<times> world" where
  "lambda_handler_query ev event w0 =
     (let w = log INFO ''Received event'' w0;
          r = (case query_params_of event of
                 Inl e \<Rightarrow> Inl e
               | Inr query_params \<Rightarrow>
                   let query_type = (case p_type query_params of None \<Rightarrow> ''metadata'' | Some t \<Rightarrow> t);
                       result =
                         (if query_type = ''id'' then query_by_id (p_id query_params) w
                          else if query_type = ''metadata'' then Inr (search_metadata ev query_params w)
                          else if query_type = ''content'' then get_content ev (p_id query_params) w
                          else if query_type = ''sql'' then execute_sql_query ev (p_sql query_params)
                          else Inl (ValueError (''Unsupported query type: '' @ query_type)))
                   in (case result of
                         Inl e \<Rightarrow> Inl e
                       | Inr res \<Rightarrow> if serialisable res then Inr res else Inl TypeError))
      in case r of
           Inr res \<Rightarrow> (\<lparr>q_statusCode = 200, q_result = res\<rparr>, w)
         | Inl e \<Rightarrow>
             if is_ClientError e
             then (\<lparr>q_statusCode = 500,
                    q_result = (result False)\<lparr>q_message := Some ''AWS error: '', q_detail := Some e\<rparr>\<rparr>,
                   log_exc ERROR ''AWS error: '' e w)
             else (\<lparr>q_statusCode = 500,
                    q_result = (result False)\<lparr>q_message := Some ''Error processing query: '', q_detail := Some e\<rparr>\<rparr>,
                   log_exc ERROR ''Error processing query: '' e w))"


section \<open>The record ingestor (ingest-data-lambda.py)\<close>

text \<open>
  The handler's payload after its parse of the event: the members of the JSON object in
  the event's body (or of the event itself), or a value that is no object.
\<close>

record ingest_body =
  b_dataType :: "string option"
  b_source :: "string option"
  b_owner :: "string option"
  b_data :: "json option"
  b_tags :: "string list option"
  b_description :: "string option"

datatype ingest_event = Fields ingest_body | NotAnObject

record ingest_response =
  i_statusCode :: nat
  i_success :: bool
  dataId :: "string option"
  i_s3Location :: "string option"
  i_message :: string
  i_detail :: "error option"

definition generate_sample_data :: "env \<Rightarrow> string \<Rightarrow> json" where
  "generate_sample_data ev data_type =
     (if data_type = ''sales'' then
        JObj [(''date'', JStr (take 10 (now ev))),
              (''items'', JArr
                 [JObj [(''product'', JStr ''Widget A''), (''quantity'', JNum 5), (''price'', JFloat ''10.99'')],
                  JObj [(''product'', JStr ''Gadget B''), (''quantity'', JNum 2), (''price'', JFloat ''24.95'')],
                  JObj [(''product'', JStr ''Tool C''), (''quantity'', JNum 1), (''price'', JFloat ''34.50'')]]),
              (''total'', JFloat ''126.34''),
              (''customer'', JObj [(''id'', JStr (''CUST-'' @ take 8 (sample_uuid_hex ev))),
                                   (''region'', JStr ''Northeast'')])]
      else if data_type = ''user'' then
        JObj [(''userId'', JStr (''USER-'' @ take 8 (sample_uuid_hex ev))),
              (''name'', JStr ''Sample User''),
              (''email'', JStr ''user@example.com''),
              (''preferences'', JObj [(''theme'', JStr ''dark''), (''notifications'', JBool True)]),
              (''lastLogin'', JStr (now ev))]
      else if data_type = ''metrics'' then
        JObj [(''timestamp'', JStr (now ev)),
              (''cpu'', JFloat ''42.5''), (''memory'', JFloat ''68.3''), (''disk'', JFloat ''56.2''),
              (''network'', JObj [(''in'', JNum 1024), (''out'', JNum 2048)])]
      else
        JObj [(''timestamp'', JStr (now ev)),
              (''sample'', JBool True),
              (''value'', JNum 12345),
              (''message'', JStr (''This is sample data of type: '' @ data_type))])"

definition or_default :: "'a option \<Rightarrow> 'a \<Rightarrow> 'a" where
  "or_default v d = (case v of None \<Rightarrow> d | Some x \<Rightarrow> x)"

text \<open>The key of the blob and the location written into the metadata entry.\<close>

definition s3_key_of :: "string \<Rightarrow> string \<Rightarrow> string \<Rightarrow> string" where
  "s3_key_of data_type ts data_id = data_type @ ''/'' @ take 10 ts @ ''/'' @ data_id @ ''.json''"

definition s3_location_of :: "string option \<Rightarrow> string \<Rightarrow> string" where
  "s3_location_of bucket s3_key = ''s3://'' @ str_opt bucket @ ''/'' @ s3_key"

definition ingest :: "env \<Rightarrow> ingest_event \<Rightarrow> world \<Rightarrow> (error + ingest_response) \<times> world" where
  "ingest ev event w =
     (case event of
        NotAnObject \<Rightarrow> (Inl AttributeError, w)
      | Fields body \<Rightarrow>
          let data_id = uuid4 ev;
              ts = now ev;
              data_type = or_default (b_dataType body) ''unknown'';
              src = or_default (b_source body) ''api'';
              own = or_default (b_owner body) ''system'';
              (data, w1) =
                (case b_data body of
                   None \<Rightarrow> (generate_sample_data ev data_type,
                             log INFO ''No data provided, generating sample data'' w)
                 | Some d \<Rightarrow> (d, w));
              data_content = dumps ev data;
              s3_key = s3_key_of data_type ts data_id
          in thenE (put_object ev (S3_BUCKET ev) s3_key (Text data_content))
               (\<lambda>_.
                  let metadata_item =
                        \<lparr>md_id = data_id, timestamp = Some ts, dataType = Some data_type,
                         source = Some src, owner = Some own,
                         s3Location = Some (s3_location_of (S3_BUCKET ev) s3_key),
                         sizeBytes = Some (length data_content), status = Some ''ingested'',
                         tags = b_tags body, description = b_description body,
                         indexed = None, indexedAt = None\<rparr>
                  in thenE (put_item ev metadata_item)
                       (\<lambda>_ w'.
                          (Inr \<lparr>i_statusCode = 200, i_success = True, dataId = Some data_id,
                                i_s3Location = Some (s3_location_of (S3_BUCKET ev) s3_key),
                                i_message = ''Data successfully ingested'', i_detail = None\<rparr>,
                           log INFO (''Successfully ingested data with ID: '' @ data_id) w')))
               w1)"

definition lambda_handler_ingest :: "env \<Rightarrow> ingest_event \<Rightarrow> world \<Rightarrow> ingest_response \<times> world" where
  "lambda_handler_ingest ev event w0 =
     (case ingest ev event (log INFO ''Received event'' w0) of
        (Inr r, w') \<Rightarrow> (r, w')
      | (Inl e, w') \<Rightarrow>
          if is_ClientError e
          then (\<lparr>i_statusCode = 500, i_success = False, dataId = None, i_s3Location = None,
                 i_message = ''AWS error: '', i_detail = Some e\<rparr>,
                log_exc ERROR ''AWS error: '' e w')
          else (\<lparr>i_statusCode = 500, i_success = False, dataId = None, i_s3Location = None,
                 i_message = ''Error processing data: '', i_detail = Some e\<rparr>,
                log_exc ERROR ''Error processing data: '' e w'))"


section \<open>The file indexer (lambda-function.py)\<close>

definition OPENSEARCH_DOMAIN_NAME :: "env \<Rightarrow> string" where
  "OPENSEARCH_DOMAIN_NAME ev = ''data-lake-search-'' @ str_opt (ENVIRONMENT ev)"

definition get_opensearch_endpoint :: "env \<Rightarrow> world \<Rightarrow> (error + string) \<times> world" where
  "get_opensearch_endpoint ev w =
     (case describe_domain ev (OPENSEARCH_DOMAIN_NAME ev) of
        None \<Rightarrow> (Inl (ClientError ''DescribeDomain''),
                  log_exc ERROR ''Error getting OpenSearch endpoint: '' (ClientError ''DescribeDomain'') w)
      | Some endpoint \<Rightarrow> (Inr (''https://'' @ endpoint), w))"

definition detect_file_type :: "string \<Rightarrow> string" where
  "detect_file_type key =
     (if endswith key ''.csv'' then ''csv''
      else if endswith key ''.json'' then ''json''
      else if endswith key ''.parquet'' then ''parquet''
      else ''unknown'')"

definition is_space :: "char \<Rightarrow> bool" where
  "is_space c = ((of_char c :: nat) \<in> {9, 10, 11, 12, 13, 28, 29, 30, 31, 32})"

definition parse_table :: "string \<Rightarrow> row list option \<Rightarrow> error + row list option" where
  "parse_table fmt parsed =
     (case parsed of
        None \<Rightarrow> Inl (ValueError fmt)
      | Some df \<Rightarrow> Inr (Some df))"

text \<open>
  A CSV or JSON file is decoded as UTF-8 and then parsed; a Parquet file is parsed from
  its bytes.  Whatever the \<open>try\<close> block raises is logged and raised again.
\<close>

definition read_file_content :: "env \<Rightarrow> string \<Rightarrow> string \<Rightarrow> world \<Rightarrow> (error + row list option) \<times> world" where
  "read_file_content ev bucket key w =
     (let file_type = detect_file_type key;
          r = (case get_object ev bucket key w of
                 Inl e \<Rightarrow> Inl e
               | Inr content \<Rightarrow>
                   if file_type = ''csv'' then
                     (case decode content of
                        Inl e \<Rightarrow> Inl e
                      | Inr data \<Rightarrow> parse_table ''csv'' (read_table ev ''csv'' data))
                   else if file_type = ''json'' then
                     (case decode content of
                        Inl e \<Rightarrow> Inl e
                      | Inr data \<Rightarrow>
                          if startswith (dropWhile is_space data) ''[''
                          then parse_table ''json'' (read_table ev ''json'' data)
                          else parse_table ''json_lines'' (read_table ev ''json_lines'' data))
                   else if file_type = ''parquet'' then parse_table ''parquet'' (read_parquet ev content)
                   else Inr None)
      in case r of
           Inl e \<Rightarrow> (Inl e, log_exc ERROR ''Error reading file content: '' e w)
         | Inr None \<Rightarrow> (Inr None, log WARNING (''Unsupported file type for indexing: '' @ file_type) w)
         | Inr (Some df) \<Rightarrow> (Inr (Some df), w))"

text \<open>
  An index exists once it has been created, explicitly or by the first document written
  into it.
\<close>

definition index_exists :: "string \<Rightarrow> world \<Rightarrow> bool" where
  "index_exists index_name w =
     (index_name \<in> set (indices w) \<or> index_name \<in> set (map (\<lambda>p. fst (fst p)) (es w)))"

definition create_index_if_not_exists :: "env \<Rightarrow> string \<Rightarrow> world \<Rightarrow> (error + unit) \<times> world" where
  "create_index_if_not_exists ev index_name w =
     (if \<not> opensearch_up ev
      then (Inl ConnectionError, log_exc ERROR ''Error creating index: '' ConnectionError w)
      else if index_exists index_name w then (Inr (), w)
      else (Inr (),
            log INFO (''Index created: '' @ index_name)
              ((log INFO (''Creating index: '' @ index_name) w)
                 \<lparr>indices := indices w @ [index_name],
                  writes := writes w @ [IndexCreate index_name]\<rparr>)))"

definition set_cell :: "string \<Rightarrow> cell \<Rightarrow> row \<Rightarrow> row" where
  "set_cell k v r =
     (if map_of r k = None then r @ [(k, v)]
      else map (\<lambda>p. if fst p = k then (k, v) else p) r)"

definition cleaned_record :: "row \<Rightarrow> (string \<times> json) list" where
  "cleaned_record r = map (\<lambda>p. (fst p, case snd p of NaN \<Rightarrow> JNull | Val v \<Rightarrow> v)) r"

definition accepted :: "env \<Rightarrow> string \<Rightarrow> string \<Rightarrow> bool" where
  "accepted ev index_name document_id =
     (case es_put_status ev index_name document_id of
        None \<Rightarrow> False
      | Some code \<Rightarrow> 200 \<le> code \<and> code < 300)"

text \<open>
  The bulk request: every document the service accepts is written under its index and id;
  the refused ones are reported in the response, and logged after the request.
\<close>

fun bulk :: "env \<Rightarrow> string \<Rightarrow> (string \<times> (string \<times> json) list) list \<Rightarrow> world \<Rightarrow> world" where
  "bulk ev index_name [] w = w"
| "bulk ev index_name ((i, d) # ds) w =
     bulk ev index_name ds
       (if accepted ev index_name i
        then w\<lparr>es := upsert (index_name, i) (RowDoc d) (es w),
               writes := writes w @ [IndexPut index_name i]\<rparr>
        else w)"

fun log_bulk_errors :: "env \<Rightarrow> string \<Rightarrow> string list \<Rightarrow> world \<Rightarrow> world" where
  "log_bulk_errors ev index_name [] w = w"
| "log_bulk_errors ev index_name (i # is) w =
     log_bulk_errors ev index_name is
       (if accepted ev index_name i then w else log ERROR ''Error indexing document: '' w)"

definition index_data :: "env \<Rightarrow> string \<Rightarrow> row list \<Rightarrow> world \<Rightarrow> (error + nat \<times> row list) \<times> world" where
  "index_data ev index_name df0 w =
     (let df = map (set_cell ''processed_timestamp'' (Val (JStr (now ev)))) df0;
          records = map cleaned_record df;
          ids = map str_nat [0..<length records]
      in if records = [] then (Inr (0, df), w)
         else if \<not> opensearch_up ev
         then (Inl ConnectionError, log_exc ERROR ''Error indexing data: '' ConnectionError w)
         else
           (Inr (length records, df),
            log INFO (''Indexed '' @ str_nat (length records) @ '' documents in '' @ index_name)
              (log_bulk_errors ev index_name ids (bulk ev index_name (zip ids records) w))))"

record process_result =
  r_file :: string
  r_index :: string
  records_indexed :: nat
  processed_file :: string

text \<open>The copy under \<open>processed/\<close>: the directory marker first, then the file by its extension.\<close>

definition save_processed :: "env \<Rightarrow> string \<Rightarrow> string \<Rightarrow> row list \<Rightarrow> world \<Rightarrow> (error + unit) \<times> world" where
  "save_processed ev bucket processed_key df w =
     (let directory = dirname processed_key;
          w1 = (if directory \<noteq> []
                then (case put_object ev (Some bucket) (directory @ ''/'') (Text []) w of
                        (Inr _, w') \<Rightarrow> w'
                      | (Inl e, w') \<Rightarrow> log_exc WARNING ''Error creating directory: '' e w')
                else w)
      in if endswith processed_key ''.csv''
         then put_object ev (Some bucket) processed_key (Text (write_table ev ''csv'' df)) w1
         else if endswith processed_key ''.json''
         then put_object ev (Some bucket) processed_key (Text (write_table ev ''json'' df)) w1
         else if endswith processed_key ''.parquet''
         then put_object ev (Some bucket) processed_key (write_parquet ev df) w1
         else (Inr (), w1))"

definition dataset_name_of :: "env \<Rightarrow> string \<Rightarrow> string" where
  "dataset_name_of ev key =
     (let path_parts = split CHR ''/'' key
      in if 3 \<le> length path_parts \<and> hd path_parts = ''raw''
         then str_lower ev (path_parts ! 1)
         else str_lower ev (fst (splitext (basename key))))"

definition process_file :: "env \<Rightarrow> string \<Rightarrow> string \<Rightarrow> world \<Rightarrow> (error + process_result option) \<times> world" where
  "process_file ev bucket key w =
     (let path_parts = split CHR ''/'' key
      in if length path_parts < 2
         then (Inr None, log WARNING (''Skipping file with insufficient path depth: '' @ key) w)
         else
           let dataset_name = dataset_name_of ev key;
               index_name = replace ''-'' ''_'' (dataset_name @ ''_'' @ str_opt (ENVIRONMENT ev))
           in case
                thenE (get_opensearch_endpoint ev)
                  (\<lambda>endpoint. thenE (create_index_if_not_exists ev index_name)
                    (\<lambda>_. thenE (read_file_content ev bucket key)
                      (\<lambda>df0. case df0 of
                               None \<Rightarrow> (\<lambda>w'. (Inr None, w'))
                             | Some d \<Rightarrow>
                                 thenE (index_data ev index_name d)
                                   (\<lambda>(num_indexed, df).
                                      let processed_key = replace ''raw/'' ''processed/'' key
                                      in thenE (save_processed ev bucket processed_key df)
                                           (\<lambda>_ w'.
                                              (Inr (Some \<lparr>r_file = key, r_index = index_name,
                                                          records_indexed = num_indexed,
                                                          processed_file = processed_key\<rparr>),
                                               log INFO (''Processed file saved to '' @ processed_key) w'))))))
                  w
              of
                (Inl e, w') \<Rightarrow> (Inl e, log_exc ERROR (''Error processing file '' @ key) e w')
              | (Inr r, w') \<Rightarrow> (Inr r, w'))"

record s3_record =
  eventSource :: "string option"
  eventName :: "string option"
  bucket_name :: string
  object_key :: string

fun process_records :: "env \<Rightarrow> s3_record list \<Rightarrow> world \<Rightarrow> (error + unit) \<times> world" where
  "process_records ev [] w = (Inr (), w)"
| "process_records ev (record # records) w =
     (if eventSource record = Some ''aws:s3'' \<and> startswith (or_default (eventName record) []) ''ObjectCreated:''
      then
        let bucket = bucket_name record;
            key = unquote_plus ev (object_key record);
            w1 = log INFO (''Processing file: s3://'' @ bucket @ ''/'' @ key) w
        in if endswith key ''/''
           then process_records ev records (log INFO (''Skipping directory marker: '' @ key) w1)
           else (case process_file ev bucket key w1 of
                   (Inl e, w') \<Rightarrow> (Inl e, w')
                 | (Inr None, w') \<Rightarrow> process_records ev records w'
                 | (Inr (Some r), w') \<Rightarrow> process_records ev records (log INFO ''Processing result'' w'))
      else process_records ev records w)"

record file_response =
  f_statusCode :: nat
  f_body :: string
  f_detail :: "error option"

definition lambda_handler_files :: "env \<Rightarrow> s3_record list \<Rightarrow> world \<Rightarrow> file_response \<times> world" where
  "lambda_handler_files ev records w0 =
     (case process_records ev records (log INFO ''Received event'' w0) of
        (Inr _, w') \<Rightarrow>
          (\<lparr>f_statusCode = 200, f_body = ''Processing completed successfully'', f_detail = None\<rparr>, w')
      | (Inl e, w') \<Rightarrow>
          (\<lparr>f_statusCode = 500, f_body = ''Error: '', f_detail = Some e\<rparr>,
           log_exc ERROR ''Error in lambda_handler: '' e w'))"

section \<open>Auxiliary notions for the statements\<close>

text \<open>The payload that the ingestor stores: the one given, or the generated sample.\<close>

definition ingested_data :: "env \<Rightarrow> ingest_body \<Rightarrow> json" where
  "ingested_data ev body =
     (case b_data body of
        None \<Rightarrow> generate_sample_data ev (or_default (b_dataType body) ''unknown'')
      | Some d \<Rightarrow> d)"

text \<open>
  The metadata that the blob-event path indexes an object with: the item found under the
  id, or else the item that holds the id and the object's location and nothing more.
\<close>

definition metadata_for :: "string \<Rightarrow> string \<Rightarrow> metadata option \<Rightarrow> metadata" where
  "metadata_for bucket key found =
     (case found of
        None \<Rightarrow>
          (item_of_id (fst (splitext (basename key))))\<lparr>s3Location := Some (''s3://'' @ bucket @ ''/'' @ key)\<rparr>
      | Some item \<Rightarrow> item)"

section \<open>A concrete configuration and concrete states\<close>

text \<open>
  Lower-casing of the ASCII letters, with which \<open>str.lower\<close> agrees on ASCII strings, and
  the rule for a plain bucket name (1 to 255 letters, digits, dots, hyphens and
  underscores).
\<close>

definition lower_ascii :: "string \<Rightarrow> string" where
  "lower_ascii s =
     map (\<lambda>c. case map_of (zip ''ABCDEFGHIJKLMNOPQRSTUVWXYZ'' ''abcdefghijklmnopqrstuvwxyz'') c of
                 Some d \<Rightarrow> d
               | None \<Rightarrow> c) s"

definition plain_bucket_name :: "string \<Rightarrow> bool" where
  "plain_bucket_name b =
     (b \<noteq> [] \<and> length b \<le> 255
      \<and> list_all (\<lambda>c. c \<in> set ''abcdefghijklmnopqrstuvwxyzABCDEFGHIJKLMNOPQRSTUVWXYZ0123456789.-_'') b)"

definition env0 :: env where
  "env0 =
     \<lparr>S3_BUCKET = Some ''lake'', DYNAMODB_TABLE = Some ''metadata'',
      ES_ENDPOINT = Some ''search.example'', AWS_REGION = Some ''eu-west-1'',
      ENVIRONMENT = Some ''dev'',
      str_lower = lower_ascii,
      loads = (\<lambda>s. if s = ''{}'' then Some (JObj []) else None),
      dumps = (\<lambda>j. if j = JObj [] then ''{}'' else ''null''),
      now = ''2024-01-02T03:04:05'', uuid4 = ''r1'', sample_uuid_hex = ''0123456789abcdef'',
      s3_params_valid = (\<lambda>b k. plain_bucket_name b \<and> k \<noteq> []),
      s3_put_ok = (\<lambda>_ _. True), ddb_write_ok = (\<lambda>_. True),
      es_put_status = (\<lambda>_ _. Some 200), scan_page = 100,
      start_query_execution = (\<lambda>_ _. Some ''q1''),
      describe_domain = (\<lambda>_. Some ''os.example''), opensearch_up = True,
      unquote_plus = (\<lambda>s. s),
      read_table = (\<lambda>_ _. Some []),
      read_parquet = (\<lambda>_. Some []),
      write_table = (\<lambda>_ _. []),
      write_parquet = (\<lambda>_. Binary ''PAR1'')\<rparr>"

definition world0 :: world where
  "world0 = \<lparr>s3 = [], table = [], es = [], indices = [], writes = [], logs = []\<rparr>"

definition body0 :: ingest_body where
  "body0 =
     \<lparr>b_dataType = Some ''Sales'', b_source = None, b_owner = None, b_data = Some (JObj []),
      b_tags = Some [''a'', ''b''], b_description = None\<rparr>"

text \<open>The entry that ingesting \<open>body0\<close> writes, and states that hold it with and without its blob.\<close>

definition item1 :: metadata where
  "item1 =
     \<lparr>md_id = ''r1'', timestamp = Some ''2024-01-02T03:04:05'', dataType = Some ''Sales'',
      source = Some ''api'', owner = Some ''system'',
      s3Location = Some ''s3://lake/Sales/2024-01-02/r1.json'', sizeBytes = Some 2,
      status = Some ''ingested'', tags = Some [''a'', ''b''], description = None,
      indexed = None, indexedAt = None\<rparr>"

definition world1 :: world where
  "world1 = world0\<lparr>s3 := [((''lake'', ''Sales/2024-01-02/r1.json''), Text ''{}'')], table := [item1]\<rparr>"

definition world2 :: world where
  "world2 = world0\<lparr>table := [item1]\<rparr>"

text \<open>
  The same configuration with an access point's name for the bucket, which the client
  accepts as well.
\<close>

definition env_arn :: env where
  "env_arn =
     env0\<lparr>S3_BUCKET := Some ''arn:aws:s3:us-west-2:123456789012:accesspoint/lake'',
          s3_params_valid :=
            (\<lambda>b k. (b = ''arn:aws:s3:us-west-2:123456789012:accesspoint/lake'' \<or> plain_bucket_name b)
                    \<and> k \<noteq> [])\<rparr>"



text \<open>The error lines of the log.\<close>

definition errors_logged :: "world \<Rightarrow> log_entry list" where
  "errors_logged w = filter (\<lambda>l. case l of Log lv _ _ \<Rightarrow> lv = ERROR) (logs w)"

text \<open>
  A key that the file indexer skips: a directory marker, or a key with fewer than two
  path segments.
\<close>

definition skipped_key :: "string \<Rightarrow> bool" where
  "skipped_key key = (endswith key ''/'' \<or> length (split CHR ''/'' key) < 2)"

text \<open>Blob-store events, for a directory marker and for a file at the top of the bucket.\<close>

definition created :: "string \<Rightarrow> s3_record" where
  "created key =
     \<lparr>eventSource = Some ''aws:s3'', eventName = Some ''ObjectCreated:Put'',
      bucket_name = ''lake'', object_key = key\<rparr>"

definition world3 :: world where
  "world3 = world0\<lparr>s3 := [((''lake'', ''r9.json''), Text ''{}''), ((''lake'', ''raw/sales/''), Text [])]\<rparr>"

text \<open>
  What the specification asks of a record returned for given criteria: equality on
  \<open>dataType\<close>, \<open>owner\<close> and \<open>source\<close> when given, the creation timestamp within the
  inclusive range when both ends are given, and every listed tag among the record's tags.
\<close>

definition satisfies :: "query_params \<Rightarrow> metadata \<Rightarrow> bool" where
  "satisfies params m =
     ((case p_dataType params of None \<Rightarrow> True | Some v \<Rightarrow> dataType m = Some v)
      \<and> (case p_owner params of None \<Rightarrow> True | Some v \<Rightarrow> owner m = Some v)
      \<and> (case p_source params of None \<Rightarrow> True | Some v \<Rightarrow> source m = Some v)
      \<and> (case fromDate params of
            None \<Rightarrow> True
          | Some lo \<Rightarrow>
              (case toDate params of
                 None \<Rightarrow> True
               | Some hi \<Rightarrow>
                   (case timestamp m of None \<Rightarrow> False | Some t \<Rightarrow> str_le lo t \<and> str_le t hi)))
      \<and> (case p_tags params of
            None \<Rightarrow> True
          | Some ts \<Rightarrow>
              list_all (\<lambda>tag. case tags m of None \<Rightarrow> False | Some mt \<Rightarrow> tag \<in> set mt) ts))"

text \<open>A filter expression that may be absent holds of every item when it is absent.\<close>

definition holds_opt :: "condition option \<Rightarrow> metadata \<Rightarrow> bool" where
  "holds_opt f m = (case f of None \<Rightarrow> True | Some c \<Rightarrow> holds c m)"

text \<open>The number of items that a search examines.\<close>

definition examined :: "env \<Rightarrow> query_params \<Rightarrow> nat" where
  "examined ev params =
     (if build_filter params = None then min 20 (scan_page ev) else scan_page ev)"

definition item2 :: metadata where
  "item2 = item1\<lparr>md_id := ''r2'', dataType := Some ''user'', tags := Some [''a'']\<rparr>"

definition world4 :: world where
  "world4 = world0\<lparr>table := [item1, item2]\<rparr>"

definition params0 :: query_params where
  "params0 =
     no_params\<lparr>p_dataType := Some ''Sales'', fromDate := Some ''2024-01-01'',
                toDate := Some ''2024-12-31'', p_tags := Some [''a'', ''b'']\<rparr>"

text \<open>The writes to the search index among a sequence of completed writes.\<close>

definition index_puts :: "effect list \<Rightarrow> (string \<times> string) list" where
  "index_puts effs = concat (map (\<lambda>e. case e of IndexPut n d \<Rightarrow> [(n, d)] | _ \<Rightarrow> []) effs)"

text \<open>A record whose data type holds an upper-case letter and a space.\<close>

definition item5 :: metadata where
  "item5 = item1\<lparr>dataType := Some ''Sales Q1''\<rparr>"

definition world5 :: world where
  "world5 = world1\<lparr>table := [item5]\<rparr>"

definition world6 :: world where
  "world6 = world0\<lparr>s3 := [((''lake'', ''raw/sales-eu/x.csv''), Text ''a,b'')]\<rparr>"

text \<open>The documents that the search index holds under an index name and a document id.\<close>

definition documents :: "string \<Rightarrow> string \<Rightarrow> world \<Rightarrow> document list" where
  "documents index_name document_id w =
     map snd (filter (\<lambda>p. fst p = (index_name, document_id)) (es w))"

text \<open>
  A metadata entry names a blob of the store when its location is \<open>s3://\<close> bucket \<open>/\<close>
  key for a blob that the store holds; an entry without location names none.  In a sound
  state every entry of the table that has a location names a blob of the store.
\<close>

definition names_blob :: "((string \<times> string) \<times> blob) list \<Rightarrow> metadata \<Rightarrow> bool" where
  "names_blob store m =
     (case s3Location m of
        None \<Rightarrow> True
      | Some loc \<Rightarrow> list_ex (\<lambda>p. loc = ''s3://'' @ fst (fst p) @ ''/'' @ snd (fst p)) store)"

definition refs_ok :: "world \<Rightarrow> bool" where
  "refs_ok w = list_all (names_blob (s3 w)) (table w)"

text \<open>A configuration in which the table refuses every write.\<close>

definition env_no_table :: env where
  "env_no_table = env0\<lparr>uuid4 := ''r7'', ddb_write_ok := (\<lambda>_. False)\<rparr>"

text \<open>
  A record whose document the batch loop's body writes: the location parses, the blob is
  there and is JSON text, a search endpoint is configured and the search service accepts
  the document.
\<close>

definition indexable :: "env \<Rightarrow> ((string \<times> string) \<times> blob) list \<Rightarrow> string \<Rightarrow> metadata \<Rightarrow> bool" where
  "indexable ev store data_type m =
     (case parse_s3_location m of
        Inl _ \<Rightarrow> False
      | Inr (b, k) \<Rightarrow>
          s3_params_valid ev b k
          \<and> (case map_of store (b, k) of
                None \<Rightarrow> False
              | Some body \<Rightarrow>
                  (case body of
                     Binary _ \<Rightarrow> False
                   | Text c \<Rightarrow>
                       loads ev c \<noteq> None \<and> \<not> es_unset ev
                       \<and> accepted ev (str_lower ev (''data-'' @ data_type)) (md_id m))))"

text \<open>A record whose blob is unreadable (absent, or not text) or unparseable.\<close>

definition blob_bad :: "env \<Rightarrow> ((string \<times> string) \<times> blob) list \<Rightarrow> metadata \<Rightarrow> bool" where
  "blob_bad ev store m =
     (case parse_s3_location m of
        Inl _ \<Rightarrow> False
      | Inr (b, k) \<Rightarrow>
          (case map_of store (b, k) of
             None \<Rightarrow> True
           | Some body \<Rightarrow> (case body of Binary _ \<Rightarrow> True | Text c \<Rightarrow> loads ev c = None)))"

text \<open>The log holds the batch loop's error line for a record.\<close>

definition failure_logged :: "metadata \<Rightarrow> world \<Rightarrow> bool" where
  "failure_logged m w =
     list_ex (\<lambda>l. case l of Log lv msg e \<Rightarrow>
                lv = ERROR \<and> msg = ''Error indexing item '' @ md_id m \<and> e \<noteq> None) (logs w)"

text \<open>Three records of one type: the second has no blob, the third a blob that is not JSON.\<close>

definition item6 :: metadata where
  "item6 = item1\<lparr>md_id := ''r6'', s3Location := Some ''s3://lake/Sales/2024-01-02/r6.json''\<rparr>"

definition item7 :: metadata where
  "item7 = item1\<lparr>md_id := ''r7'', s3Location := Some ''s3://lake/Sales/2024-01-02/r7.json''\<rparr>"

definition world7 :: world where
  "world7 =
     world0\<lparr>s3 := [((''lake'', ''Sales/2024-01-02/r1.json''), Text ''{}''),
                    ((''lake'', ''Sales/2024-01-02/r7.json''), Text ''<html>'')],
            table := [item1, item6, item7]\<rparr>"

text \<open>Events of the record indexer: a direct invocation by id, a blob event, a stream event.\<close>

definition by_id :: "string \<Rightarrow> index_event" where
  "by_id i = \<lparr>Records = None, ev_body = None, ev_id = Some i, ev_dataType = None, reindexAll = None\<rparr>"

definition blob_event :: "string \<Rightarrow> string \<Rightarrow> index_event" where
  "blob_event bucket key =
     \<lparr>Records = Some [S3Event bucket key], ev_body = None, ev_id = None, ev_dataType = None,
      reindexAll = None\<rparr>"


text \<open>
  The states that the system reaches from the empty state: by an invocation of any of the
  four handlers, under any configuration and behaviour of the outside services, and by a
  blob written into the store (an upload, or an ingest that has written its blob and not
  yet its entry).
\<close>

inductive reachable :: "world \<Rightarrow> bool" where
  start: "reachable world0"
| by_ingest: "reachable w \<Longrightarrow> reachable (snd (lambda_handler_ingest ev event w))"
| by_index: "reachable w \<Longrightarrow> reachable (snd (lambda_handler_index ev ievent w))"
| by_query: "reachable w \<Longrightarrow> reachable (snd (lambda_handler_query ev qevent w))"
| by_files: "reachable w \<Longrightarrow> reachable (snd (lambda_handler_files ev records w))"
| by_upload: "reachable w \<Longrightarrow> reachable (snd (put_object ev bucket key content w))"

section \<open>Basic facts about the helpers\<close>

lemma takeWhile_cut: "c \<notin> set b \<Longrightarrow> takeWhile (\<lambda>x. x \<noteq> c) (b @ c # k) = b"
  by (induction b) auto

lemma dropWhile_cut: "c \<notin> set b \<Longrightarrow> dropWhile (\<lambda>x. x \<noteq> c) (b @ c # k) = c # k"
  by (induction b) auto

lemma split1_cut: "c \<notin> set b \<Longrightarrow> split1 c (b @ c # k) = [b, k]"
  by (simp add: split1_def takeWhile_cut dropWhile_cut)

lemma parse_location_of:
  assumes "CHR ''/'' \<notin> set b" and "s3Location m = Some (s3_location_of (Some b) k)"
  shows "parse_s3_location m = Inr (b, k)"
  using assms split1_cut [of "CHR ''/''" b k]
  by (simp add: parse_s3_location_def s3_location_of_def str_opt_def startswith_def)

lemma upsert_lookup: "map_of (upsert k v kvs) k = Some v"
  by (simp add: upsert_def)

lemma log_fields [simp]:
  "s3 (log l msg w) = s3 w" "table (log l msg w) = table w" "es (log l msg w) = es w"
  "indices (log l msg w) = indices w" "writes (log l msg w) = writes w"
  by (simp_all add: log_def)

lemma log_exc_fields [simp]:
  "s3 (log_exc l msg e w) = s3 w" "table (log_exc l msg e w) = table w"
  "es (log_exc l msg e w) = es w" "indices (log_exc l msg e w) = indices w"
  "writes (log_exc l msg e w) = writes w"
  by (simp_all add: log_exc_def)

lemma get_item_log [simp]:
  "get_item i (log l msg w) = get_item i w" "table_item i (log l msg w) = table_item i w"
  by (simp_all add: get_item_def table_item_def)

lemma get_object_log [simp]: "get_object ev b k (log l msg w) = get_object ev b k w"
  by (simp add: get_object_def)

lemma get_item_found:
  "get_item i w = Inr found \<longleftrightarrow> i \<noteq> [] \<and> table_item i w = found"
  by (auto simp: get_item_def)

lemma table_item_id:
  assumes "table_item i w = Some m"
  shows "md_id m = i"
  using assms by (auto simp: table_item_def find_Some_iff)

lemma get_object_stored:
  "get_object ev b k w = Inr body \<longleftrightarrow> s3_params_valid ev b k \<and> map_of (s3 w) (b, k) = Some body"
  by (auto simp: get_object_def split: option.splits)

section \<open>Ingest and the location it stores\<close>

lemma ingest_ok:
  assumes "ingest ev (Fields body) w = (Inr r, w')"
  shows "\<exists>b item. S3_BUCKET ev = Some b
       \<and> md_id item = uuid4 ev
       \<and> s3Location item = Some (s3_location_of (Some b)
            (s3_key_of (or_default (b_dataType body) ''unknown'') (now ev) (uuid4 ev)))
       \<and> i_s3Location r = s3Location item \<and> dataId r = Some (uuid4 ev)
       \<and> table_item (uuid4 ev) w' = Some item
       \<and> s3_params_valid ev b (s3_key_of (or_default (b_dataType body) ''unknown'') (now ev) (uuid4 ev))
       \<and> map_of (s3 w') (b, s3_key_of (or_default (b_dataType body) ''unknown'') (now ev) (uuid4 ev))
            = Some (Text (dumps ev (ingested_data ev body)))"
  using assms
  by (auto simp: ingest_def thenE_def put_object_def put_item_def Let_def log_def table_item_def
        upsert_lookup ingested_data_def
      split: option.splits if_splits prod.splits)

lemma handler_ingest_ok:
  assumes "lambda_handler_ingest ev event w = (r, w')" and "i_statusCode r = 200"
  shows "ingest ev event (log INFO ''Received event'' w) = (Inr r, w')"
  using assms
  by (auto simp: lambda_handler_ingest_def split: prod.splits sum.splits if_splits)

text \<open>
  C10, as amended.  After a successful ingest into a bucket whose name holds no \<open>/\<close>, the
  location stored in the metadata entry is \<open>s3://\<close> bucket \<open>/\<close> key, the parse that
  \<open>get_content\<close> and \<open>index_by_id\<close> apply to it gives back exactly that bucket and key,
  the blob read there is the payload that ingest wrote, and \<open>get_content\<close> of the
  returned id answers with the parse of that payload.
\<close>

theorem ingest_location_round_trip:
  assumes "lambda_handler_ingest ev (Fields body) w = (r, w')"
      and "i_statusCode r = 200"
      and "S3_BUCKET ev = Some bucket"
      and "CHR ''/'' \<notin> set bucket"
      and "uuid4 ev \<noteq> []"
  shows "\<exists>item key.
           key = s3_key_of (or_default (b_dataType body) ''unknown'') (now ev) (uuid4 ev)
         \<and> dataId r = Some (uuid4 ev)
         \<and> get_item (uuid4 ev) w' = Inr (Some item)
         \<and> s3Location item = Some (''s3://'' @ bucket @ ''/'' @ key)
         \<and> i_s3Location r = s3Location item
         \<and> parse_s3_location item = Inr (bucket, key)
         \<and> get_object ev bucket key w' = Inr (Text (dumps ev (ingested_data ev body)))
         \<and> get_content ev (dataId r) w'
             = (case loads ev (dumps ev (ingested_data ev body)) of
                  None \<Rightarrow> Inl JSONDecodeError
                | Some j \<Rightarrow> Inr ((result True)\<lparr>q_metadata := Some item, q_content := Some j\<rparr>))"
proof -
  let ?key = "s3_key_of (or_default (b_dataType body) ''unknown'') (now ev) (uuid4 ev)"
  from handler_ingest_ok [OF assms(1,2)] ingest_ok
  obtain b item where
    b: "S3_BUCKET ev = Some b" and
    loc: "s3Location item = Some (s3_location_of (Some b) ?key)" and
    r: "i_s3Location r = s3Location item" "dataId r = Some (uuid4 ev)" and
    held: "table_item (uuid4 ev) w' = Some item" and
    valid: "s3_params_valid ev b ?key" and
    blob: "map_of (s3 w') (b, ?key) = Some (Text (dumps ev (ingested_data ev body)))"
    by blast
  from b assms(3) have [simp]: "b = bucket" by simp
  from held assms(5) have item: "get_item (uuid4 ev) w' = Inr (Some item)"
    by (simp add: get_item_def)
  from loc assms(4) have parse: "parse_s3_location item = Inr (bucket, ?key)"
    by (simp add: parse_location_of)
  from blob valid have fetched:
    "get_object ev bucket ?key w' = Inr (Text (dumps ev (ingested_data ev body)))"
    by (simp add: get_object_def)
  have content: "get_content ev (dataId r) w'
      = (case loads ev (dumps ev (ingested_data ev body)) of
           None \<Rightarrow> Inl JSONDecodeError
         | Some j \<Rightarrow> Inr ((result True)\<lparr>q_metadata := Some item, q_content := Some j\<rparr>))"
    using r(2) item parse fetched assms(5)
    by (simp add: get_content_def json_loads_def decode_def split: option.splits)
  from loc have "s3Location item = Some (''s3://'' @ bucket @ ''/'' @ ?key)"
    by (simp add: s3_location_of_def str_opt_def)
  with r item parse fetched content show ?thesis by blast
qed

lemma plain_lake: "plain_bucket_name ''lake''"
  by (simp add: plain_bucket_name_def)

theorem ingest_location_round_trip_witness:
  "i_statusCode (fst (lambda_handler_ingest env0 (Fields body0) world0)) = 200
   \<and> S3_BUCKET env0 = Some ''lake'' \<and> CHR ''/'' \<notin> set ''lake'' \<and> uuid4 env0 \<noteq> []
   \<and> (\<exists>item key.
           key = s3_key_of (or_default (b_dataType body0) ''unknown'') (now env0) (uuid4 env0)
         \<and> dataId (fst (lambda_handler_ingest env0 (Fields body0) world0)) = Some (uuid4 env0)
         \<and> get_item (uuid4 env0) (snd (lambda_handler_ingest env0 (Fields body0) world0))
             = Inr (Some item)
         \<and> s3Location item = Some (''s3://'' @ ''lake'' @ ''/'' @ key)
         \<and> i_s3Location (fst (lambda_handler_ingest env0 (Fields body0) world0)) = s3Location item
         \<and> parse_s3_location item = Inr (''lake'', key)
         \<and> get_object env0 ''lake'' key (snd (lambda_handler_ingest env0 (Fields body0) world0))
             = Inr (Text (dumps env0 (ingested_data env0 body0)))
         \<and> get_content env0 (dataId (fst (lambda_handler_ingest env0 (Fields body0) world0)))
               (snd (lambda_handler_ingest env0 (Fields body0) world0))
             = (case loads env0 (dumps env0 (ingested_data env0 body0)) of
                  None \<Rightarrow> Inl JSONDecodeError
                | Some j \<Rightarrow> Inr ((result True)\<lparr>q_metadata := Some item, q_content := Some j\<rparr>)))"
proof -
  have ok: "i_statusCode (fst (lambda_handler_ingest env0 (Fields body0) world0)) = 200"
    by (simp add: lambda_handler_ingest_def ingest_def env0_def body0_def world0_def thenE_def
          put_object_def put_item_def log_def or_default_def Let_def plain_lake s3_key_of_def)
  have cfg: "S3_BUCKET env0 = Some ''lake''" "CHR ''/'' \<notin> set ''lake''" "uuid4 env0 \<noteq> []"
    by (simp_all add: env0_def)
  note found = ingest_location_round_trip [OF prod.collapse [symmetric] ok cfg]
  show ?thesis by (intro conjI ok cfg found)
qed

text \<open>
  C10 as stated fails when the configured bucket is named by an access point: the name
  holds a \<open>/\<close>, ingest succeeds, and the parse of the stored location cuts the name in two,
  so that \<open>get_content\<close> of the returned id looks in another place and raises.
\<close>

theorem ingest_location_counterexample:
  "i_statusCode (fst (lambda_handler_ingest env_arn (Fields body0) world0)) = 200
   \<and> dataId (fst (lambda_handler_ingest env_arn (Fields body0) world0)) = Some ''r1''
   \<and> map fst (s3 (snd (lambda_handler_ingest env_arn (Fields body0) world0)))
       = [(''arn:aws:s3:us-west-2:123456789012:accesspoint/lake'', ''Sales/2024-01-02/r1.json'')]
   \<and> map parse_s3_location (table (snd (lambda_handler_ingest env_arn (Fields body0) world0)))
       = [Inr (''arn:aws:s3:us-west-2:123456789012:accesspoint'', ''lake/Sales/2024-01-02/r1.json'')]
   \<and> get_content env_arn (Some ''r1'') (snd (lambda_handler_ingest env_arn (Fields body0) world0))
       = Inl (ParamValidationError ''Bucket'')"
  by (simp add: lambda_handler_ingest_def ingest_def env_arn_def env0_def body0_def world0_def
        thenE_def put_object_def put_item_def log_def or_default_def s3_key_of_def
        s3_location_of_def str_opt_def upsert_def get_content_def get_item_def table_item_def
        parse_s3_location_def startswith_def split1_def get_object_def Let_def
        plain_bucket_name_def)

section \<open>Lookups that find nothing\<close>

lemma get_content_no_item:
  assumes "i \<noteq> []" and "get_item i w = Inr None"
  shows "get_content ev (Some i) w
           = Inr ((result False)\<lparr>q_message := Some (''No item found with ID: '' @ i)\<rparr>)"
  using assms by (simp add: get_content_def)

lemma get_content_no_blob:
  assumes "j \<noteq> []" and "get_item j w = Inr (Some m)" and "parse_s3_location m = Inr (b, k)"
      and "map_of (s3 w) (b, k) = None"
  shows "get_content ev (Some j) w
           = Inl (if s3_params_valid ev b k then ClientError ''NoSuchKey''
                  else ParamValidationError ''Bucket'')"
  using assms by (simp add: get_content_def get_object_def)

lemma query_by_id_no_item:
  assumes "i \<noteq> []" and "get_item i w = Inr None"
  shows "query_by_id (Some i) w
           = Inr ((result False)\<lparr>q_message := Some (''No item found with ID: '' @ i)\<rparr>)"
  using assms by (simp add: query_by_id_def)

lemma handler_query_params:
  "query_params_of \<lparr>queryStringParameters = Some ps, q_body = bd\<rparr> = Inr ps"
  by (simp add: query_params_of_def)

lemma serialisable_not_found:
  "serialisable ((result False)\<lparr>q_message := x\<rparr>)"
  by (simp add: serialisable_def result_def)

text \<open>
  C8, as amended.  For a non-empty id that the metadata table does not hold, \<open>query_by_id\<close>
  and \<open>get_content\<close> return the normal result \<open>success: false\<close>, and the handler answers
  200 with it.  When the entry exists and the blob it names is absent, \<open>get_content\<close>
  raises the blob store's error instead (the service's \<open>NoSuchKey\<close>, or the client's
  refusal of the stored bucket name and key), and the handler answers 500 with
  \<open>success: false\<close>.
\<close>

theorem lookup_not_found:
  assumes "i \<noteq> []" and "get_item i w = Inr None"
      and "j \<noteq> []" and "get_item j w2 = Inr (Some m)" and "parse_s3_location m = Inr (b, k)"
      and "map_of (s3 w2) (b, k) = None"
  shows "query_by_id (Some i) w
           = Inr ((result False)\<lparr>q_message := Some (''No item found with ID: '' @ i)\<rparr>)
       \<and> get_content ev (Some i) w
           = Inr ((result False)\<lparr>q_message := Some (''No item found with ID: '' @ i)\<rparr>)
       \<and> fst (lambda_handler_query ev
                \<lparr>queryStringParameters = Some (no_params\<lparr>p_type := Some ''id'', p_id := Some i\<rparr>),
                 q_body = None\<rparr> w)
           = \<lparr>q_statusCode = 200,
              q_result = (result False)\<lparr>q_message := Some (''No item found with ID: '' @ i)\<rparr>\<rparr>
       \<and> fst (lambda_handler_query ev
                \<lparr>queryStringParameters = Some (no_params\<lparr>p_type := Some ''content'', p_id := Some i\<rparr>),
                 q_body = None\<rparr> w)
           = \<lparr>q_statusCode = 200,
              q_result = (result False)\<lparr>q_message := Some (''No item found with ID: '' @ i)\<rparr>\<rparr>
       \<and> get_content ev (Some j) w2
           = Inl (if s3_params_valid ev b k then ClientError ''NoSuchKey''
                  else ParamValidationError ''Bucket'')
       \<and> fst (lambda_handler_query ev
                \<lparr>queryStringParameters = Some (no_params\<lparr>p_type := Some ''content'', p_id := Some j\<rparr>),
                 q_body = None\<rparr> w2)
           = \<lparr>q_statusCode = 500,
              q_result = (result False)
                \<lparr>q_message := Some (if s3_params_valid ev b k then ''AWS error: ''
                                     else ''Error processing query: ''),
                 q_detail := Some (if s3_params_valid ev b k then ClientError ''NoSuchKey''
                                   else ParamValidationError ''Bucket'')\<rparr>\<rparr>"
proof -
  note a = query_by_id_no_item [OF assms(1,2)] get_content_no_item [OF assms(1,2), of ev]
  note b = get_content_no_blob [OF assms(3-6), of ev]
  have a': "query_by_id (Some i) (log INFO ''Received event'' w)
              = Inr ((result False)\<lparr>q_message := Some (''No item found with ID: '' @ i)\<rparr>)"
           "get_content ev (Some i) (log INFO ''Received event'' w)
              = Inr ((result False)\<lparr>q_message := Some (''No item found with ID: '' @ i)\<rparr>)"
    using assms(1,2) by (simp_all add: query_by_id_no_item get_content_no_item)
  have b': "get_content ev (Some j) (log INFO ''Received event'' w2)
              = Inl (if s3_params_valid ev b k then ClientError ''NoSuchKey''
                     else ParamValidationError ''Bucket'')"
    using assms(3-6) by (simp add: get_content_no_blob)
  have h1: "fst (lambda_handler_query ev
                \<lparr>queryStringParameters = Some (no_params\<lparr>p_type := Some ''id'', p_id := Some i\<rparr>),
                 q_body = None\<rparr> w)
           = \<lparr>q_statusCode = 200,
              q_result = (result False)\<lparr>q_message := Some (''No item found with ID: '' @ i)\<rparr>\<rparr>"
    by (simp add: lambda_handler_query_def handler_query_params no_params_def a'
          serialisable_not_found)
  have h2: "fst (lambda_handler_query ev
                \<lparr>queryStringParameters = Some (no_params\<lparr>p_type := Some ''content'', p_id := Some i\<rparr>),
                 q_body = None\<rparr> w)
           = \<lparr>q_statusCode = 200,
              q_result = (result False)\<lparr>q_message := Some (''No item found with ID: '' @ i)\<rparr>\<rparr>"
    by (simp add: lambda_handler_query_def handler_query_params no_params_def a'
          serialisable_not_found)
  have h3: "fst (lambda_handler_query ev
                \<lparr>queryStringParameters = Some (no_params\<lparr>p_type := Some ''content'', p_id := Some j\<rparr>),
                 q_body = None\<rparr> w2)
           = \<lparr>q_statusCode = 500,
              q_result = (result False)
                \<lparr>q_message := Some (if s3_params_valid ev b k then ''AWS error: ''
                                     else ''Error processing query: ''),
                 q_detail := Some (if s3_params_valid ev b k then ClientError ''NoSuchKey''
                                   else ParamValidationError ''Bucket'')\<rparr>\<rparr>"
    by (simp add: lambda_handler_query_def handler_query_params no_params_def b'
          is_ClientError_def)
  show ?thesis
    by (intro conjI a b h1 h2 h3)
qed

theorem lookup_not_found_witness:
  "''zz'' \<noteq> [] \<and> get_item ''zz'' world1 = Inr None
   \<and> ''r1'' \<noteq> [] \<and> get_item ''r1'' world2 = Inr (Some item1)
   \<and> parse_s3_location item1 = Inr (''lake'', ''Sales/2024-01-02/r1.json'')
   \<and> map_of (s3 world2) (''lake'', ''Sales/2024-01-02/r1.json'') = None
   \<and> s3_params_valid env0 ''lake'' ''Sales/2024-01-02/r1.json''
   \<and> query_by_id (Some ''zz'') world1
           = Inr ((result False)\<lparr>q_message := Some (''No item found with ID: '' @ ''zz'')\<rparr>)
   \<and> get_content env0 (Some ''zz'') world1
           = Inr ((result False)\<lparr>q_message := Some (''No item found with ID: '' @ ''zz'')\<rparr>)
   \<and> fst (lambda_handler_query env0
                \<lparr>queryStringParameters = Some (no_params\<lparr>p_type := Some ''id'', p_id := Some ''zz''\<rparr>),
                 q_body = None\<rparr> world1)
           = \<lparr>q_statusCode = 200,
              q_result = (result False)\<lparr>q_message := Some (''No item found with ID: '' @ ''zz'')\<rparr>\<rparr>
   \<and> fst (lambda_handler_query env0
                \<lparr>queryStringParameters = Some (no_params\<lparr>p_type := Some ''content'', p_id := Some ''zz''\<rparr>),
                 q_body = None\<rparr> world1)
           = \<lparr>q_statusCode = 200,
              q_result = (result False)\<lparr>q_message := Some (''No item found with ID: '' @ ''zz'')\<rparr>\<rparr>
   \<and> get_content env0 (Some ''r1'') world2 = Inl (ClientError ''NoSuchKey'')
   \<and> fst (lambda_handler_query env0
                \<lparr>queryStringParameters = Some (no_params\<lparr>p_type := Some ''content'', p_id := Some ''r1''\<rparr>),
                 q_body = None\<rparr> world2)
           = \<lparr>q_statusCode = 500,
              q_result = (result False)\<lparr>q_message := Some ''AWS error: '',
                                        q_detail := Some (ClientError ''NoSuchKey'')\<rparr>\<rparr>"
proof -
  have h: "''zz'' \<noteq> []" "get_item ''zz'' world1 = Inr None"
          "''r1'' \<noteq> []" "get_item ''r1'' world2 = Inr (Some item1)"
          "parse_s3_location item1 = Inr (''lake'', ''Sales/2024-01-02/r1.json'')"
          "map_of (s3 world2) (''lake'', ''Sales/2024-01-02/r1.json'') = None"
    by (simp_all add: get_item_def table_item_def world1_def world2_def world0_def item1_def
          parse_s3_location_def startswith_def split1_def)
  have v: "s3_params_valid env0 ''lake'' ''Sales/2024-01-02/r1.json''"
    by (simp add: env0_def plain_lake)
  note found = lookup_not_found [OF h, of env0]
  note c5 = found [THEN conjunct2, THEN conjunct2, THEN conjunct2, THEN conjunct2, THEN conjunct1]
  note c6 = found [THEN conjunct2, THEN conjunct2, THEN conjunct2, THEN conjunct2, THEN conjunct2]
  have e5: "get_content env0 (Some ''r1'') world2 = Inl (ClientError ''NoSuchKey'')"
    using c5 v by simp
  have e6: "fst (lambda_handler_query env0
                \<lparr>queryStringParameters = Some (no_params\<lparr>p_type := Some ''content'', p_id := Some ''r1''\<rparr>),
                 q_body = None\<rparr> world2)
           = \<lparr>q_statusCode = 500,
              q_result = (result False)\<lparr>q_message := Some ''AWS error: '',
                                        q_detail := Some (ClientError ''NoSuchKey'')\<rparr>\<rparr>"
    using c6 v by simp
  show ?thesis by (intro conjI h v e5 e6 found [THEN conjunct1]
        found [THEN conjunct2, THEN conjunct1]
        found [THEN conjunct2, THEN conjunct2, THEN conjunct1]
        found [THEN conjunct2, THEN conjunct2, THEN conjunct2, THEN conjunct1])
qed

text \<open>
  C8 as stated fails twice: with the entry present and its blob absent, \<open>get_content\<close>
  raises and the handler answers 500; and the empty id, which no entry has, makes
  \<open>query_by_id\<close> raise.
\<close>

theorem lookup_not_found_counterexample:
  "get_item ''r1'' world2 = Inr (Some item1)
   \<and> get_object env0 ''lake'' ''Sales/2024-01-02/r1.json'' world2 = Inl (ClientError ''NoSuchKey'')
   \<and> get_content env0 (Some ''r1'') world2 = Inl (ClientError ''NoSuchKey'')
   \<and> q_statusCode (fst (lambda_handler_query env0
        \<lparr>queryStringParameters = Some (no_params\<lparr>p_type := Some ''content'', p_id := Some ''r1''\<rparr>),
         q_body = None\<rparr> world2)) = 500
   \<and> table_item [] world2 = None
   \<and> query_by_id (Some []) world2 = Inl (ValueError ''ID parameter is required'')"
  by (simp add: get_item_def table_item_def world2_def world0_def item1_def get_content_def
        get_object_def parse_s3_location_def startswith_def split1_def query_by_id_def
        lambda_handler_query_def query_params_of_def no_params_def log_def is_ClientError_def
        Let_def env0_def plain_lake)

section \<open>The steps shared by the index paths\<close>


lemma index_in_elasticsearch_ok:
  assumes "\<not> es_unset ev" and "accepted ev (str_lower ev n) i"
  shows "index_in_elasticsearch ev n i d w
           = (Inr (), log INFO (''Successfully indexed document '' @ i @ '' in '' @ str_lower ev n)
                        (w\<lparr>es := upsert (str_lower ev n, i) d (es w),
                           writes := writes w @ [IndexPut (str_lower ev n) i]\<rparr>))"
  using assms
  by (auto simp: index_in_elasticsearch_def accepted_def Let_def split: option.splits)

lemma update_item_refused:
  "thenE (update_item i) f w = (Inl (ClientError ''ValidationException''), w)"
  by (simp add: thenE_def update_item_def)

lemma index_s3_object_json:
  assumes "get_object ev bucket key w = Inr (Text c)" and "loads ev c = Some data"
      and "get_item (fst (splitext (basename key))) w = Inr found"
  shows "index_s3_object ev bucket key w
      = thenE (index_in_elasticsearch ev (''data-'' @ data_type_of (metadata_for bucket key found))
                 (fst (splitext (basename key)))
                 (DataDoc (metadata_for bucket key found) data (now ev)))
          (\<lambda>_. thenE (update_item (fst (splitext (basename key))))
             (\<lambda>_ w'. (Inr (), log INFO (''Successfully indexed S3 object: '' @ bucket @ ''/'' @ key) w')))
          (case found of
             None \<Rightarrow> log WARNING (''No metadata found for ID: '' @ fst (splitext (basename key)))
                       (log INFO (''Indexing S3 object: '' @ bucket @ ''/'' @ key) w)
           | Some item \<Rightarrow> log INFO (''Indexing S3 object: '' @ bucket @ ''/'' @ key) w)"
proof -
  define u where "u = log INFO (''Indexing S3 object: '' @ bucket @ ''/'' @ key) w"
  define i where "i = fst (splitext (basename key))"
  define mt where "mt = metadata_for bucket key found"
  define u1 where "u1 = (case found of None \<Rightarrow> log WARNING (''No metadata found for ID: '' @ i) u
                                      | Some item \<Rightarrow> u)"
  have u: "get_object ev bucket key u = Inr (Text c)" "get_item i u = Inr found"
    using assms(1,3) by (simp_all add: u_def i_def)
  have pair: "(case found of
                 None \<Rightarrow> ((item_of_id i)\<lparr>s3Location := Some (''s3://'' @ bucket @ ''/'' @ key)\<rparr>,
                           log WARNING (''No metadata found for ID: '' @ i) u)
               | Some item \<Rightarrow> (item, u)) = (mt, u1)"
    by (cases found) (simp_all add: mt_def u1_def metadata_for_def i_def)
  have "index_s3_object ev bucket key w
      = thenE (index_in_elasticsearch ev (''data-'' @ data_type_of mt) i (DataDoc mt data (now ev)))
          (\<lambda>_. thenE (update_item i)
             (\<lambda>_ w'. (Inr (), log INFO (''Successfully indexed S3 object: '' @ bucket @ ''/'' @ key) w')))
          u1"
    unfolding index_s3_object_def Let_def u_def [symmetric] i_def [symmetric]
    by (simp add: u decode_def assms(2) pair)
  then show ?thesis
    unfolding u1_def u_def i_def mt_def .
qed

lemma index_s3_object_run:
  assumes "get_object ev bucket key w = Inr (Text c)" and "loads ev c = Some data"
      and "get_item (fst (splitext (basename key))) w = Inr found"
      and "\<not> es_unset ev"
      and "accepted ev (str_lower ev (''data-'' @ data_type_of (metadata_for bucket key found)))
             (fst (splitext (basename key)))"
  shows "fst (index_s3_object ev bucket key w) = Inl (ClientError ''ValidationException'')"
    and "es (snd (index_s3_object ev bucket key w))
           = upsert (str_lower ev (''data-'' @ data_type_of (metadata_for bucket key found)),
                     fst (splitext (basename key)))
               (DataDoc (metadata_for bucket key found) data (now ev)) (es w)"
    and "writes (snd (index_s3_object ev bucket key w))
           = writes w @ [IndexPut (str_lower ev (''data-'' @ data_type_of (metadata_for bucket key found)))
                           (fst (splitext (basename key)))]"
    and "table (snd (index_s3_object ev bucket key w)) = table w"
    and "s3 (snd (index_s3_object ev bucket key w)) = s3 w"
  unfolding index_s3_object_json [OF assms(1,2,3)] index_in_elasticsearch_ok [OF assms(4,5)]
  by (cases found; simp add: thenE_def update_item_def)+

lemma index_by_id_run:
  assumes "\<not> es_unset ev" and "get_item i w = Inr (Some m)" and "parse_s3_location m = Inr (b, k)"
      and "get_object ev b k w = Inr (Text c)" and "loads ev c = Some j"
      and "accepted ev (str_lower ev (''data-'' @ data_type_of m)) i"
  shows "fst (index_by_id ev i w) = Inl (ClientError ''ValidationException'')"
    and "es (snd (index_by_id ev i w))
           = upsert (str_lower ev (''data-'' @ data_type_of m), i) (DataDoc m j (now ev)) (es w)"
    and "table (snd (index_by_id ev i w)) = table w"
    and "s3 (snd (index_by_id ev i w)) = s3 w"
    and "writes (snd (index_by_id ev i w))
           = writes w @ [IndexPut (str_lower ev (''data-'' @ data_type_of m)) i]"
  using assms
  by (simp_all add: index_by_id_def Let_def thenE_def lift_def decode_def
        json_loads_def index_in_elasticsearch_ok update_item_def)

lemma index_by_id_not_found:
  assumes "get_item i w = Inr None"
  shows "index_by_id ev i w
           = (Inr (reply 404 False (''No item found with ID: '' @ i)),
              log INFO (''Indexing data for ID: '' @ i) w)"
  using assms by (simp add: index_by_id_def)

lemma index_metadata_run:
  assumes "\<not> es_unset ev" and "accepted ev (str_lower ev (''metadata-'' @ data_type_of m)) (md_id m)"
  shows "fst (index_metadata ev m w) = Inr ()"
    and "writes (snd (index_metadata ev m w))
           = writes w @ [IndexPut (str_lower ev (''metadata-'' @ data_type_of m)) (md_id m)]"
  using assms
  by (simp_all add: index_metadata_def Let_def thenE_def index_in_elasticsearch_ok)

section \<open>Indexing a record that has no metadata entry\<close>

text \<open>
  C3, as amended.  For a blob whose file name gives an id without metadata entry, the
  event-driven path \<open>index_s3_object\<close> synthesizes the metadata that holds only the id
  and the blob's location and writes the merged document under \<open>data-unknown\<close> (in lower
  case) and that id, the blob being JSON text, the search endpoint configured and the
  write accepted; the table is left without an entry for the id, and the call ends in the
  exception of \<open>update_item\<close>.  The on-demand path \<open>index_by_id\<close> does not synthesize
  anything: it answers 404 and writes nothing.
\<close>

theorem index_without_metadata:
  assumes "get_item (fst (splitext (basename key))) w = Inr None"
      and "get_object ev bucket key w = Inr (Text content)"
      and "loads ev content = Some data"
      and "\<not> es_unset ev"
      and "accepted ev (str_lower ev ''data-unknown'') (fst (splitext (basename key)))"
  shows "map_of (es (snd (index_s3_object ev bucket key w)))
             (str_lower ev ''data-unknown'', fst (splitext (basename key)))
           = Some (DataDoc ((item_of_id (fst (splitext (basename key))))
                              \<lparr>s3Location := Some (''s3://'' @ bucket @ ''/'' @ key)\<rparr>)
                     data (now ev))
       \<and> writes (snd (index_s3_object ev bucket key w))
           = writes w @ [IndexPut (str_lower ev ''data-unknown'') (fst (splitext (basename key)))]
       \<and> table (snd (index_s3_object ev bucket key w)) = table w
       \<and> fst (index_s3_object ev bucket key w) = Inl (ClientError ''ValidationException'')
       \<and> fst (index_by_id ev (fst (splitext (basename key))) w)
           = Inr (reply 404 False (''No item found with ID: '' @ fst (splitext (basename key))))
       \<and> es (snd (index_by_id ev (fst (splitext (basename key))) w)) = es w
       \<and> table (snd (index_by_id ev (fst (splitext (basename key))) w)) = table w
       \<and> writes (snd (index_by_id ev (fst (splitext (basename key))) w)) = writes w"
proof -
  have mt: "metadata_for bucket key None
      = (item_of_id (fst (splitext (basename key))))\<lparr>s3Location := Some (''s3://'' @ bucket @ ''/'' @ key)\<rparr>"
    by (simp add: metadata_for_def)
  have dt: "''data-'' @ data_type_of (metadata_for bucket key None) = ''data-unknown''"
    by (simp add: mt data_type_of_def item_of_id_def)
  have acc: "accepted ev (str_lower ev (''data-'' @ data_type_of (metadata_for bucket key None)))
             (fst (splitext (basename key)))"
    using assms(5) by (simp only: dt)
  have dt': "''data-'' @ data_type_of ((item_of_id (fst (splitext (basename key))))
                 \<lparr>s3Location := Some (''s3://'' @ bucket @ ''/'' @ key)\<rparr>) = ''data-unknown''"
    by (simp add: data_type_of_def item_of_id_def)
  note run = index_s3_object_run [OF assms(2) assms(3) assms(1) assms(4) acc, unfolded mt, unfolded dt']
  have doc: "map_of (es (snd (index_s3_object ev bucket key w)))
             (str_lower ev ''data-unknown'', fst (splitext (basename key)))
           = Some (DataDoc ((item_of_id (fst (splitext (basename key))))
                              \<lparr>s3Location := Some (''s3://'' @ bucket @ ''/'' @ key)\<rparr>)
                     data (now ev))"
    unfolding run(2) by (rule upsert_lookup)
  show ?thesis
    by (intro conjI doc run(3) run(4) run(1))
      (simp_all add: index_by_id_not_found [OF assms(1)])
qed

lemma lower_ascii_data_unknown: "str_lower env0 ''data-unknown'' = ''data-unknown''"
  by (simp add: env0_def lower_ascii_def)

theorem index_without_metadata_witness:
  "get_item (fst (splitext (basename ''x/r9.json'')))
       (world1\<lparr>s3 := [((''lake'', ''x/r9.json''), Text ''{}'')]\<rparr>) = Inr None
   \<and> get_object env0 ''lake'' ''x/r9.json'' (world1\<lparr>s3 := [((''lake'', ''x/r9.json''), Text ''{}'')]\<rparr>)
       = Inr (Text ''{}'')
   \<and> loads env0 ''{}'' = Some (JObj [])
   \<and> \<not> es_unset env0
   \<and> accepted env0 (str_lower env0 ''data-unknown'') (fst (splitext (basename ''x/r9.json'')))
   \<and> fst (splitext (basename ''x/r9.json'')) = ''r9''
   \<and> str_lower env0 ''data-unknown'' = ''data-unknown''
   \<and> map_of (es (snd (index_s3_object env0 ''lake'' ''x/r9.json'' (world1\<lparr>s3 := [((''lake'', ''x/r9.json''), Text ''{}'')]\<rparr>))))
         (str_lower env0 ''data-unknown'', fst (splitext (basename ''x/r9.json'')))
       = Some (DataDoc ((item_of_id (fst (splitext (basename ''x/r9.json''))))
                          \<lparr>s3Location := Some (''s3://'' @ ''lake'' @ ''/'' @ ''x/r9.json'')\<rparr>)
                 (JObj []) (now env0))
   \<and> writes (snd (index_s3_object env0 ''lake'' ''x/r9.json'' (world1\<lparr>s3 := [((''lake'', ''x/r9.json''), Text ''{}'')]\<rparr>)))
       = writes (world1\<lparr>s3 := [((''lake'', ''x/r9.json''), Text ''{}'')]\<rparr>)
         @ [IndexPut (str_lower env0 ''data-unknown'') (fst (splitext (basename ''x/r9.json'')))]
   \<and> fst (index_by_id env0 (fst (splitext (basename ''x/r9.json''))) (world1\<lparr>s3 := [((''lake'', ''x/r9.json''), Text ''{}'')]\<rparr>))
       = Inr (reply 404 False (''No item found with ID: '' @ fst (splitext (basename ''x/r9.json''))))"
proof -
  let ?w = "world1\<lparr>s3 := [((''lake'', ''x/r9.json''), Text ''{}'')]\<rparr>"
  have id: "fst (splitext (basename ''x/r9.json'')) = ''r9''"
    by (simp add: splitext_def basename_def Let_def)
  have h: "get_item (fst (splitext (basename ''x/r9.json''))) ?w = Inr None"
          "get_object env0 ''lake'' ''x/r9.json'' ?w = Inr (Text ''{}'')"
          "loads env0 ''{}'' = Some (JObj [])"
          "\<not> es_unset env0"
          "accepted env0 (str_lower env0 ''data-unknown'') (fst (splitext (basename ''x/r9.json'')))"
    unfolding id
    by (simp_all add: get_item_def table_item_def get_object_def world1_def world0_def item1_def
          env0_def es_unset_def accepted_def plain_lake)
  note found = index_without_metadata [OF h]
  show ?thesis
    by (intro conjI h id lower_ascii_data_unknown found [THEN conjunct1]
          found [THEN conjunct2, THEN conjunct1]
          found [THEN conjunct2, THEN conjunct2, THEN conjunct2, THEN conjunct2, THEN conjunct1])
qed

text \<open>
  C3 as stated fails for the on-demand path: \<open>index_by_id\<close> of an id without metadata
  entry answers 404, and neither the search index nor the table is written.
\<close>

theorem index_without_metadata_counterexample:
  "get_item ''r9'' world0 = Inr None
   \<and> fst (index_by_id env0 ''r9'' world0) = Inr (reply 404 False ''No item found with ID: r9'')
   \<and> es (snd (index_by_id env0 ''r9'' world0)) = []
   \<and> table (snd (index_by_id env0 ''r9'' world0)) = []
   \<and> writes (snd (index_by_id env0 ''r9'' world0)) = []"
  by (simp add: index_by_id_def get_item_def table_item_def world0_def log_def)

section \<open>Configuration that is not set\<close>







section \<open>Keys that the blob-event handlers skip\<close>

lemma errors_logged_log [simp]:
  "errors_logged (log INFO msg w) = errors_logged w"
  "errors_logged (log WARNING msg w) = errors_logged w"
  by (simp_all add: errors_logged_def log_def)

lemma process_file_shallow:
  assumes "length (split CHR ''/'' key) < 2"
  shows "process_file ev bucket key w
           = (Inr None, log WARNING (''Skipping file with insufficient path depth: '' @ key) w)"
  using assms by (simp add: process_file_def)

lemma process_records_skip:
  assumes "list_all (\<lambda>r. skipped_key (unquote_plus ev (object_key r))) records"
  shows "fst (process_records ev records w) = Inr ()
       \<and> s3 (snd (process_records ev records w)) = s3 w
       \<and> table (snd (process_records ev records w)) = table w
       \<and> es (snd (process_records ev records w)) = es w
       \<and> indices (snd (process_records ev records w)) = indices w
       \<and> writes (snd (process_records ev records w)) = writes w
       \<and> errors_logged (snd (process_records ev records w)) = errors_logged w"
  using assms
proof (induction records arbitrary: w)
  case Nil
  then show ?case by simp
next
  case (Cons r rs)
  then have rest: "list_all (\<lambda>r. skipped_key (unquote_plus ev (object_key r))) rs"
    and key: "skipped_key (unquote_plus ev (object_key r))"
    by simp_all
  note ih = Cons.IH [OF rest]
  show ?case
  proof (cases "eventSource r = Some ''aws:s3''
      \<and> startswith (or_default (eventName r) []) ''ObjectCreated:''")
    case False
    then show ?thesis using ih [of w] by auto
  next
    case True
    show ?thesis
    proof (cases "endswith (unquote_plus ev (object_key r)) ''/''")
      case marker: True
      with True show ?thesis
        by (simp add: Let_def ih)
    next
      case plain: False
      with key have "length (split CHR ''/'' (unquote_plus ev (object_key r))) < 2"
        by (simp add: skipped_key_def)
      with True plain show ?thesis
        by (simp add: Let_def process_file_shallow ih)
    qed
  qed
qed

lemma index_s3_object_not_json:
  assumes "get_object ev bucket key w = Inr (Text content)" and "loads ev content = None"
  shows "index_s3_object ev bucket key w
           = (Inr (), log WARNING (''Object is not JSON, skipping indexing: '' @ bucket @ ''/'' @ key)
                        (log INFO (''Indexing S3 object: '' @ bucket @ ''/'' @ key) w))"
  using assms by (simp add: index_s3_object_def Let_def decode_def)

text \<open>The blob-event path returns without an exception only when it skips the object.\<close>

lemma index_s3_object_returns:
  assumes "fst (index_s3_object ev bucket key w) = Inr ()"
  shows "\<exists>c. get_object ev bucket key w = Inr (Text c) \<and> loads ev c = None"
proof -
  define u where "u = log INFO (''Indexing S3 object: '' @ bucket @ ''/'' @ key) w"
  have g: "get_object ev bucket key u = get_object ev bucket key w"
    by (simp add: u_def)
  show ?thesis
  proof (cases "get_object ev bucket key w")
    case (Inl e)
    with assms g show ?thesis
      unfolding index_s3_object_def Let_def u_def [symmetric] by simp
  next
    case (Inr body)
    show ?thesis
    proof (cases body)
      case (Binary h)
      with Inr assms g show ?thesis
        unfolding index_s3_object_def Let_def u_def [symmetric] by (simp add: decode_def)
    next
      case (Text c)
      show ?thesis
      proof (cases "loads ev c")
        case None
        with Text Inr show ?thesis by simp
      next
        case (Some data)
        show ?thesis
        proof (cases "get_item (fst (splitext (basename key))) w")
          case (Inl e)
          with Some Text Inr assms g show ?thesis
            unfolding index_s3_object_def Let_def u_def [symmetric]
            by (simp add: decode_def u_def)
        next
          case found: (Inr found)
          have "isl (fst (thenE (index_in_elasticsearch ev n i d)
                  (\<lambda>_. thenE (update_item i) f) x))" for n i d f x
            by (cases "index_in_elasticsearch ev n i d x")
              (auto simp: thenE_def update_item_def split: sum.splits)
          then have "isl (fst (index_s3_object ev bucket key w))"
            unfolding index_s3_object_json [OF Inr [unfolded Text] Some found] .
          with assms show ?thesis by simp
        qed
      qed
    qed
  qed
qed

text \<open>
  C6, as amended.  In the file indexer, an event whose keys all end in \<open>/\<close> or have fewer
  than two path segments is answered with status 200 and without error: the search index,
  its indices, the blob store and the table are left as they were, no write is made, and
  no error is logged.  The record indexer's blob-event path makes no check on the key.
  Whatever the key, it skips the object, with a warning and without a write or an error,
  exactly when the object is text that is not JSON; and when the object is JSON text (the
  table's lookup answering, the search endpoint configured and the write accepted) it
  writes the document under the id that the key's base name gives.
\<close>

theorem blob_events_skipped:
  assumes "list_all (\<lambda>r. skipped_key (unquote_plus ev (object_key r))) records"
      and "get_object ev bucket key u = Inr (Text content)" and "loads ev content = None"
      and "get_object ev bucket2 key2 u2 = Inr (Text content2)" and "loads ev content2 = Some data"
      and "get_item (fst (splitext (basename key2))) u2 = Inr found"
      and "\<not> es_unset ev"
      and "accepted ev (str_lower ev (''data-'' @ data_type_of (metadata_for bucket2 key2 found)))
             (fst (splitext (basename key2)))"
  shows "fst (lambda_handler_files ev records w)
           = \<lparr>f_statusCode = 200, f_body = ''Processing completed successfully'', f_detail = None\<rparr>
       \<and> es (snd (lambda_handler_files ev records w)) = es w
       \<and> indices (snd (lambda_handler_files ev records w)) = indices w
       \<and> s3 (snd (lambda_handler_files ev records w)) = s3 w
       \<and> table (snd (lambda_handler_files ev records w)) = table w
       \<and> writes (snd (lambda_handler_files ev records w)) = writes w
       \<and> errors_logged (snd (lambda_handler_files ev records w)) = errors_logged w
       \<and> index_s3_object ev bucket key u
           = (Inr (), log WARNING (''Object is not JSON, skipping indexing: '' @ bucket @ ''/'' @ key)
                        (log INFO (''Indexing S3 object: '' @ bucket @ ''/'' @ key) u))
       \<and> es (snd (index_s3_object ev bucket key u)) = es u
       \<and> writes (snd (index_s3_object ev bucket key u)) = writes u
       \<and> errors_logged (snd (index_s3_object ev bucket key u)) = errors_logged u
       \<and> (index_s3_object ev bucket3 key3 u3
            = (Inr (), log WARNING (''Object is not JSON, skipping indexing: '' @ bucket3 @ ''/'' @ key3)
                         (log INFO (''Indexing S3 object: '' @ bucket3 @ ''/'' @ key3) u3)))
           = (\<exists>c. get_object ev bucket3 key3 u3 = Inr (Text c) \<and> loads ev c = None)
       \<and> writes (snd (index_s3_object ev bucket2 key2 u2))
           = writes u2 @ [IndexPut (str_lower ev (''data-'' @ data_type_of (metadata_for bucket2 key2 found)))
                            (fst (splitext (basename key2)))]
       \<and> map_of (es (snd (index_s3_object ev bucket2 key2 u2)))
             (str_lower ev (''data-'' @ data_type_of (metadata_for bucket2 key2 found)),
              fst (splitext (basename key2)))
           = Some (DataDoc (metadata_for bucket2 key2 found) data (now ev))"
proof -
  note p = process_records_skip [OF assms(1), of "log INFO ''Received event'' w"]
  from p have "\<exists>w'. process_records ev records (log INFO ''Received event'' w) = (Inr (), w')"
    by (metis prod.collapse)
  then obtain w' where run: "process_records ev records (log INFO ''Received event'' w) = (Inr (), w')"
    by blast
  with p have files: "lambda_handler_files ev records w
      = (\<lparr>f_statusCode = 200, f_body = ''Processing completed successfully'', f_detail = None\<rparr>, w')"
    and same: "es w' = es w" "indices w' = indices w" "s3 w' = s3 w" "table w' = table w"
        "writes w' = writes w" "errors_logged w' = errors_logged w"
    by (simp_all add: lambda_handler_files_def)
  note skip = index_s3_object_not_json [OF assms(2,3)]
  have only: "(index_s3_object ev bucket3 key3 u3
            = (Inr (), log WARNING (''Object is not JSON, skipping indexing: '' @ bucket3 @ ''/'' @ key3)
                         (log INFO (''Indexing S3 object: '' @ bucket3 @ ''/'' @ key3) u3)))
           = (\<exists>c. get_object ev bucket3 key3 u3 = Inr (Text c) \<and> loads ev c = None)"
  proof
    assume "index_s3_object ev bucket3 key3 u3
            = (Inr (), log WARNING (''Object is not JSON, skipping indexing: '' @ bucket3 @ ''/'' @ key3)
                         (log INFO (''Indexing S3 object: '' @ bucket3 @ ''/'' @ key3) u3))"
    then have "fst (index_s3_object ev bucket3 key3 u3) = Inr ()" by simp
    then show "\<exists>c. get_object ev bucket3 key3 u3 = Inr (Text c) \<and> loads ev c = None"
      by (rule index_s3_object_returns)
  next
    assume "\<exists>c. get_object ev bucket3 key3 u3 = Inr (Text c) \<and> loads ev c = None"
    then show "index_s3_object ev bucket3 key3 u3
            = (Inr (), log WARNING (''Object is not JSON, skipping indexing: '' @ bucket3 @ ''/'' @ key3)
                         (log INFO (''Indexing S3 object: '' @ bucket3 @ ''/'' @ key3) u3))"
      by (elim exE conjE) (rule index_s3_object_not_json)
  qed
  note run2 = index_s3_object_run [OF assms(4) assms(5) assms(6) assms(7) assms(8)]
  have doc: "map_of (es (snd (index_s3_object ev bucket2 key2 u2)))
             (str_lower ev (''data-'' @ data_type_of (metadata_for bucket2 key2 found)),
              fst (splitext (basename key2)))
           = Some (DataDoc (metadata_for bucket2 key2 found) data (now ev))"
    unfolding run2(2) by (rule upsert_lookup)
  show ?thesis
    by (intro conjI skip only run2(3) doc) (simp_all add: files same skip)
qed

lemma key_r9: "fst (splitext (basename ''r9.json'')) = ''r9''"
  by (simp add: splitext_def basename_def Let_def)

theorem blob_events_skipped_witness:
  "list_all (\<lambda>r. skipped_key (unquote_plus env0 (object_key r))) [created ''raw/sales/'', created ''r9.json'']
   \<and> get_object env0 ''lake'' ''raw/sales/'' world3 = Inr (Text [])
   \<and> loads env0 [] = None
   \<and> get_object env0 ''lake'' ''r9.json'' world3 = Inr (Text ''{}'')
   \<and> loads env0 ''{}'' = Some (JObj [])
   \<and> get_item (fst (splitext (basename ''r9.json''))) world3 = Inr None
   \<and> \<not> es_unset env0
   \<and> accepted env0 (str_lower env0 (''data-'' @ data_type_of (metadata_for ''lake'' ''r9.json'' None)))
        (fst (splitext (basename ''r9.json'')))
   \<and> str_lower env0 (''data-'' @ data_type_of (metadata_for ''lake'' ''r9.json'' None)) = ''data-unknown''
   \<and> fst (splitext (basename ''r9.json'')) = ''r9''
   \<and> fst (lambda_handler_files env0 [created ''raw/sales/'', created ''r9.json''] world3)
       = \<lparr>f_statusCode = 200, f_body = ''Processing completed successfully'', f_detail = None\<rparr>
   \<and> es (snd (lambda_handler_files env0 [created ''raw/sales/'', created ''r9.json''] world3)) = es world3
   \<and> s3 (snd (lambda_handler_files env0 [created ''raw/sales/'', created ''r9.json''] world3)) = s3 world3
   \<and> writes (snd (lambda_handler_files env0 [created ''raw/sales/'', created ''r9.json''] world3)) = writes world3
   \<and> es (snd (index_s3_object env0 ''lake'' ''raw/sales/'' world3)) = es world3
   \<and> writes (snd (index_s3_object env0 ''lake'' ''raw/sales/'' world3)) = writes world3
   \<and> writes (snd (index_s3_object env0 ''lake'' ''r9.json'' world3))
       = writes world3
         @ [IndexPut (str_lower env0 (''data-'' @ data_type_of (metadata_for ''lake'' ''r9.json'' None)))
              (fst (splitext (basename ''r9.json'')))]"
proof -
  have n: "str_lower env0 (''data-'' @ data_type_of (metadata_for ''lake'' ''r9.json'' None)) = ''data-unknown''"
    by (simp add: metadata_for_def data_type_of_def item_of_id_def env0_def lower_ascii_def)
  have h: "list_all (\<lambda>r. skipped_key (unquote_plus env0 (object_key r))) [created ''raw/sales/'', created ''r9.json'']"
          "get_object env0 ''lake'' ''raw/sales/'' world3 = Inr (Text [])"
          "loads env0 [] = None"
          "get_object env0 ''lake'' ''r9.json'' world3 = Inr (Text ''{}'')"
          "loads env0 ''{}'' = Some (JObj [])"
          "get_item (fst (splitext (basename ''r9.json''))) world3 = Inr None"
          "\<not> es_unset env0"
          "accepted env0 (str_lower env0 (''data-'' @ data_type_of (metadata_for ''lake'' ''r9.json'' None)))
             (fst (splitext (basename ''r9.json'')))"
    unfolding n key_r9
    by (simp_all add: skipped_key_def created_def env0_def endswith_def world3_def world0_def
          get_object_def get_item_def table_item_def es_unset_def accepted_def plain_lake)
  note found = blob_events_skipped [OF h, of world3]
  show ?thesis
    by (intro conjI h n key_r9 found [THEN conjunct1] found [THEN conjunct2, THEN conjunct1]
          found [THEN conjunct2, THEN conjunct2, THEN conjunct2, THEN conjunct1]
          found [THEN conjunct2, THEN conjunct2, THEN conjunct2, THEN conjunct2, THEN conjunct2, THEN conjunct1]
          found [THEN conjunct2, THEN conjunct2, THEN conjunct2, THEN conjunct2, THEN conjunct2,
            THEN conjunct2, THEN conjunct2, THEN conjunct2, THEN conjunct1]
          found [THEN conjunct2, THEN conjunct2, THEN conjunct2, THEN conjunct2, THEN conjunct2,
            THEN conjunct2, THEN conjunct2, THEN conjunct2, THEN conjunct2, THEN conjunct1]
          found [THEN conjunct2, THEN conjunct2, THEN conjunct2, THEN conjunct2, THEN conjunct2,
            THEN conjunct2, THEN conjunct2, THEN conjunct2, THEN conjunct2, THEN conjunct2,
            THEN conjunct2, THEN conjunct2, THEN conjunct1])
qed

text \<open>
  C6 as stated fails in the record indexer: the blob event for the key \<open>r9.json\<close>, which
  has a single path segment, is not skipped.  Its document is written to the search
  index, and the handler answers 500 with the exception that \<open>update_item\<close> raises after
  the write.
\<close>

theorem blob_events_skipped_counterexample:
  "length (split CHR ''/'' ''r9.json'') = 1
   \<and> fst (lambda_handler_index env0 (blob_event ''lake'' ''r9.json'') world3)
       = (reply 500 False ''Indexing error: '')\<lparr>detail := Some (ClientError ''ValidationException'')\<rparr>
   \<and> map fst (es (snd (lambda_handler_index env0 (blob_event ''lake'' ''r9.json'') world3)))
       = [(''data-unknown'', ''r9'')]
   \<and> writes (snd (lambda_handler_index env0 (blob_event ''lake'' ''r9.json'') world3))
       = [IndexPut ''data-unknown'' ''r9'']"
  by (simp add: lambda_handler_index_def blob_event_def index_s3_object_def Let_def get_item_def
        table_item_def log_def log_exc_def thenE_def get_object_def decode_def update_item_def
        item_of_id_def index_in_elasticsearch_def es_unset_def env0_def world3_def world0_def
        data_type_of_def basename_def splitext_def upsert_def lower_ascii_def plain_lake)

section \<open>Search by criteria\<close>

lemma holds_opt_and_also:
  "holds_opt (and_also f c) m = (holds_opt f m \<and> holds c m)"
  by (cases f) (simp_all add: holds_opt_def and_also_def)

lemma holds_opt_tags:
  "holds_opt (foldl (\<lambda>f tag. and_also f (Contains ''tags'' tag)) f ts) m
     = (holds_opt f m \<and> list_all (\<lambda>tag. case tags m of None \<Rightarrow> False | Some mt \<Rightarrow> tag \<in> set mt) ts)"
  by (induction ts arbitrary: f) (auto simp: holds_opt_and_also)

lemma holds_attr [simp]:
  "holds (Eq ''dataType'' v) m = (dataType m = Some v)"
  "holds (Eq ''owner'' v) m = (owner m = Some v)"
  "holds (Eq ''source'' v) m = (source m = Some v)"
  "holds (Between ''timestamp'' lo hi) m
     = (case timestamp m of None \<Rightarrow> False | Some t \<Rightarrow> str_le lo t \<and> str_le t hi)"
  by (simp_all add: str_attr_def)

lemma holds_opt_simps [simp]:
  "holds_opt None m = True" "holds_opt (Some c) m = holds c m"
  by (simp_all add: holds_opt_def)

lemma holds_build_filter:
  "holds_opt (build_filter params) m = satisfies params m"
  by (cases "p_dataType params"; cases "p_owner params"; cases "p_source params";
      cases "fromDate params"; cases "toDate params"; cases "p_tags params";
      simp add: build_filter_def satisfies_def holds_opt_tags holds_opt_and_also str_attr_def)

lemma satisfies_unfiltered:
  assumes "build_filter params = None"
  shows "satisfies params m"
  using holds_build_filter [of params m] assms by simp

lemma holds_satisfies:
  assumes "build_filter params = Some c"
  shows "holds c = satisfies params"
proof (rule ext)
  fix m
  show "holds c m = satisfies params m"
    using holds_build_filter [of params m] assms by simp
qed

lemma list_all_filter: "list_all P (filter P xs)"
  by (induction xs) simp_all

lemma search_metadata_items:
  "q_items (search_metadata ev params w)
     = Some (filter (satisfies params) (take (examined ev params) (table w)))"
proof (cases "build_filter params")
  case None
  then have "filter (satisfies params) (take (examined ev params) (table w))
      = take (min 20 (scan_page ev)) (table w)"
    by (simp add: examined_def satisfies_unfiltered)
  with None show ?thesis
    by (simp add: search_metadata_def scan_def result_def Let_def)
next
  case (Some c)
  then show ?thesis
    by (simp add: search_metadata_def scan_def result_def examined_def holds_satisfies Let_def)
qed

text \<open>
  C4.  The records that \<open>search_metadata\<close> returns are exactly the examined items of the
  table that satisfy every criterion provided: equal \<open>dataType\<close>, \<open>owner\<close> and
  \<open>source\<close>, the timestamp within the inclusive range when both \<open>fromDate\<close> and
  \<open>toDate\<close> are given, and every listed tag among the record's tags.  So every returned
  record satisfies all of them, and an absent criterion constrains nothing.
\<close>

theorem search_metadata_sound:
  "q_items (search_metadata ev params w)
     = Some (filter (satisfies params) (take (examined ev params) (table w)))
   \<and> list_all (satisfies params) (the (q_items (search_metadata ev params w)))
   \<and> q_count (search_metadata ev params w)
       = Some (length (the (q_items (search_metadata ev params w))))
   \<and> q_success (search_metadata ev params w)"
proof -
  have "q_count (search_metadata ev params w)
       = Some (length (the (q_items (search_metadata ev params w))))"
    and "q_success (search_metadata ev params w)"
    by (simp_all add: search_metadata_def Let_def result_def)
  then show ?thesis
    by (simp add: search_metadata_items list_all_filter)
qed

theorem search_metadata_sound_witness:
  "q_items (search_metadata env0 params0 world4) = Some [item1]
   \<and> satisfies params0 item1 \<and> \<not> satisfies params0 item2
   \<and> q_items (search_metadata env0 no_params world4) = Some [item1, item2]"
proof -
  have s: "satisfies params0 item1" "\<not> satisfies params0 item2"
    by (simp_all add: satisfies_def params0_def no_params_def item1_def item2_def)
  have b: "build_filter params0 \<noteq> None" "build_filter no_params = None"
    by (simp_all add: build_filter_def params0_def no_params_def and_also_def Let_def)
  have t: "take (examined env0 params0) (table world4) = [item1, item2]"
          "take (examined env0 no_params) (table world4) = [item1, item2]"
    using b by (simp_all add: examined_def env0_def world4_def world0_def)
  have n: "satisfies no_params item1" "satisfies no_params item2"
    by (simp_all add: satisfies_def no_params_def)
  from search_metadata_sound [of env0 params0 world4] search_metadata_sound [of env0 no_params world4]
  show ?thesis using s t n by simp
qed


section \<open>The index name of every entry point\<close>

lemma index_puts_append [simp]: "index_puts (a @ b) = index_puts a @ index_puts b"
  by (simp add: index_puts_def)

text \<open>One pass of the batch loop's body: it ends in an exception, whatever the record.\<close>

lemma index_item_run:
  "isl (fst (index_item ev dt m w))"
  "s3 (snd (index_item ev dt m w)) = s3 w"
  "table (snd (index_item ev dt m w)) = table w"
  "writes (snd (index_item ev dt m w))
     = writes w @ (if indexable ev (s3 w) dt m
                   then [IndexPut (str_lower ev (''data-'' @ dt)) (md_id m)] else [])"
  "\<exists>new. logs (snd (index_item ev dt m w)) = logs w @ new"
  by (auto simp: index_item_def thenE_def lift_def get_object_def decode_def json_loads_def
        index_in_elasticsearch_def update_item_def Let_def indexable_def accepted_def log_def
      split: sum.splits option.splits prod.splits if_splits blob.splits)

lemma failure_logged_later:
  assumes "failure_logged m w" and "logs w' = logs w @ new"
  shows "failure_logged m w'"
  using assms by (auto simp: failure_logged_def list_ex_iff)

lemma failure_logged_now:
  "failure_logged m (log_exc ERROR (''Error indexing item '' @ md_id m) e w)"
  by (simp add: failure_logged_def log_exc_def)

lemma index_items_run:
  "fst (index_items ev dt items n w) = n
   \<and> s3 (snd (index_items ev dt items n w)) = s3 w
   \<and> table (snd (index_items ev dt items n w)) = table w
   \<and> writes (snd (index_items ev dt items n w))
       = writes w @ map (\<lambda>m. IndexPut (str_lower ev (''data-'' @ dt)) (md_id m))
                      (filter (indexable ev (s3 w) dt) items)
   \<and> (\<exists>new. logs (snd (index_items ev dt items n w)) = logs w @ new)
   \<and> list_all (\<lambda>m. failure_logged m (snd (index_items ev dt items n w))) items"
proof (induction items arbitrary: w)
  case Nil
  show ?case by simp
next
  case (Cons m ms)
  obtain r w1 where step: "index_item ev dt m w = (r, w1)"
    by (cases "index_item ev dt m w")
  from index_item_run [of ev dt m w] step
  obtain new1 where one: "isl r" "s3 w1 = s3 w" "table w1 = table w"
      "writes w1 = writes w @ (if indexable ev (s3 w) dt m
                   then [IndexPut (str_lower ev (''data-'' @ dt)) (md_id m)] else [])"
      "logs w1 = logs w @ new1"
    by auto
  from one(1) obtain e where r: "r = Inl e"
    by (cases r) simp_all
  define w2 where "w2 = log_exc ERROR (''Error indexing item '' @ md_id m) e w1"
  have w2: "s3 w2 = s3 w" "table w2 = table w" "writes w2 = writes w1"
      "logs w2 = logs w @ (new1 @ [Log ERROR (''Error indexing item '' @ md_id m) (Some e)])"
    using one by (simp_all add: w2_def log_exc_def)
  have run: "index_items ev dt (m # ms) n w = index_items ev dt ms n w2"
    using step r by (simp add: w2_def)
  from Cons.IH [of w2] obtain new2 where
    ih: "fst (index_items ev dt ms n w2) = n"
        "s3 (snd (index_items ev dt ms n w2)) = s3 w2"
        "table (snd (index_items ev dt ms n w2)) = table w2"
        "writes (snd (index_items ev dt ms n w2))
           = writes w2 @ map (\<lambda>m. IndexPut (str_lower ev (''data-'' @ dt)) (md_id m))
                          (filter (indexable ev (s3 w2) dt) ms)"
        "logs (snd (index_items ev dt ms n w2)) = logs w2 @ new2"
        "list_all (\<lambda>m. failure_logged m (snd (index_items ev dt ms n w2))) ms"
    by auto
  have head: "failure_logged m (snd (index_items ev dt ms n w2))"
    unfolding w2_def using failure_logged_now ih(5) [unfolded w2_def]
    by (rule failure_logged_later)
  have "logs (snd (index_items ev dt ms n w2))
      = logs w @ (new1 @ [Log ERROR (''Error indexing item '' @ md_id m) (Some e)] @ new2)"
    using ih(5) w2(4) by simp
  then have lg: "\<exists>new. logs (snd (index_items ev dt ms n w2)) = logs w @ new"
    by blast
  show ?case
    unfolding run using ih(1,2,3,4,6) head lg w2(1,2,3) one(4) by simp
qed

lemma bulk_index_by_type_run:
  "fst (bulk_index_by_type ev dt w)
     = Inr ((reply 200 True ''Bulk indexing completed'')
              \<lparr>totalItems := Some (length (scan ev (\<lambda>m. dataType m = Some dt) None w)),
               indexedItems := Some 0\<rparr>)"
  "writes (snd (bulk_index_by_type ev dt w))
     = writes w @ map (\<lambda>m. IndexPut (str_lower ev (''data-'' @ dt)) (md_id m))
                    (filter (indexable ev (s3 w) dt) (scan ev (\<lambda>m. dataType m = Some dt) None w))"
  "table (snd (bulk_index_by_type ev dt w)) = table w"
  "s3 (snd (bulk_index_by_type ev dt w)) = s3 w"
  "list_all (\<lambda>m. failure_logged m (snd (bulk_index_by_type ev dt w)))
     (scan ev (\<lambda>m. dataType m = Some dt) None w)"
proof -
  define u where "u = log INFO (''Bulk indexing data of type: '' @ dt) w"
  let ?items = "scan ev (\<lambda>m. dataType m = Some dt) None w"
  have u: "s3 u = s3 w" "table u = table w" "writes u = writes w"
      "scan ev (\<lambda>m. dataType m = Some dt) None u = ?items"
    by (simp_all add: u_def scan_def)
  obtain n w' where run: "index_items ev dt ?items 0 u = (n, w')"
    by (cases "index_items ev dt ?items 0 u")
  from index_items_run [of ev dt ?items 0 u]
  have n: "n = 0" and st: "s3 w' = s3 w" "table w' = table w"
    and wr: "writes w' = writes w @ map (\<lambda>m. IndexPut (str_lower ev (''data-'' @ dt)) (md_id m))
                      (filter (indexable ev (s3 w) dt) ?items)"
    and logged: "list_all (\<lambda>m. failure_logged m w') ?items"
    by (simp_all add: run u)
  have eq: "bulk_index_by_type ev dt w
      = (Inr ((reply 200 True ''Bulk indexing completed'')
                \<lparr>totalItems := Some (length ?items), indexedItems := Some n\<rparr>), w')"
    unfolding bulk_index_by_type_def Let_def u_def [symmetric] u
    by (simp add: run)
  show "fst (bulk_index_by_type ev dt w)
     = Inr ((reply 200 True ''Bulk indexing completed'')
              \<lparr>totalItems := Some (length ?items), indexedItems := Some 0\<rparr>)"
    and "writes (snd (bulk_index_by_type ev dt w))
     = writes w @ map (\<lambda>m. IndexPut (str_lower ev (''data-'' @ dt)) (md_id m))
                    (filter (indexable ev (s3 w) dt) ?items)"
    and "table (snd (bulk_index_by_type ev dt w)) = table w"
    and "s3 (snd (bulk_index_by_type ev dt w)) = s3 w"
    and "list_all (\<lambda>m. failure_logged m (snd (bulk_index_by_type ev dt w))) ?items"
    using n st wr logged by (simp_all add: eq)
qed

lemma process_file_index:
  assumes "process_file ev bucket key w = (Inr (Some r), w')"
  shows "r_index r = replace ''-'' ''_'' (dataset_name_of ev key @ ''_'' @ str_opt (ENVIRONMENT ev))"
  using assms
  by (auto simp: process_file_def Let_def thenE_def
      split: if_splits prod.splits sum.splits option.splits)

text \<open>
  C1, as amended.  For a record of data type \<open>dt\<close>, the entry points of the record
  indexer that index content write the document under one and the same index name, the
  lower-casing of \<open>data-\<close> followed by \<open>dt\<close>, with nothing else changed in it: the blob
  event and index-by-id write exactly one document, under that name and the record's id,
  and the batch by type writes, under that name, one document for each selected record
  whose blob is JSON text and whose document the search service accepts, and nothing
  else.  The metadata-stream entry point writes under the lower-casing of \<open>metadata-\<close>
  followed by \<open>dt\<close>.  The file indexer takes its index name from the object key and the
  environment tag.
\<close>

theorem index_names_agree:
  assumes "\<not> es_unset ev"
      and "accepted ev (str_lower ev (''data-'' @ dt)) i"
      and "accepted ev (str_lower ev (''metadata-'' @ dt)) i"
      and "get_item i w = Inr (Some m)" and "dataType m = Some dt"
      and "parse_s3_location m = Inr (b, k)" and "get_object ev b k w = Inr (Text c)"
      and "loads ev c = Some j"
      and "fst (splitext (basename k)) = i"
      and "process_file ev bucket key u = (Inr (Some r), u')"
  shows "writes (snd (index_by_id ev i w)) = writes w @ [IndexPut (str_lower ev (''data-'' @ dt)) i]
       \<and> writes (snd (index_s3_object ev b k w)) = writes w @ [IndexPut (str_lower ev (''data-'' @ dt)) i]
       \<and> writes (snd (bulk_index_by_type ev dt w))
           = writes w @ map (\<lambda>x. IndexPut (str_lower ev (''data-'' @ dt)) (md_id x))
                          (filter (indexable ev (s3 w) dt) (scan ev (\<lambda>x. dataType x = Some dt) None w))
       \<and> indexable ev (s3 w) dt m
       \<and> writes (snd (index_metadata ev m w)) = writes w @ [IndexPut (str_lower ev (''metadata-'' @ dt)) i]
       \<and> r_index r = replace ''-'' ''_'' (dataset_name_of ev key @ ''_'' @ str_opt (ENVIRONMENT ev))"
proof -
  have dt: "data_type_of m = dt"
    using assms(5) by (simp add: data_type_of_def)
  have id: "md_id m = i"
    using assms(4) by (auto simp: get_item_def intro: table_item_id split: if_splits)
  have a: "writes (snd (index_by_id ev i w)) = writes w @ [IndexPut (str_lower ev (''data-'' @ dt)) i]"
  proof -
    have "accepted ev (str_lower ev (''data-'' @ data_type_of m)) i"
      using assms(2) by (simp only: dt)
    from index_by_id_run(5) [OF assms(1) assms(4) assms(6) assms(7) assms(8) this] show ?thesis
      by (simp only: dt)
  qed
  have mt: "metadata_for b k (Some m) = m"
    by (simp add: metadata_for_def)
  have gi: "get_item (fst (splitext (basename k))) w = Inr (Some m)"
    using assms(4) by (simp only: assms(9))
  have acc: "accepted ev (str_lower ev (''data-'' @ data_type_of (metadata_for b k (Some m))))
               (fst (splitext (basename k)))"
    using assms(2) by (simp only: mt dt assms(9))
  have b: "writes (snd (index_s3_object ev b k w)) = writes w @ [IndexPut (str_lower ev (''data-'' @ dt)) i]"
    using index_s3_object_run(3) [OF assms(7) assms(8) gi assms(1) acc]
    by (simp only: mt dt assms(9))
  have ok: "indexable ev (s3 w) dt m"
    using assms(1,2,6,7,8) id
    by (simp add: indexable_def get_object_stored)
  have d: "writes (snd (index_metadata ev m w)) = writes w @ [IndexPut (str_lower ev (''metadata-'' @ dt)) i]"
  proof -
    have "accepted ev (str_lower ev (''metadata-'' @ data_type_of m)) (md_id m)"
      using assms(3) by (simp only: dt id)
    from index_metadata_run(2) [OF assms(1) this] show ?thesis
      by (simp only: dt id)
  qed
  show ?thesis
    by (intro conjI a b bulk_index_by_type_run(2) ok d process_file_index [OF assms(10)])
qed

lemma item1_facts:
  "get_item ''r1'' world1 = Inr (Some item1)" "dataType item1 = Some ''Sales''"
  "parse_s3_location item1 = Inr (''lake'', ''Sales/2024-01-02/r1.json'')"
  "get_object env0 ''lake'' ''Sales/2024-01-02/r1.json'' world1 = Inr (Text ''{}'')"
  "loads env0 ''{}'' = Some (JObj [])"
  "fst (splitext (basename ''Sales/2024-01-02/r1.json'')) = ''r1''"
  "\<not> es_unset env0"
  by (simp_all add: es_unset_def env0_def get_item_def table_item_def get_object_def world1_def
        world0_def item1_def parse_s3_location_def startswith_def split1_def splitext_def
        basename_def Let_def plain_lake)

lemma sales_names:
  "str_lower env0 (''data-'' @ ''Sales'') = ''data-sales''"
  "str_lower env0 (''metadata-'' @ ''Sales'') = ''metadata-sales''"
  by (simp_all add: env0_def lower_ascii_def)

theorem index_names_agree_witness:
  "\<not> es_unset env0
   \<and> accepted env0 (str_lower env0 (''data-'' @ ''Sales'')) ''r1''
   \<and> accepted env0 (str_lower env0 (''metadata-'' @ ''Sales'')) ''r1''
   \<and> get_item ''r1'' world1 = Inr (Some item1) \<and> dataType item1 = Some ''Sales''
   \<and> parse_s3_location item1 = Inr (''lake'', ''Sales/2024-01-02/r1.json'')
   \<and> get_object env0 ''lake'' ''Sales/2024-01-02/r1.json'' world1 = Inr (Text ''{}'')
   \<and> loads env0 ''{}'' = Some (JObj [])
   \<and> fst (splitext (basename ''Sales/2024-01-02/r1.json'')) = ''r1''
   \<and> fst (process_file env0 ''lake'' ''raw/sales-eu/x.csv'' world6)
       = Inr (Some \<lparr>r_file = ''raw/sales-eu/x.csv'', r_index = ''sales_eu_dev'',
                    records_indexed = 0, processed_file = ''processed/sales-eu/x.csv''\<rparr>)
   \<and> str_lower env0 (''data-'' @ ''Sales'') = ''data-sales''
   \<and> str_lower env0 (''metadata-'' @ ''Sales'') = ''metadata-sales''
   \<and> writes (snd (index_by_id env0 ''r1'' world1))
       = writes world1 @ [IndexPut (str_lower env0 (''data-'' @ ''Sales'')) ''r1'']
   \<and> writes (snd (index_s3_object env0 ''lake'' ''Sales/2024-01-02/r1.json'' world1))
       = writes world1 @ [IndexPut (str_lower env0 (''data-'' @ ''Sales'')) ''r1'']
   \<and> writes (snd (bulk_index_by_type env0 ''Sales'' world1))
       = writes world1 @ [IndexPut (str_lower env0 (''data-'' @ ''Sales'')) ''r1'']
   \<and> writes (snd (index_metadata env0 item1 world1))
       = writes world1 @ [IndexPut (str_lower env0 (''metadata-'' @ ''Sales'')) ''r1'']"
proof -
  have acc: "accepted env0 (str_lower env0 (''data-'' @ ''Sales'')) ''r1''"
      "accepted env0 (str_lower env0 (''metadata-'' @ ''Sales'')) ''r1''"
    by (simp_all add: accepted_def env0_def)
  have p: "fst (process_file env0 ''lake'' ''raw/sales-eu/x.csv'' world6)
       = Inr (Some \<lparr>r_file = ''raw/sales-eu/x.csv'', r_index = ''sales_eu_dev'',
                    records_indexed = 0, processed_file = ''processed/sales-eu/x.csv''\<rparr>)"
    by (simp add: process_file_def Let_def thenE_def get_opensearch_endpoint_def
          create_index_if_not_exists_def index_exists_def read_file_content_def
          detect_file_type_def endswith_def get_object_def decode_def parse_table_def
          index_data_def save_processed_def put_object_def dirname_def basename_def
          rstrip_slash_def dataset_name_of_def lower_ascii_def startswith_def str_opt_def
          log_def env0_def world6_def world0_def OPENSEARCH_DOMAIN_NAME_def plain_lake)
  have run: "process_file env0 ''lake'' ''raw/sales-eu/x.csv'' world6
       = (Inr (Some \<lparr>r_file = ''raw/sales-eu/x.csv'', r_index = ''sales_eu_dev'',
                    records_indexed = 0, processed_file = ''processed/sales-eu/x.csv''\<rparr>),
          snd (process_file env0 ''lake'' ''raw/sales-eu/x.csv'' world6))"
    using p by (metis prod.collapse)
  note found = index_names_agree [OF item1_facts(7) acc item1_facts(1-6) run]
  note c3 = found [THEN conjunct2, THEN conjunct2, THEN conjunct1]
  note c4 = found [THEN conjunct2, THEN conjunct2, THEN conjunct2, THEN conjunct1]
  have s: "scan env0 (\<lambda>x. dataType x = Some ''Sales'') None world1 = [item1]"
    by (simp add: scan_def env0_def world1_def world0_def item1_def)
  have bulk: "writes (snd (bulk_index_by_type env0 ''Sales'' world1))
       = writes world1 @ [IndexPut (str_lower env0 (''data-'' @ ''Sales'')) ''r1'']"
    using c3 c4 unfolding s by (simp add: item1_def)
  show ?thesis
    by (intro conjI item1_facts acc p sales_names bulk found [THEN conjunct1]
          found [THEN conjunct2, THEN conjunct1]
          found [THEN conjunct2, THEN conjunct2, THEN conjunct2, THEN conjunct2, THEN conjunct1])
qed

text \<open>
  C1 as stated fails.  For the data type \<open>Sales Q1\<close>, index-by-id writes under
  \<open>data-sales q1\<close>: the name is lower-cased and nothing else, the space and the hyphen
  stay.  The metadata-stream entry point writes the same record under
  \<open>metadata-sales q1\<close>, so two entry points use two index names for one data type.
\<close>

theorem index_names_counterexample:
  "dataType item5 = Some ''Sales Q1''
   \<and> index_puts (writes (snd (index_by_id env0 ''r1'' world5))) = [(''data-sales q1'', ''r1'')]
   \<and> index_puts (writes (snd (index_metadata env0 item5 world5))) = [(''metadata-sales q1'', ''r1'')]"
  by (simp add: index_by_id_def index_metadata_def Let_def get_item_def table_item_def log_def
        thenE_def lift_def get_object_def decode_def json_loads_def update_item_def
        index_in_elasticsearch_def es_unset_def env0_def world5_def world1_def world0_def
        item5_def item1_def parse_s3_location_def startswith_def split1_def data_type_of_def
        index_puts_def lower_ascii_def plain_lake)

section \<open>Indexing a record twice\<close>

lemma upsert_single: "filter (\<lambda>p. fst p = k) (upsert k v kvs) = [(k, v)]"
  by (induction kvs) (simp_all add: upsert_def)

lemma index_by_id_state:
  assumes "table w' = table w" and "s3 w' = s3 w"
  shows "get_item i w' = get_item i w" and "get_object ev b k w' = get_object ev b k w"
  using assms by (simp_all add: get_item_def table_item_def get_object_def)

lemma by_id_answer:
  "fst (lambda_handler_index ev (by_id i) w)
     = (case fst (index_by_id ev i (log INFO ''Received event'' w)) of
          Inr r \<Rightarrow> r
        | Inl e \<Rightarrow> (reply 500 False ''Indexing error: '')\<lparr>detail := Some e\<rparr>)"
  "table (snd (lambda_handler_index ev (by_id i) w))
     = table (snd (index_by_id ev i (log INFO ''Received event'' w)))"
  by (cases "index_by_id ev i (log INFO ''Received event'' w)";
      simp add: lambda_handler_index_def by_id_def Let_def split: sum.splits)+

text \<open>
  C7, evaluated.  With the search endpoint configured and the write accepted, indexing a
  readable record by id twice writes both times to the same document id in the same index
  (the lower-casing of \<open>data-\<close> and the record's data type): after the first call and
  after the second the index holds exactly one document under that name and id.  But
  neither call sets the record's \<open>indexed\<close> flag: each call ends in the exception that
  \<open>update_item\<close> raises, the handler answers 500, and the table is left as it was.
\<close>

theorem index_twice_one_document:
  assumes "\<not> es_unset ev" and "get_item i w = Inr (Some m)" and "parse_s3_location m = Inr (b, k)"
      and "get_object ev b k w = Inr (Text c)" and "loads ev c = Some j"
      and "accepted ev (str_lower ev (''data-'' @ data_type_of m)) i"
  shows "writes (snd (index_by_id ev i (snd (index_by_id ev i w))))
           = writes w @ [IndexPut (str_lower ev (''data-'' @ data_type_of m)) i,
                         IndexPut (str_lower ev (''data-'' @ data_type_of m)) i]
       \<and> documents (str_lower ev (''data-'' @ data_type_of m)) i (snd (index_by_id ev i w))
           = [DataDoc m j (now ev)]
       \<and> documents (str_lower ev (''data-'' @ data_type_of m)) i
           (snd (index_by_id ev i (snd (index_by_id ev i w)))) = [DataDoc m j (now ev)]
       \<and> fst (index_by_id ev i w) = Inl (ClientError ''ValidationException'')
       \<and> fst (index_by_id ev i (snd (index_by_id ev i w))) = Inl (ClientError ''ValidationException'')
       \<and> table (snd (index_by_id ev i w)) = table w
       \<and> table (snd (index_by_id ev i (snd (index_by_id ev i w)))) = table w
       \<and> get_item i (snd (index_by_id ev i (snd (index_by_id ev i w)))) = Inr (Some m)
       \<and> fst (lambda_handler_index ev (by_id i) w)
           = (reply 500 False ''Indexing error: '')\<lparr>detail := Some (ClientError ''ValidationException'')\<rparr>
       \<and> table (snd (lambda_handler_index ev (by_id i) w)) = table w"
proof -
  let ?w1 = "snd (index_by_id ev i w)"
  let ?n = "str_lower ev (''data-'' @ data_type_of m)"
  note first = index_by_id_run [OF assms]
  have pre: "get_item i ?w1 = Inr (Some m)" "get_object ev b k ?w1 = Inr (Text c)"
    using index_by_id_state [OF first(3,4)] assms(2,4) by simp_all
  note second = index_by_id_run [OF assms(1) pre(1) assms(3) pre(2) assms(5,6)]
  have w2: "writes (snd (index_by_id ev i ?w1)) = writes w @ [IndexPut ?n i, IndexPut ?n i]"
    using second(5) first(5) by simp
  have d1: "documents ?n i ?w1 = [DataDoc m j (now ev)]"
    by (simp add: documents_def first(2) upsert_single)
  have d2: "documents ?n i (snd (index_by_id ev i ?w1)) = [DataDoc m j (now ev)]"
    by (simp add: documents_def second(2) upsert_single)
  have t2: "table (snd (index_by_id ev i ?w1)) = table w"
    using second(3) first(3) by simp
  have g2: "get_item i (snd (index_by_id ev i ?w1)) = Inr (Some m)"
    using index_by_id_state(1) [OF second(3) second(4)] pre(1) by simp
  let ?u = "log INFO ''Received event'' w"
  have u: "get_item i ?u = Inr (Some m)" "get_object ev b k ?u = Inr (Text c)"
    using assms(2,4) by simp_all
  note logged = index_by_id_run [OF assms(1) u(1) assms(3) u(2) assms(5,6)]
  have h1: "fst (lambda_handler_index ev (by_id i) w)
           = (reply 500 False ''Indexing error: '')\<lparr>detail := Some (ClientError ''ValidationException'')\<rparr>"
    by (simp add: by_id_answer(1) logged(1))
  have h2: "table (snd (lambda_handler_index ev (by_id i) w)) = table w"
    by (simp add: by_id_answer(2) logged(3))
  show ?thesis
    by (intro conjI w2 d1 d2 first(1) second(1) first(3) t2 g2 h1 h2)
qed

theorem index_twice_one_document_witness:
  "\<not> es_unset env0 \<and> get_item ''r1'' world1 = Inr (Some item1)
   \<and> parse_s3_location item1 = Inr (''lake'', ''Sales/2024-01-02/r1.json'')
   \<and> get_object env0 ''lake'' ''Sales/2024-01-02/r1.json'' world1 = Inr (Text ''{}'')
   \<and> loads env0 ''{}'' = Some (JObj [])
   \<and> accepted env0 (str_lower env0 (''data-'' @ data_type_of item1)) ''r1''
   \<and> str_lower env0 (''data-'' @ data_type_of item1) = ''data-sales''
   \<and> indexed item1 = None
   \<and> documents (str_lower env0 (''data-'' @ data_type_of item1)) ''r1''
       (snd (index_by_id env0 ''r1'' (snd (index_by_id env0 ''r1'' world1))))
       = [DataDoc item1 (JObj []) (now env0)]
   \<and> fst (index_by_id env0 ''r1'' world1) = Inl (ClientError ''ValidationException'')
   \<and> fst (index_by_id env0 ''r1'' (snd (index_by_id env0 ''r1'' world1)))
       = Inl (ClientError ''ValidationException'')
   \<and> get_item ''r1'' (snd (index_by_id env0 ''r1'' (snd (index_by_id env0 ''r1'' world1))))
       = Inr (Some item1)
   \<and> fst (lambda_handler_index env0 (by_id ''r1'') world1)
       = (reply 500 False ''Indexing error: '')\<lparr>detail := Some (ClientError ''ValidationException'')\<rparr>"
proof -
  have acc: "accepted env0 (str_lower env0 (''data-'' @ data_type_of item1)) ''r1''"
    by (simp add: accepted_def env0_def)
  have n: "str_lower env0 (''data-'' @ data_type_of item1) = ''data-sales''"
    by (simp add: data_type_of_def item1_def env0_def lower_ascii_def)
  have f: "indexed item1 = None"
    by (simp add: item1_def)
  note found = index_twice_one_document [OF item1_facts(7) item1_facts(1) item1_facts(3)
      item1_facts(4) item1_facts(5) acc]
  show ?thesis
    by (intro conjI item1_facts(7) item1_facts(1) item1_facts(3) item1_facts(4) item1_facts(5)
          acc n f
          found [THEN conjunct2, THEN conjunct2, THEN conjunct1]
          found [THEN conjunct2, THEN conjunct2, THEN conjunct2, THEN conjunct1]
          found [THEN conjunct2, THEN conjunct2, THEN conjunct2, THEN conjunct2, THEN conjunct1]
          found [THEN conjunct2, THEN conjunct2, THEN conjunct2, THEN conjunct2, THEN conjunct2,
            THEN conjunct2, THEN conjunct2, THEN conjunct1]
          found [THEN conjunct2, THEN conjunct2, THEN conjunct2, THEN conjunct2, THEN conjunct2,
            THEN conjunct2, THEN conjunct2, THEN conjunct2, THEN conjunct1])
qed

section \<open>Batches tolerate the failure of a record\<close>

text \<open>The groups of \<open>reindex_all\<close> hold the scanned items.\<close>

lemma add_to_group_set:
  "set (concat (map snd (add_to_group dt m gs))) = insert m (set (concat (map snd gs)))"
proof (induction gs)
  case Nil
  show ?case by simp
next
  case (Cons g gs)
  obtain k ms where g: "g = (k, ms)" by (cases g)
  show ?case
  proof (cases "k = dt")
    case True
    with g show ?thesis by auto
  next
    case False
    have "set (concat (map snd (g # add_to_group dt m gs)))
        = set ms \<union> set (concat (map snd (add_to_group dt m gs)))"
      using g by simp
    also have "\<dots> = set ms \<union> insert m (set (concat (map snd gs)))"
      by (simp only: Cons.IH)
    also have "\<dots> = insert m (set (concat (map snd (g # gs))))"
      using g by auto
    finally show ?thesis
      using False g by simp
  qed
qed

lemma foldl_groups_set:
  "set (concat (map snd (foldl (\<lambda>gs m. add_to_group (data_type_of m) m gs) gs items)))
     = set (concat (map snd gs)) \<union> set items"
proof (induction items arbitrary: gs)
  case Nil
  show ?case by simp
next
  case (Cons m ms)
  have "set (concat (map snd (foldl (\<lambda>gs m. add_to_group (data_type_of m) m gs) gs (m # ms))))
      = set (concat (map snd (add_to_group (data_type_of m) m gs))) \<union> set ms"
    using Cons.IH [of "add_to_group (data_type_of m) m gs"] by simp
  also have "\<dots> = insert m (set (concat (map snd gs))) \<union> set ms"
    by (simp only: add_to_group_set)
  finally show ?case by simp
qed

lemma group_by_type_items:
  "set (concat (map snd (group_by_type items))) = set items"
  unfolding group_by_type_def foldl_groups_set by simp

lemma reindex_groups_run:
  "fst (reindex_groups ev gs n w) = n
   \<and> s3 (snd (reindex_groups ev gs n w)) = s3 w
   \<and> table (snd (reindex_groups ev gs n w)) = table w
   \<and> (\<exists>new. logs (snd (reindex_groups ev gs n w)) = logs w @ new)
   \<and> list_all (\<lambda>m. failure_logged m (snd (reindex_groups ev gs n w))) (concat (map snd gs))"
proof (induction gs arbitrary: w)
  case Nil
  show ?case by simp
next
  case (Cons g gs)
  obtain k ms where g: "g = (k, ms)" by (cases g)
  define w1 where "w1 = log INFO (''Reindexing '' @ str_nat (length ms) @ '' items of type: '' @ k) w"
  have w1: "s3 w1 = s3 w" "table w1 = table w"
      "logs w1 = logs w @ [Log INFO (''Reindexing '' @ str_nat (length ms) @ '' items of type: '' @ k) None]"
    by (simp_all add: w1_def log_def)
  obtain c w2 where inner: "index_items ev k ms n w1 = (c, w2)"
    by (cases "index_items ev k ms n w1")
  from index_items_run [of ev k ms n w1] inner obtain new1 where
    c: "c = n" and
    s: "s3 w2 = s3 w" "table w2 = table w" and
    l: "logs w2 = logs w1 @ new1" and
    f: "list_all (\<lambda>m. failure_logged m w2) ms"
    by (auto simp: w1)
  from Cons.IH [of w2] obtain new2 where
    ih: "fst (reindex_groups ev gs n w2) = n"
        "s3 (snd (reindex_groups ev gs n w2)) = s3 w"
        "table (snd (reindex_groups ev gs n w2)) = table w"
        "logs (snd (reindex_groups ev gs n w2)) = logs w2 @ new2"
        "list_all (\<lambda>m. failure_logged m (snd (reindex_groups ev gs n w2))) (concat (map snd gs))"
    by (auto simp: s)
  have run: "reindex_groups ev (g # gs) n w = reindex_groups ev gs n w2"
    unfolding g reindex_groups.simps Let_def w1_def [symmetric] by (simp add: inner c)
  have f': "list_all (\<lambda>m. failure_logged m (snd (reindex_groups ev gs n w2))) ms"
    using f ih(4) by (auto simp: list_all_iff intro: failure_logged_later)
  have "logs (snd (reindex_groups ev gs n w2))
      = logs w @ ([Log INFO (''Reindexing '' @ str_nat (length ms) @ '' items of type: '' @ k) None] @ new1 @ new2)"
    using ih(4) l w1(3) by simp
  then have "\<exists>new. logs (snd (reindex_groups ev gs n w2)) = logs w @ new"
    by blast
  with ih f' show ?case
    unfolding run by (simp add: g)
qed

lemma reindex_all_run:
  "fst (reindex_all ev w)
     = Inr ((reply 200 True ''Full reindexing completed'')
              \<lparr>totalItems := Some (length (scan ev (\<lambda>_. True) None w)),
               indexedItems := Some 0,
               dataTypes := Some (map fst (group_by_type (scan ev (\<lambda>_. True) None w)))\<rparr>)"
  "table (snd (reindex_all ev w)) = table w"
  "s3 (snd (reindex_all ev w)) = s3 w"
  "list_all (\<lambda>m. failure_logged m (snd (reindex_all ev w))) (scan ev (\<lambda>_. True) None w)"
proof -
  define u where "u = log INFO ''Starting full reindexing of all data'' w"
  let ?items = "scan ev (\<lambda>_. True) None w"
  let ?gs = "group_by_type ?items"
  have u: "s3 u = s3 w" "table u = table w" "scan ev (\<lambda>_. True) None u = ?items"
    by (simp_all add: u_def scan_def)
  obtain n w' where run: "reindex_groups ev ?gs 0 u = (n, w')"
    by (cases "reindex_groups ev ?gs 0 u")
  from reindex_groups_run [of ev ?gs 0 u]
  have n: "n = 0" and st: "s3 w' = s3 w" "table w' = table w"
    and logged: "list_all (\<lambda>m. failure_logged m w') (concat (map snd ?gs))"
    by (simp_all add: run u)
  from logged have logged': "list_all (\<lambda>m. failure_logged m w') ?items"
    unfolding list_all_iff group_by_type_items .
  have eq: "reindex_all ev w
      = (Inr ((reply 200 True ''Full reindexing completed'')
                \<lparr>totalItems := Some (length ?items), indexedItems := Some n,
                 dataTypes := Some (map fst ?gs)\<rparr>), w')"
    unfolding reindex_all_def Let_def u_def [symmetric] u
    by (simp add: run)
  show "fst (reindex_all ev w)
     = Inr ((reply 200 True ''Full reindexing completed'')
              \<lparr>totalItems := Some (length ?items), indexedItems := Some 0,
               dataTypes := Some (map fst ?gs)\<rparr>)"
    and "table (snd (reindex_all ev w)) = table w"
    and "s3 (snd (reindex_all ev w)) = s3 w"
    and "list_all (\<lambda>m. failure_logged m (snd (reindex_all ev w))) ?items"
    using n st logged' by (simp_all add: eq)
qed

text \<open>
  C2, evaluated.  A batch never stops at a record that fails: over the \<open>N\<close> selected
  records it answers 200 with \<open>totalItems = N\<close>, and the failure of a record is logged as
  an error that names its id.  But \<open>indexedItems\<close> is 0 whatever the records are.  The
  loop raises its count after the call of \<open>update_item\<close>, which raises for every record,
  so that every record is logged as failed, also the one whose blob is readable and whose
  document has been written.  This holds for the batch by data type and for the
  re-indexing of all records.
\<close>

theorem batch_counts_no_record:
  "fst (bulk_index_by_type ev dt w)
     = Inr ((reply 200 True ''Bulk indexing completed'')
              \<lparr>totalItems := Some (length (scan ev (\<lambda>m. dataType m = Some dt) None w)),
               indexedItems := Some 0\<rparr>)
   \<and> list_all (\<lambda>m. failure_logged m (snd (bulk_index_by_type ev dt w)))
        (scan ev (\<lambda>m. dataType m = Some dt) None w)
   \<and> writes (snd (bulk_index_by_type ev dt w))
       = writes w @ map (\<lambda>m. IndexPut (str_lower ev (''data-'' @ dt)) (md_id m))
                      (filter (indexable ev (s3 w) dt) (scan ev (\<lambda>m. dataType m = Some dt) None w))
   \<and> table (snd (bulk_index_by_type ev dt w)) = table w
   \<and> fst (reindex_all ev w)
       = Inr ((reply 200 True ''Full reindexing completed'')
                \<lparr>totalItems := Some (length (scan ev (\<lambda>_. True) None w)),
                 indexedItems := Some 0,
                 dataTypes := Some (map fst (group_by_type (scan ev (\<lambda>_. True) None w)))\<rparr>)
   \<and> list_all (\<lambda>m. failure_logged m (snd (reindex_all ev w))) (scan ev (\<lambda>_. True) None w)
   \<and> table (snd (reindex_all ev w)) = table w"
  by (intro conjI bulk_index_by_type_run(1) bulk_index_by_type_run(5) bulk_index_by_type_run(2)
        bulk_index_by_type_run(3) reindex_all_run(1) reindex_all_run(4) reindex_all_run(2))

theorem batch_counts_no_record_witness:
  "scan env0 (\<lambda>m. dataType m = Some ''Sales'') None world7 = [item1, item6, item7]
   \<and> filter (blob_bad env0 (s3 world7)) [item1, item6, item7] = [item6, item7]
   \<and> filter (indexable env0 (s3 world7) ''Sales'') [item1, item6, item7] = [item1]
   \<and> fst (bulk_index_by_type env0 ''Sales'' world7)
       = Inr ((reply 200 True ''Bulk indexing completed'')\<lparr>totalItems := Some 3, indexedItems := Some 0\<rparr>)
   \<and> list_all (\<lambda>m. failure_logged m (snd (bulk_index_by_type env0 ''Sales'' world7))) [item1, item6, item7]
   \<and> writes (snd (bulk_index_by_type env0 ''Sales'' world7)) = [IndexPut ''data-sales'' ''r1'']
   \<and> map indexed (table (snd (bulk_index_by_type env0 ''Sales'' world7))) = [None, None, None]
   \<and> fst (reindex_all env0 world7)
       = Inr ((reply 200 True ''Full reindexing completed'')
                \<lparr>totalItems := Some 3, indexedItems := Some 0, dataTypes := Some [''Sales'']\<rparr>)
   \<and> list_all (\<lambda>m. failure_logged m (snd (reindex_all env0 world7))) [item1, item6, item7]"
proof -
  have s: "scan env0 (\<lambda>m. dataType m = Some ''Sales'') None world7 = [item1, item6, item7]"
      "scan env0 (\<lambda>_. True) None world7 = [item1, item6, item7]"
    by (simp_all add: scan_def env0_def world7_def world0_def item1_def item6_def item7_def)
  have p: "parse_s3_location item1 = Inr (''lake'', ''Sales/2024-01-02/r1.json'')"
      "parse_s3_location item6 = Inr (''lake'', ''Sales/2024-01-02/r6.json'')"
      "parse_s3_location item7 = Inr (''lake'', ''Sales/2024-01-02/r7.json'')"
    by (simp_all add: item1_def item6_def item7_def parse_s3_location_def startswith_def split1_def)
  have bad: "filter (blob_bad env0 (s3 world7)) [item1, item6, item7] = [item6, item7]"
    by (simp add: blob_bad_def p world7_def world0_def env0_def)
  have good: "filter (indexable env0 (s3 world7) ''Sales'') [item1, item6, item7] = [item1]"
    by (simp add: indexable_def p world7_def world0_def env0_def plain_lake es_unset_def
          accepted_def)
  have g: "map fst (group_by_type [item1, item6, item7]) = [''Sales'']"
    by (simp add: group_by_type_def data_type_of_def item1_def item6_def item7_def)
  have w: "writes world7 = []" "map indexed (table world7) = [None, None, None]"
    by (simp_all add: world7_def world0_def item1_def item6_def item7_def)
  note found = batch_counts_no_record [of env0 "''Sales''" world7, unfolded s good]
  note c1 = found [THEN conjunct1]
  note c2 = found [THEN conjunct2, THEN conjunct1]
  note c3 = found [THEN conjunct2, THEN conjunct2, THEN conjunct1]
  note c4 = found [THEN conjunct2, THEN conjunct2, THEN conjunct2, THEN conjunct1]
  note c5 = found [THEN conjunct2, THEN conjunct2, THEN conjunct2, THEN conjunct2, THEN conjunct1]
  note c6 = found [THEN conjunct2, THEN conjunct2, THEN conjunct2, THEN conjunct2, THEN conjunct2,
      THEN conjunct1]
  have t1: "fst (bulk_index_by_type env0 ''Sales'' world7)
       = Inr ((reply 200 True ''Bulk indexing completed'')\<lparr>totalItems := Some 3, indexedItems := Some 0\<rparr>)"
    using c1 by simp
  have t3: "writes (snd (bulk_index_by_type env0 ''Sales'' world7)) = [IndexPut ''data-sales'' ''r1'']"
    using c3 by (simp add: w sales_names [simplified] item1_def)
  have t4: "map indexed (table (snd (bulk_index_by_type env0 ''Sales'' world7))) = [None, None, None]"
    using c4 w by simp
  have t5: "fst (reindex_all env0 world7)
       = Inr ((reply 200 True ''Full reindexing completed'')
                \<lparr>totalItems := Some 3, indexedItems := Some 0, dataTypes := Some [''Sales'']\<rparr>)"
    using c5 by (simp add: g)
  show ?thesis
    by (intro conjI s(1) bad good t1 c2 t3 t4 t5 c6)
qed

section \<open>The blob is written before the metadata\<close>

lemma names_blob_upsert:
  assumes "names_blob store m"
  shows "names_blob (upsert k v store) m"
proof (cases "s3Location m")
  case None
  then show ?thesis by (simp add: names_blob_def)
next
  case (Some loc)
  with assms obtain p where p: "p \<in> set store" "loc = ''s3://'' @ fst (fst p) @ ''/'' @ snd (fst p)"
    by (auto simp: names_blob_def list_ex_iff)
  show ?thesis
  proof (cases "fst p = k")
    case True
    with p Some show ?thesis
      by (simp add: names_blob_def upsert_def)
  next
    case False
    with p have "p \<in> set (upsert k v store)"
      by (simp add: upsert_def)
    with p Some show ?thesis
      by (auto simp: names_blob_def list_ex_iff)
  qed
qed

lemma refs_ok_fields:
  assumes "s3 w' = s3 w" and "table w' = table w"
  shows "refs_ok w' = refs_ok w"
  using assms by (simp add: refs_ok_def)

lemma refs_ok_put_blob:
  assumes "refs_ok w" and "s3 w' = upsert k v (s3 w)" and "table w' = table w"
  shows "refs_ok w'"
  using assms by (simp add: refs_ok_def list_all_iff names_blob_upsert)

lemma refs_ok_put_both:
  assumes "refs_ok w" and "s3 w' = upsert (b, k) v (s3 w)"
      and "table w' = item # filter (\<lambda>m. md_id m \<noteq> md_id item) (table w)"
      and "s3Location item = Some (''s3://'' @ b @ ''/'' @ k)"
  shows "refs_ok w'"
proof -
  have "names_blob (upsert (b, k) v (s3 w)) item"
    using assms(4) by (simp add: names_blob_def upsert_def)
  with assms show ?thesis
    by (simp add: refs_ok_def list_all_iff names_blob_upsert)
qed

lemma refs_ok_put_object:
  assumes "refs_ok w"
  shows "refs_ok (snd (put_object ev bkt key content w))"
proof (cases "fst (put_object ev bkt key content w)")
  case (Inl e)
  then have "snd (put_object ev bkt key content w) = w"
    by (auto simp: put_object_def split: option.splits if_splits)
  with assms show ?thesis by simp
next
  case (Inr u)
  then obtain b where "s3 (snd (put_object ev bkt key content w)) = upsert (b, key) content (s3 w)"
      "table (snd (put_object ev bkt key content w)) = table w"
    by (auto simp: put_object_def split: option.splits if_splits)
  with assms show ?thesis by (rule refs_ok_put_blob)
qed

text \<open>The three ways an ingest can end: nothing written, the blob alone, the blob and then the entry.\<close>

lemma ingest_cases:
  assumes "ingest ev event w = (res, w')"
  shows "(s3 w' = s3 w \<and> table w' = table w \<and> writes w' = writes w \<and> isl res)
       \<or> (\<exists>b k v. s3 w' = upsert (b, k) v (s3 w) \<and> table w' = table w
              \<and> writes w' = writes w @ [S3Put b k] \<and> isl res)
       \<or> (\<exists>b k v item r. s3 w' = upsert (b, k) v (s3 w)
              \<and> table w' = item # filter (\<lambda>m. md_id m \<noteq> md_id item) (table w)
              \<and> s3Location item = Some (''s3://'' @ b @ ''/'' @ k) \<and> md_id item = uuid4 ev
              \<and> writes w' = writes w @ [S3Put b k, TablePut (uuid4 ev)]
              \<and> res = Inr r \<and> i_statusCode r = 200)"
proof (cases event)
  case NotAnObject
  with assms show ?thesis by (auto simp: ingest_def)
next
  case (Fields body)
  show ?thesis
  proof (cases "S3_BUCKET ev")
    case None
    with Fields assms show ?thesis
      by (auto simp: ingest_def Let_def thenE_def put_object_def log_def split: option.splits)
  next
    case (Some b)
    let ?k = "s3_key_of (or_default (b_dataType body) ''unknown'') (now ev) (uuid4 ev)"
    show ?thesis
    proof (cases "s3_params_valid ev b ?k \<and> s3_put_ok ev b ?k")
      case False
      then consider "\<not> s3_params_valid ev b ?k" | "s3_params_valid ev b ?k" "\<not> s3_put_ok ev b ?k"
        by blast
      then show ?thesis
      proof cases
        case 1
        with Some Fields assms show ?thesis
          by (auto simp: ingest_def Let_def thenE_def put_object_def log_def split: option.splits)
      next
        case 2
        with Some Fields assms show ?thesis
          by (auto simp: ingest_def Let_def thenE_def put_object_def log_def split: option.splits)
      qed
    next
      case True
      show ?thesis
      proof (cases "ddb_write_ok ev (uuid4 ev)")
        case False
        with True Some Fields assms have
          "\<exists>v. s3 w' = upsert (b, ?k) v (s3 w) \<and> table w' = table w
             \<and> writes w' = writes w @ [S3Put b ?k] \<and> isl res"
          by (auto simp: ingest_def Let_def thenE_def put_object_def put_item_def log_def
              split: option.splits)
        then show ?thesis by blast
      next
        case ok: True
        with True Some Fields assms have
          "\<exists>v item r. s3 w' = upsert (b, ?k) v (s3 w)
              \<and> table w' = item # filter (\<lambda>m. md_id m \<noteq> md_id item) (table w)
              \<and> s3Location item = Some (''s3://'' @ b @ ''/'' @ ?k) \<and> md_id item = uuid4 ev
              \<and> writes w' = writes w @ [S3Put b ?k, TablePut (uuid4 ev)]
              \<and> res = Inr r \<and> i_statusCode r = 200"
          by (auto simp: ingest_def Let_def thenE_def put_object_def put_item_def log_def
                s3_location_of_def str_opt_def
              split: option.splits)
        then show ?thesis by blast
      qed
    qed
  qed
qed

lemma handler_ingest_state:
  "\<exists>res w'. ingest ev event (log INFO ''Received event'' w) = (res, w')
     \<and> s3 (snd (lambda_handler_ingest ev event w)) = s3 w'
     \<and> table (snd (lambda_handler_ingest ev event w)) = table w'
     \<and> writes (snd (lambda_handler_ingest ev event w)) = writes w'
     \<and> (i_statusCode (fst (lambda_handler_ingest ev event w)) = 200)
         = (\<exists>r. res = Inr r \<and> i_statusCode r = 200)"
  by (cases "ingest ev event (log INFO ''Received event'' w)")
    (auto simp: lambda_handler_ingest_def split: sum.splits)

text \<open>The outcome of an ingest from a state in which every entry names a blob of the store.\<close>

lemma ingest_outcome:
  assumes "refs_ok w"
  shows "refs_ok (snd (put_object ev bkt key content w))
       \<and> refs_ok (snd (lambda_handler_ingest ev event w))
       \<and> (writes (snd (lambda_handler_ingest ev event w)) = writes w
            \<and> table (snd (lambda_handler_ingest ev event w)) = table w
          \<or> (\<exists>b k. writes (snd (lambda_handler_ingest ev event w)) = writes w @ [S3Put b k]
                \<and> table (snd (lambda_handler_ingest ev event w)) = table w
                \<and> (b, k) \<in> fst ` set (s3 (snd (lambda_handler_ingest ev event w))))
          \<or> (\<exists>b k item.
                writes (snd (lambda_handler_ingest ev event w))
                  = writes w @ [S3Put b k, TablePut (uuid4 ev)]
                \<and> table_item (uuid4 ev) (snd (lambda_handler_ingest ev event w)) = Some item
                \<and> s3Location item = Some (''s3://'' @ b @ ''/'' @ k)
                \<and> (b, k) \<in> fst ` set (s3 (snd (lambda_handler_ingest ev event w)))))
       \<and> (i_statusCode (fst (lambda_handler_ingest ev event w)) = 200)
           = (\<exists>b k. writes (snd (lambda_handler_ingest ev event w))
                      = writes w @ [S3Put b k, TablePut (uuid4 ev)])"
proof -
  let ?w0 = "log INFO ''Received event'' w"
  let ?h = "lambda_handler_ingest ev event w"
  from handler_ingest_state [of ev event w] obtain res w' where
    run: "ingest ev event ?w0 = (res, w')" and
    st: "s3 (snd ?h) = s3 w'" "table (snd ?h) = table w'" "writes (snd ?h) = writes w'" and
    code: "(i_statusCode (fst ?h) = 200) = (\<exists>r. res = Inr r \<and> i_statusCode r = 200)"
    by blast
  have w0: "refs_ok ?w0" "s3 ?w0 = s3 w" "table ?w0 = table w" "writes ?w0 = writes w"
    using assms by (simp_all add: refs_ok_def)
  have blob: "refs_ok (snd (put_object ev bkt key content w))"
    using assms by (rule refs_ok_put_object)
  from ingest_cases [OF run]
  consider
    (none) "s3 w' = s3 ?w0" "table w' = table ?w0" "writes w' = writes ?w0" "isl res"
  | (blob) b k v where "s3 w' = upsert (b, k) v (s3 ?w0)" "table w' = table ?w0"
      "writes w' = writes ?w0 @ [S3Put b k]" "isl res"
  | (both) b k v item r where "s3 w' = upsert (b, k) v (s3 ?w0)"
      "table w' = item # filter (\<lambda>m. md_id m \<noteq> md_id item) (table ?w0)"
      "s3Location item = Some (''s3://'' @ b @ ''/'' @ k)" "md_id item = uuid4 ev"
      "writes w' = writes ?w0 @ [S3Put b k, TablePut (uuid4 ev)]"
      "res = Inr r" "i_statusCode r = 200"
    by blast
  then show ?thesis
  proof cases
    case none
    then have "refs_ok (snd ?h)"
      using assms st w0 by (simp add: refs_ok_def)
    moreover have "\<not> (\<exists>r. res = Inr r \<and> i_statusCode r = 200)"
      using none(4) by auto
    ultimately show ?thesis
      using blob none st w0 code by simp
  next
    case blob
    have "refs_ok w'"
      using w0(1) blob(1,2) by (rule refs_ok_put_blob)
    then have "refs_ok (snd ?h)"
      using st by (simp add: refs_ok_def)
    moreover have "\<not> (\<exists>r. res = Inr r \<and> i_statusCode r = 200)"
      using blob(4) by auto
    moreover have "(b, k) \<in> fst ` set (s3 (snd ?h))"
      using st blob(1) by (simp add: upsert_def)
    ultimately show ?thesis
      using \<open>refs_ok (snd (put_object ev bkt key content w))\<close> blob st w0 code by auto
  next
    case both
    have "refs_ok w'"
      using w0(1) both(1,2,3) by (rule refs_ok_put_both)
    then have "refs_ok (snd ?h)"
      using st by (simp add: refs_ok_def)
    moreover have "(b, k) \<in> fst ` set (s3 (snd ?h))"
      using st both(1) by (simp add: upsert_def)
    moreover have "table_item (uuid4 ev) (snd ?h) = Some item"
      using st both(2,4) by (simp add: table_item_def)
    ultimately show ?thesis
      using \<open>refs_ok (snd (put_object ev bkt key content w))\<close> both st w0 code by auto
  qed
qed

section \<open>Every handler keeps the entries' blobs in the store\<close>

lemma refs_ok_log [simp]: "refs_ok (log l msg w) = refs_ok w"
  by (simp add: refs_ok_def)

lemma refs_ok_log_exc [simp]: "refs_ok (log_exc l msg e w) = refs_ok w"
  by (simp add: refs_ok_def)

lemma refs_ok_thenE:
  assumes "refs_ok w"
      and "\<And>u. refs_ok u \<Longrightarrow> refs_ok (snd (m u))"
      and "\<And>x u. refs_ok u \<Longrightarrow> refs_ok (snd (f x u))"
  shows "refs_ok (snd (thenE m f w))"
proof (cases "m w")
  case (Pair r u)
  with assms(2) [OF assms(1)] have "refs_ok u" by simp
  with Pair assms(3) show ?thesis
    by (cases r) (simp_all add: thenE_def)
qed

lemma refs_ok_lift [simp]: "refs_ok (snd (lift f w)) = refs_ok w"
  by (simp add: lift_def)

lemma refs_ok_update_item:
  assumes "refs_ok w"
  shows "refs_ok (snd (update_item i w))"
  using assms by (simp add: update_item_def)

lemma refs_ok_index_in_elasticsearch:
  assumes "refs_ok w"
  shows "refs_ok (snd (index_in_elasticsearch ev n i d w))"
  using assms
  by (auto simp: index_in_elasticsearch_def Let_def refs_ok_def log_def split: option.splits)

lemma refs_ok_index_s3_object:
  assumes "refs_ok w"
  shows "refs_ok (snd (index_s3_object ev bucket key w))"
  using assms
  by (auto simp: index_s3_object_def Let_def split: sum.splits option.splits prod.splits
      intro!: refs_ok_thenE refs_ok_index_in_elasticsearch refs_ok_update_item)

lemma refs_ok_index_metadata:
  assumes "refs_ok w"
  shows "refs_ok (snd (index_metadata ev m w))"
  using assms
  by (auto simp: index_metadata_def Let_def
      intro!: refs_ok_thenE refs_ok_index_in_elasticsearch)

lemma refs_ok_index_by_id:
  assumes "refs_ok w"
  shows "refs_ok (snd (index_by_id ev i w))"
  using assms
  by (auto simp: index_by_id_def Let_def split: sum.splits option.splits prod.splits
      intro!: refs_ok_thenE refs_ok_index_in_elasticsearch refs_ok_update_item)

lemma refs_ok_index_item:
  assumes "refs_ok w"
  shows "refs_ok (snd (index_item ev dt m w))"
  using assms
  by (auto simp: index_item_def Let_def split: sum.splits option.splits prod.splits
      intro!: refs_ok_thenE refs_ok_index_in_elasticsearch refs_ok_update_item)

lemma refs_ok_index_items:
  assumes "refs_ok w"
  shows "refs_ok (snd (index_items ev dt items n w))"
  using assms
proof (induction items arbitrary: n w)
  case Nil
  then show ?case by simp
next
  case (Cons m ms)
  from Cons.prems have "refs_ok (snd (index_item ev dt m w))"
    by (rule refs_ok_index_item)
  then show ?case
    by (cases "index_item ev dt m w") (auto split: sum.splits intro: Cons.IH)
qed

lemma refs_ok_bulk_index_by_type:
  assumes "refs_ok w"
  shows "refs_ok (snd (bulk_index_by_type ev dt w))"
proof -
  have "refs_ok (snd (index_items ev dt items 0 (log INFO msg w)))" for items msg
    using assms by (simp add: refs_ok_index_items)
  then show ?thesis
    by (simp add: bulk_index_by_type_def Let_def split: prod.splits) (metis snd_conv)
qed

lemma refs_ok_reindex_groups:
  assumes "refs_ok w"
  shows "refs_ok (snd (reindex_groups ev gs n w))"
  using assms
proof (induction gs arbitrary: n w)
  case Nil
  then show ?case by simp
next
  case (Cons g gs)
  obtain k ms where g: "g = (k, ms)" by (cases g)
  have "refs_ok (snd (index_items ev k ms n (log INFO msg w)))" for msg
    using Cons.prems by (simp add: refs_ok_index_items)
  then show ?case
    unfolding g by (auto simp: Let_def split: prod.splits intro!: Cons.IH) (metis snd_conv)
qed

lemma refs_ok_reindex_all:
  assumes "refs_ok w"
  shows "refs_ok (snd (reindex_all ev w))"
proof -
  have "refs_ok (snd (reindex_groups ev gs 0 (log INFO msg w)))" for gs msg
    using assms by (simp add: refs_ok_reindex_groups)
  then show ?thesis
    by (simp add: reindex_all_def Let_def split: prod.splits) (metis snd_conv)
qed


lemma refs_ok_index_records:
  assumes "refs_ok w"
  shows "refs_ok (snd (index_records ev rs w))"
  using assms
proof (induction rs arbitrary: w)
  case Nil
  then show ?case by simp
next
  case (Cons r rs)
  show ?case
  proof (cases r)
    case (S3Event bucket key)
    with Cons show ?thesis
      by (auto intro!: refs_ok_thenE refs_ok_index_s3_object)
  next
    case (DynamoDBEvent image)
    with Cons show ?thesis
      by (cases image) (auto intro!: refs_ok_thenE refs_ok_index_metadata)
  next
    case OtherEvent
    with Cons show ?thesis by simp
  qed
qed

lemma refs_ok_index_api_call:
  assumes "refs_ok w"
  shows "refs_ok (snd (index_api_call ev b w))"
  using assms
  by (cases b) (simp_all add: index_api_call_def refs_ok_index_by_id refs_ok_bulk_index_by_type)

lemma refs_ok_result:
  assumes "refs_ok (snd run)"
  shows "refs_ok (snd (case run of
                        (Inr r, w') \<Rightarrow> (h r, w')
                      | (Inl e, w') \<Rightarrow> (g e, log_exc l msg e w')))"
  using assms by (cases run) (auto split: sum.splits)

lemma refs_ok_lambda_handler_index:
  assumes "refs_ok w"
  shows "refs_ok (snd (lambda_handler_index ev event w))"
proof -
  let ?w = "log INFO ''Received event'' w"
  have w: "refs_ok ?w" using assms by simp
  have records: "refs_ok (snd (thenE (index_records ev records)
              (\<lambda>_ w'. (Inr (reply 200 True ''Indexing completed successfully''), w')) ?w))" for records
    using w by (rule refs_ok_thenE) (simp_all add: refs_ok_index_records)
  have call: "refs_ok (snd (case index_api_call ev b ?w of
                         (Inr r, w') \<Rightarrow> (Inr r, w')
                       | (Inl e, w') \<Rightarrow>
                           (Inr ((reply 400 False ''Invalid request: '')\<lparr>detail := Some e\<rparr>),
                            log_exc ERROR ''Error processing API request: '' e w')))" for b
    using refs_ok_index_api_call [OF w, of ev b]
    by (cases "index_api_call ev b ?w") (auto split: sum.splits)
  have direct: "refs_ok (snd (case ev_id event of
                         Some data_id \<Rightarrow> index_by_id ev data_id ?w
                       | None \<Rightarrow>
                           (case ev_dataType event of
                              Some data_type \<Rightarrow> bulk_index_by_type ev data_type ?w
                            | None \<Rightarrow>
                                if reindexAll event = Some True then reindex_all ev ?w
                                else (Inl (ValueError ''Event must include 'id', 'dataType', or 'reindexAll' ''), ?w))))"
    using w
    by (simp add: refs_ok_index_by_id refs_ok_bulk_index_by_type refs_ok_reindex_all
        split: option.splits)
  have "refs_ok (snd (case Records event of
               Some records \<Rightarrow>
                 thenE (index_records ev records)
                   (\<lambda>_ w'. (Inr (reply 200 True ''Indexing completed successfully''), w')) ?w
             | None \<Rightarrow>
                 (case ev_body event of
                    Some b \<Rightarrow>
                      (case index_api_call ev b ?w of
                         (Inr r, w') \<Rightarrow> (Inr r, w')
                       | (Inl e, w') \<Rightarrow>
                           (Inr ((reply 400 False ''Invalid request: '')\<lparr>detail := Some e\<rparr>),
                            log_exc ERROR ''Error processing API request: '' e w'))
                  | None \<Rightarrow>
                      (case ev_id event of
                         Some data_id \<Rightarrow> index_by_id ev data_id ?w
                       | None \<Rightarrow>
                           (case ev_dataType event of
                              Some data_type \<Rightarrow> bulk_index_by_type ev data_type ?w
                            | None \<Rightarrow>
                                if reindexAll event = Some True then reindex_all ev ?w
                                else (Inl (ValueError ''Event must include 'id', 'dataType', or 'reindexAll' ''), ?w))))))"
    using records call direct
    by (cases "Records event"; cases "ev_body event") simp_all
  then have "refs_ok (snd (case (case Records event of
               Some records \<Rightarrow>
                 thenE (index_records ev records)
                   (\<lambda>_ w'. (Inr (reply 200 True ''Indexing completed successfully''), w')) ?w
             | None \<Rightarrow>
                 (case ev_body event of
                    Some b \<Rightarrow>
                      (case index_api_call ev b ?w of
                         (Inr r, w') \<Rightarrow> (Inr r, w')
                       | (Inl e, w') \<Rightarrow>
                           (Inr ((reply 400 False ''Invalid request: '')\<lparr>detail := Some e\<rparr>),
                            log_exc ERROR ''Error processing API request: '' e w'))
                  | None \<Rightarrow>
                      (case ev_id event of
                         Some data_id \<Rightarrow> index_by_id ev data_id ?w
                       | None \<Rightarrow>
                           (case ev_dataType event of
                              Some data_type \<Rightarrow> bulk_index_by_type ev data_type ?w
                            | None \<Rightarrow>
                                if reindexAll event = Some True then reindex_all ev ?w
                                else (Inl (ValueError ''Event must include 'id', 'dataType', or 'reindexAll' ''), ?w))))) of
           (Inr r, w') \<Rightarrow> (r, w')
         | (Inl e, w') \<Rightarrow>
             ((reply 500 False ''Indexing error: '')\<lparr>detail := Some e\<rparr>,
              log_exc ERROR ''Error during indexing: '' e w')))"
    by (rule refs_ok_result)
  then show ?thesis
    unfolding lambda_handler_index_def Let_def .
qed

lemma refs_ok_lambda_handler_query:
  "refs_ok (snd (lambda_handler_query ev event w)) = refs_ok w"
  by (simp add: lambda_handler_query_def Let_def split: sum.splits if_splits)

text \<open>The file indexer writes blobs and documents, and no entry of the table.\<close>

lemma bulk_fields [simp]:
  "s3 (bulk ev n ds w) = s3 w" "table (bulk ev n ds w) = table w"
  by (induction ds arbitrary: w) auto

lemma log_bulk_errors_fields [simp]:
  "s3 (log_bulk_errors ev n is w) = s3 w" "table (log_bulk_errors ev n is w) = table w"
  by (induction "is" arbitrary: w) auto

lemma refs_ok_get_opensearch_endpoint:
  "refs_ok (snd (get_opensearch_endpoint ev w)) = refs_ok w"
  by (simp add: get_opensearch_endpoint_def split: option.splits)

lemma refs_ok_create_index:
  "refs_ok (snd (create_index_if_not_exists ev n w)) = refs_ok w"
  by (simp add: create_index_if_not_exists_def refs_ok_def)

lemma refs_ok_read_file_content:
  "refs_ok (snd (read_file_content ev bucket key w)) = refs_ok w"
  by (simp add: read_file_content_def Let_def split: sum.splits option.splits)

lemma refs_ok_index_data:
  "refs_ok (snd (index_data ev n df w)) = refs_ok w"
  by (simp add: index_data_def Let_def refs_ok_def)

lemma refs_ok_save_processed:
  assumes "refs_ok w"
  shows "refs_ok (snd (save_processed ev bucket key df w))"
proof -
  have "refs_ok (case put_object ev (Some bucket) k (Text []) w of
                   (Inr _, w') \<Rightarrow> w'
                 | (Inl e, w') \<Rightarrow> log_exc WARNING ''Error creating directory: '' e w')" for k
    using refs_ok_put_object [OF assms, of ev "Some bucket" k "Text []"]
    by (auto split: prod.splits sum.splits)
  with assms show ?thesis
    by (auto simp: save_processed_def Let_def intro!: refs_ok_put_object)
qed

lemma refs_ok_reraise:
  assumes "refs_ok (snd run)"
  shows "refs_ok (snd (case run of
                        (Inl e, w') \<Rightarrow> (Inl e, log_exc l msg e w')
                      | (Inr r, w') \<Rightarrow> (Inr r, w')))"
  using assms by (cases run) (auto split: sum.splits)

lemma refs_ok_process_file:
  assumes "refs_ok w"
  shows "refs_ok (snd (process_file ev bucket key w))"
proof (cases "length (split CHR ''/'' key) < 2")
  case True
  with assms show ?thesis by (simp add: process_file_def)
next
  case False
  have saved: "refs_ok (snd ((case p of (num_indexed, df) \<Rightarrow>
                  let processed_key = replace ''raw/'' ''processed/'' key
                  in thenE (save_processed ev bucket processed_key df)
                       (\<lambda>_ w'.
                          (Inr (Some \<lparr>r_file = key, r_index = n,
                                      records_indexed = num_indexed,
                                      processed_file = processed_key\<rparr>),
                           log INFO (''Processed file saved to '' @ processed_key) w'))) u))"
    if "refs_ok u" for p n u
    using that
    by (cases p) (auto simp: Let_def intro!: refs_ok_thenE refs_ok_save_processed)
  have indexed: "refs_ok (snd ((case df0 of
                     None \<Rightarrow> (\<lambda>w'. (Inr None, w'))
                   | Some d \<Rightarrow>
                       thenE (index_data ev n d)
                         (\<lambda>(num_indexed, df).
                            let processed_key = replace ''raw/'' ''processed/'' key
                            in thenE (save_processed ev bucket processed_key df)
                                 (\<lambda>_ w'.
                                    (Inr (Some \<lparr>r_file = key, r_index = n,
                                                records_indexed = num_indexed,
                                                processed_file = processed_key\<rparr>),
                                     log INFO (''Processed file saved to '' @ processed_key) w')))) u))"
    if "refs_ok u" for df0 n u
  proof (cases df0)
    case None
    with that show ?thesis by simp
  next
    case (Some d)
    show ?thesis
      unfolding Some option.case
      apply (rule refs_ok_thenE [OF that])
       apply (simp add: refs_ok_index_data)
      apply (erule saved)
      done
  qed
  have chain: "refs_ok (snd (thenE (get_opensearch_endpoint ev)
                  (\<lambda>endpoint. thenE (create_index_if_not_exists ev n)
                    (\<lambda>_. thenE (read_file_content ev bucket key)
                      (\<lambda>df0. case df0 of
                               None \<Rightarrow> (\<lambda>w'. (Inr None, w'))
                             | Some d \<Rightarrow>
                                 thenE (index_data ev n d)
                                   (\<lambda>(num_indexed, df).
                                      let processed_key = replace ''raw/'' ''processed/'' key
                                      in thenE (save_processed ev bucket processed_key df)
                                           (\<lambda>_ w'.
                                              (Inr (Some \<lparr>r_file = key, r_index = n,
                                                          records_indexed = num_indexed,
                                                          processed_file = processed_key\<rparr>),
                                               log INFO (''Processed file saved to '' @ processed_key) w'))))))
                  w))" for n
    apply (rule refs_ok_thenE [OF assms])
     apply (simp add: refs_ok_get_opensearch_endpoint)
    apply (rule refs_ok_thenE, assumption)
     apply (simp add: refs_ok_create_index)
    apply (rule refs_ok_thenE, assumption)
     apply (simp add: refs_ok_read_file_content)
    apply (erule indexed)
    done
  show ?thesis
    unfolding process_file_def
    apply (simp only: Let_def False if_False)
    apply (rule refs_ok_reraise)
    apply (rule chain [unfolded Let_def])
    done
qed

lemma refs_ok_process_records:
  assumes "refs_ok w"
  shows "refs_ok (snd (process_records ev records w))"
  using assms
proof (induction records arbitrary: w)
  case Nil
  then show ?case by simp
next
  case (Cons r rs)
  have pf: "refs_ok (snd (process_file ev b k (log INFO msg w)))" for b k msg
    using Cons.prems by (simp add: refs_ok_process_file)
  show ?case
  proof (cases "eventSource r = Some ''aws:s3''
      \<and> startswith (or_default (eventName r) []) ''ObjectCreated:''")
    case False
    with Cons show ?thesis by auto
  next
    case True
    show ?thesis
    proof (cases "endswith (unquote_plus ev (object_key r)) ''/''")
      case marker: True
      with True Cons show ?thesis by (simp add: Let_def)
    next
      case plain: False
      obtain res w' where run: "process_file ev (bucket_name r) (unquote_plus ev (object_key r))
          (log INFO (''Processing file: s3://'' @ bucket_name r @ ''/'' @ unquote_plus ev (object_key r)) w)
          = (res, w')"
        by (cases "process_file ev (bucket_name r) (unquote_plus ev (object_key r))
          (log INFO (''Processing file: s3://'' @ bucket_name r @ ''/'' @ unquote_plus ev (object_key r)) w)")
      with pf [of "bucket_name r" "unquote_plus ev (object_key r)"
          "''Processing file: s3://'' @ bucket_name r @ ''/'' @ unquote_plus ev (object_key r)"]
      have w': "refs_ok w'" by simp
      have "process_records ev (r # rs) w
          = (case process_file ev (bucket_name r) (unquote_plus ev (object_key r))
                (log INFO (''Processing file: s3://'' @ bucket_name r @ ''/'' @ unquote_plus ev (object_key r)) w) of
               (Inl e, w') \<Rightarrow> (Inl e, w')
             | (Inr None, w') \<Rightarrow> process_records ev rs w'
             | (Inr (Some r), w') \<Rightarrow> process_records ev rs (log INFO ''Processing result'' w'))"
        using True plain by (simp add: Let_def)
      then have "process_records ev (r # rs) w
          = (case (res, w') of
               (Inl e, w') \<Rightarrow> (Inl e, w')
             | (Inr None, w') \<Rightarrow> process_records ev rs w'
             | (Inr (Some r), w') \<Rightarrow> process_records ev rs (log INFO ''Processing result'' w'))"
        by (simp only: run)
      with w' show ?thesis
        by (auto split: sum.splits option.splits intro: Cons.IH)
    qed
  qed
qed

lemma refs_ok_lambda_handler_files:
  assumes "refs_ok w"
  shows "refs_ok (snd (lambda_handler_files ev records w))"
proof -
  have "refs_ok (snd (process_records ev records (log INFO ''Received event'' w)))"
    using assms by (simp add: refs_ok_process_records)
  then show ?thesis
    by (cases "process_records ev records (log INFO ''Received event'' w)")
      (auto simp: lambda_handler_files_def split: sum.splits)
qed

section \<open>No entry without its blob, in any reachable state\<close>

lemma refs_ok_start: "refs_ok world0"
  by (simp add: refs_ok_def world0_def)

lemma reachable_refs_ok:
  assumes "reachable w"
  shows "refs_ok w"
  using assms
proof (induction rule: reachable.induct)
  case start
  show ?case by (rule refs_ok_start)
next
  case (by_ingest w ev event)
  then show ?case
    using ingest_outcome [of w ev None "[]" "Text []" event] by simp
next
  case (by_index w ev ievent)
  then show ?case by (simp add: refs_ok_lambda_handler_index)
next
  case (by_query w ev qevent)
  then show ?case by (simp add: refs_ok_lambda_handler_query)
next
  case (by_files w ev records)
  then show ?case by (simp add: refs_ok_lambda_handler_files)
next
  case (by_upload w ev bucket key content)
  then show ?case by (simp add: refs_ok_put_object)
qed

text \<open>
  C5.  An ingest invocation completes its writes in this order and no other: none at all,
  or the blob alone (the table refused or was never reached), or the blob and then the
  metadata entry; the entry is written, and the invocation answers 200, only in the last
  case, and the entry then names the blob just written.  In every reachable state each
  entry of the table that has a location names a blob of the store, and so it is in the
  state after the blob write and in the final state of the invocation: no entry
  references a blob that was never written.
\<close>

theorem ingest_blob_before_metadata:
  assumes "reachable w"
  shows "refs_ok w
       \<and> refs_ok (snd (put_object ev bkt key content w))
       \<and> refs_ok (snd (lambda_handler_ingest ev event w))
       \<and> (writes (snd (lambda_handler_ingest ev event w)) = writes w
            \<and> table (snd (lambda_handler_ingest ev event w)) = table w
          \<or> (\<exists>b k. writes (snd (lambda_handler_ingest ev event w)) = writes w @ [S3Put b k]
                \<and> table (snd (lambda_handler_ingest ev event w)) = table w
                \<and> (b, k) \<in> fst ` set (s3 (snd (lambda_handler_ingest ev event w))))
          \<or> (\<exists>b k item.
                writes (snd (lambda_handler_ingest ev event w))
                  = writes w @ [S3Put b k, TablePut (uuid4 ev)]
                \<and> table_item (uuid4 ev) (snd (lambda_handler_ingest ev event w)) = Some item
                \<and> s3Location item = Some (''s3://'' @ b @ ''/'' @ k)
                \<and> (b, k) \<in> fst ` set (s3 (snd (lambda_handler_ingest ev event w)))))
       \<and> (i_statusCode (fst (lambda_handler_ingest ev event w)) = 200)
           = (\<exists>b k. writes (snd (lambda_handler_ingest ev event w))
                      = writes w @ [S3Put b k, TablePut (uuid4 ev)])"
proof -
  from assms have "refs_ok w" by (rule reachable_refs_ok)
  with ingest_outcome [of w ev bkt key content event] show ?thesis
    by (intro conjI) simp_all
qed

theorem ingest_blob_before_metadata_witness:
  "reachable (snd (lambda_handler_ingest env0 (Fields body0) world0))
   \<and> table (snd (lambda_handler_ingest env0 (Fields body0) world0)) = [item1]
   \<and> refs_ok (snd (lambda_handler_ingest env0 (Fields body0) world0))
   \<and> refs_ok (snd (lambda_handler_ingest env_no_table (Fields body0)
                     (snd (lambda_handler_ingest env0 (Fields body0) world0))))
   \<and> writes (snd (lambda_handler_ingest env_no_table (Fields body0)
                     (snd (lambda_handler_ingest env0 (Fields body0) world0))))
       = writes (snd (lambda_handler_ingest env0 (Fields body0) world0))
         @ [S3Put ''lake'' ''Sales/2024-01-02/r7.json'']
   \<and> table (snd (lambda_handler_ingest env_no_table (Fields body0)
                     (snd (lambda_handler_ingest env0 (Fields body0) world0))))
       = [item1]
   \<and> i_statusCode (fst (lambda_handler_ingest env_no_table (Fields body0)
                           (snd (lambda_handler_ingest env0 (Fields body0) world0)))) = 500"
proof -
  let ?w1 = "snd (lambda_handler_ingest env0 (Fields body0) world0)"
  have h: "reachable ?w1"
    by (intro reachable.by_ingest reachable.start)
  note found = ingest_blob_before_metadata [OF h, of env_no_table None "[]" "Text []" "Fields body0"]
  have w1: "?w1 = \<lparr>s3 = [((''lake'', ''Sales/2024-01-02/r1.json''), Text ''{}'')], table = [item1],
      es = [], indices = [],
      writes = [S3Put ''lake'' ''Sales/2024-01-02/r1.json'', TablePut ''r1''],
      logs = [Log INFO ''Received event'' None,
              Log INFO ''Successfully ingested data with ID: r1'' None]\<rparr>"
    by (simp add: lambda_handler_ingest_def ingest_def Let_def thenE_def put_object_def
          put_item_def log_def or_default_def s3_key_of_def s3_location_of_def str_opt_def
          upsert_def env0_def body0_def world0_def item1_def plain_lake)
  have run: "writes (snd (lambda_handler_ingest env_no_table (Fields body0) ?w1))
       = writes ?w1 @ [S3Put ''lake'' ''Sales/2024-01-02/r7.json'']"
      "table (snd (lambda_handler_ingest env_no_table (Fields body0) ?w1)) = [item1]"
      "i_statusCode (fst (lambda_handler_ingest env_no_table (Fields body0) ?w1)) = 500"
    unfolding w1
    by (simp_all add: lambda_handler_ingest_def ingest_def Let_def thenE_def put_object_def
          put_item_def log_def log_exc_def or_default_def s3_key_of_def is_ClientError_def
          env_no_table_def env0_def body0_def plain_lake)
  have t: "table ?w1 = [item1]"
    by (simp add: w1)
  show ?thesis
    by (intro conjI h t run found [THEN conjunct1]
          found [THEN conjunct2, THEN conjunct2, THEN conjunct1])
qed

end
